theory Spec2Isabelle
  imports Complex_Main
begin

section \<open>Dense matrices and vectors as the code stores them\<close>

text \<open>
  The scalars of the code are C++ doubles. The development keeps the scalar type \<open>'a\<close>
  abstract: the definitions only use the operations the code applies (\<open>0\<close>, \<open>1\<close>, \<open>+\<close>,
  \<open>*\<close>, \<open>/\<close> and the comparisons), and no algebraic law unless a theorem lists a
  stronger sort. \<open>std::isnan\<close> is a parameter where the code calls it.

  An \<open>Eigen::MatrixXd\<close> is a dense column-major array: the coefficient (i, j) of a
  matrix with r rows is stored at position j * r + i. An \<open>Eigen::VectorXd\<close> is a list.
\<close>

record 'a mat =
  rows :: nat
  cols :: nat
  dat :: "'a list"

definition coeff :: "'a mat \<Rightarrow> nat \<Rightarrow> nat \<Rightarrow> 'a" where
  "coeff m i j = dat m ! (j * rows m + i)"

definition mk :: "nat \<Rightarrow> nat \<Rightarrow> (nat \<Rightarrow> nat \<Rightarrow> 'a) \<Rightarrow> 'a mat" where
  "mk r c f = \<lparr>rows = r, cols = c, dat = map (\<lambda>k. f (k mod r) (k div r)) [0..<r * c]\<rparr>"

text \<open>\<open>block(startRow, startCol, blockRows, blockCols)\<close> read as a value.\<close>

definition block :: "'a mat \<Rightarrow> nat \<Rightarrow> nat \<Rightarrow> nat \<Rightarrow> nat \<Rightarrow> 'a mat" where
  "block m r0 c0 nr nc = mk nr nc (\<lambda>i j. coeff m (r0 + i) (c0 + j))"

text \<open>\<open>m.resize(r, c)\<close> with r * c equal to the old size keeps the storage.\<close>

definition resize :: "nat \<Rightarrow> nat \<Rightarrow> 'a mat \<Rightarrow> 'a mat" where
  "resize r c m = m\<lparr>rows := r, cols := c\<rparr>"

definition col :: "'a mat \<Rightarrow> nat \<Rightarrow> 'a list" where
  "col m j = map (\<lambda>i. coeff m i j) [0..<rows m]"

definition transpose_mat :: "'a mat \<Rightarrow> 'a mat" where
  "transpose_mat m = mk (cols m) (rows m) (\<lambda>i j. coeff m j i)"

definition sum_seq :: "nat \<Rightarrow> (nat \<Rightarrow> 'a) \<Rightarrow> 'a::{zero,plus}" where
  "sum_seq n f = foldl (+) 0 (map f [0..<n])"

definition mat_mul :: "'a mat \<Rightarrow> 'a mat \<Rightarrow> 'a::{zero,plus,times} mat" where
  "mat_mul A B = mk (rows A) (cols B) (\<lambda>i j. sum_seq (cols A) (\<lambda>k. coeff A i k * coeff B k j))"

definition mat_vec :: "'a mat \<Rightarrow> 'a list \<Rightarrow> 'a::{zero,plus,times} list" where
  "mat_vec A x = map (\<lambda>i. sum_seq (cols A) (\<lambda>k. coeff A i k * x ! k)) [0..<rows A]"

text \<open>
  A product with \<open>v.asDiagonal()\<close> scales the rows (diagonal on the left) or the
  columns (diagonal on the right) of the other factor.
\<close>

definition diag_mul_left :: "'a list \<Rightarrow> 'a mat \<Rightarrow> 'a::times mat" where
  "diag_mul_left v A = mk (length v) (cols A) (\<lambda>i j. v ! i * coeff A i j)"

definition diag_mul_right :: "'a mat \<Rightarrow> 'a list \<Rightarrow> 'a::times mat" where
  "diag_mul_right A v = mk (rows A) (length v) (\<lambda>i j. coeff A i j * v ! j)"

definition diag_mul_vec :: "'a list \<Rightarrow> 'a list \<Rightarrow> 'a::times list" where
  "diag_mul_vec v x = map (\<lambda>i. v ! i * x ! i) [0..<length v]"

definition mat_add :: "'a mat \<Rightarrow> 'a mat \<Rightarrow> 'a::plus mat" where
  "mat_add A B = mk (rows A) (cols A) (\<lambda>i j. coeff A i j + coeff B i j)"

definition scalar_mul :: "'a \<Rightarrow> 'a mat \<Rightarrow> 'a::times mat" where
  "scalar_mul l A = mk (rows A) (cols A) (\<lambda>i j. l * coeff A i j)"

definition trace :: "'a mat \<Rightarrow> 'a::{zero,plus}" where
  "trace A = sum_seq (min (rows A) (cols A)) (\<lambda>i. coeff A i i)"

text \<open>\<open>maxCoeff\<close> and \<open>minCoeff\<close> scan the coefficients from the first one.\<close>

definition maxCoeff :: "'a list \<Rightarrow> 'a::ord" where
  "maxCoeff xs = foldl (\<lambda>m x. if m < x then x else m) (hd xs) (tl xs)"

definition minCoeff :: "'a list \<Rightarrow> 'a::ord" where
  "minCoeff xs = foldl (\<lambda>m x. if x < m then x else m) (hd xs) (tl xs)"

section \<open>Exceptions\<close>

text \<open>
  The classes of \<open>lsst::pex::exceptions\<close> the code throws. An error carries the
  messages attached to it, oldest first (\<open>LSST_EXCEPT_ADD\<close> appends one), and the
  arguments given to the \<open>boost::format\<close> of the first message.
\<close>

datatype exn = Exception | InvalidParameterError | TypeError | RuntimeError

datatype 'a fmtarg = ArgInt nat | ArgDouble 'a

datatype 'a error = Error exn "string list" "'a fmtarg list"

text \<open>
  \<open>catch (pexExcept::Exception &e) { LSST_EXCEPT_ADD(e, msg); throw e; }\<close>: the
  rethrown object is a copy with the static type of the handler.
\<close>

fun rethrow_add :: "'a error \<Rightarrow> string \<Rightarrow> 'a error" where
  "rethrow_add (Error k msgs args) msg = Error Exception (msgs @ [msg]) args"

section \<open>The Eigen decompositions\<close>

text \<open>
  The decompositions of the Eigen library are parameters. Only the symmetric
  eigen-solver is used inside a \<open>try\<close> block in the code, so it is the one that
  may fail here; it returns the matrix of eigenvectors and the vector of eigenvalues.
\<close>

record 'a Eigen =
  lu_isInvertible :: "'a mat \<Rightarrow> bool"
  lu_solve :: "'a mat \<Rightarrow> 'a list \<Rightarrow> 'a list"
  SelfAdjointEigenSolver :: "'a mat \<Rightarrow> 'a error + ('a mat \<times> 'a list)"
  jacobiSvd_singularValues :: "'a mat \<Rightarrow> 'a list"

section \<open>KernelSolution\<close>

datatype KernelSolvedBy = NONE | LU | EIGENVECTOR

text \<open>
  \<open>ConditionNumberType\<close> is a C++ enumeration; \<open>UndefinedType n\<close> stands for any
  value that is neither of its two enumerators.
\<close>

datatype ConditionNumberType = EIGENVALUE | SVD | UndefinedType nat

record 'a KernelSolution =
  mMat :: "'a mat"
  bVec :: "'a list"
  aVec :: "'a list"
  solvedBy :: KernelSolvedBy
  fitForBackground :: bool

text \<open>The three constructors; the global solution counter is left out.\<close>

definition KernelSolution_init :: "'a mat \<Rightarrow> 'a list \<Rightarrow> bool \<Rightarrow> 'a KernelSolution" where
  "KernelSolution_init m b fit =
     \<lparr>mMat = m, bVec = b, aVec = [], solvedBy = NONE, fitForBackground = fit\<rparr>"

definition empty_mat :: "'a mat" where
  "empty_mat = \<lparr>rows = 0, cols = 0, dat = []\<rparr>"


definition KernelSolution_default :: "'a KernelSolution" where
  "KernelSolution_default = KernelSolution_init empty_mat [] True"

text \<open>
  \<open>getConditionNumber\<close>. The quotient is that of the scalar type: on doubles a zero
  divisor gives an infinity or NaN, so a statement about numbers that have neither
  assumes the divisor not zero.
\<close>

definition getConditionNumber ::
  "'a Eigen \<Rightarrow> 'a mat \<Rightarrow> ConditionNumberType \<Rightarrow> 'a error + ('a::{inverse,ord})" where
  "getConditionNumber E m conditionType =
     (case conditionType of
        EIGENVALUE \<Rightarrow>
          (case SelfAdjointEigenSolver E m of
             Inl e \<Rightarrow> Inl e
           | Inr (rMat, eValues) \<Rightarrow>
               (let eMax = maxCoeff eValues; eMin = minCoeff eValues in Inr (eMax / eMin)))
      | SVD \<Rightarrow>
          (let sValues = jacobiSvd_singularValues E m;
               sMax = maxCoeff sValues; sMin = minCoeff sValues
           in Inr (sMax / sMin))
      | UndefinedType n \<Rightarrow>
          Inl (Error InvalidParameterError
                 [''Undefined ConditionNumberType : only EIGENVALUE, SVD allowed.''] []))"

text \<open>The loop of \<open>solve\<close> that inverts the eigenvalues in place.\<close>

definition invert_eValues :: "'a list \<Rightarrow> 'a::{zero,one,inverse} list" where
  "invert_eValues eValues =
     fold (\<lambda>i ev. if ev ! i \<noteq> 0 then ev[i := 1 / ev ! i] else ev) [0..<length eValues] eValues"

definition KernelSolution_solve ::
  "'a Eigen \<Rightarrow> 'a mat \<Rightarrow> 'a list \<Rightarrow> ('a::{zero,one,plus,times,inverse}, 'z) KernelSolution_scheme
     \<Rightarrow> ('a error + unit) \<times> ('a, 'z) KernelSolution_scheme" where
  "KernelSolution_solve E m b s =
     (let s1 = s\<lparr>solvedBy := LU\<rparr>
      in if lu_isInvertible E m then
           (Inr (), s1\<lparr>aVec := lu_solve E m b\<rparr>)
         else
           (let s2 = s1\<lparr>solvedBy := EIGENVECTOR\<rparr> in
            case SelfAdjointEigenSolver E m of
              Inl e \<Rightarrow>
                (Inl (Error Exception [''Unable to determine kernel solution''] []),
                 s2\<lparr>solvedBy := NONE\<rparr>)
            | Inr (rMat, eValues0) \<Rightarrow>
                (let eValues = invert_eValues eValues0;
                     a = mat_vec (mat_mul (diag_mul_right rMat eValues) (transpose_mat rMat)) b
                 in (Inr (), s2\<lparr>aVec := a\<rparr>))))"


section \<open>Images and the services of the image library\<close>

text \<open>
  An image is its dimensions and its pixels in row-major order, as the array behind an
  \<open>afw::image::Image\<close>: pixel (x, y) is at position y * width + x.
\<close>

record 'a Image =
  getWidth :: nat
  getHeight :: nat
  getArray :: "'a list"

definition pixel :: "'a Image \<Rightarrow> nat \<Rightarrow> nat \<Rightarrow> 'a" where
  "pixel img x y = getArray img ! (y * getWidth img + x)"

record Box2I =
  getMinX :: int
  getMinY :: int
  getMaxX :: int
  getMaxY :: int

definition getBBox_LOCAL :: "'a Image \<Rightarrow> Box2I" where
  "getBBox_LOCAL img =
     \<lparr>getMinX = 0, getMinY = 0, getMaxX = int (getWidth img) - 1, getMaxY = int (getHeight img) - 1\<rparr>"

text \<open>
  Modelled from the spec: \<open>imageToEigenMatrix\<close> (in ImageSubtract.cc, which is not among
  the sources) gives the matrix view of an image in which element (row, col) is the
  pixel (x = col, y = row).
\<close>

definition imageToEigenMatrix :: "'a Image \<Rightarrow> 'a mat" where
  "imageToEigenMatrix img = mk (getHeight img) (getWidth img) (\<lambda>row col. pixel img col row)"

text \<open>\<open>m.array().inverse().matrix()\<close>: the coefficient-wise reciprocal.\<close>

definition array_inverse :: "'a mat \<Rightarrow> 'a::{one,inverse} mat" where
  "array_inverse m = m\<lparr>dat := map (\<lambda>x. 1 / x) (dat m)\<rparr>"

text \<open>Conversion of an \<open>int\<close> to \<open>unsigned int\<close>, and the difference of two of them.\<close>

definition unsigned_int :: "int \<Rightarrow> nat" where
  "unsigned_int x = nat (x mod 2 ^ 32)"

definition unsigned_sub :: "nat \<Rightarrow> nat \<Rightarrow> nat" where
  "unsigned_sub a b = unsigned_int (int a - int b)"

text \<open>
  A \<open>LinearCombinationKernel\<close>: the basis kernels (of an abstract type \<open>'k\<close>), the
  coefficients of a fixed kernel, and the spatial parameters of a spatially varying one.
\<close>

record 'a Function2 =
  getParameters :: "'a list"
  evaluate :: "'a list \<Rightarrow> 'a \<Rightarrow> 'a \<Rightarrow> 'a"

record ('a, 'k) LinearCombinationKernel =
  getKernelList :: "'k list"
  getKernelParameters :: "'a list"
  spatialFunction :: "'a Function2 option"
  getSpatialParameters :: "'a list list"

definition LinearCombinationKernel_fixed :: "'k list \<Rightarrow> 'a list \<Rightarrow> ('a, 'k) LinearCombinationKernel" where
  "LinearCombinationKernel_fixed basisList kValues =
     \<lparr>getKernelList = basisList, getKernelParameters = kValues,
      spatialFunction = None, getSpatialParameters = []\<rparr>"

definition LinearCombinationKernel_spatial ::
  "'k list \<Rightarrow> 'a Function2 \<Rightarrow> ('a::zero, 'k) LinearCombinationKernel" where
  "LinearCombinationKernel_spatial basisList f =
     \<lparr>getKernelList = basisList, getKernelParameters = replicate (length basisList) 0,
      spatialFunction = Some f,
      getSpatialParameters = replicate (length basisList) (getParameters f)\<rparr>"

text \<open>
  The functions of the image library (afw) that the solutions call are parameters:
  the minimum of an image, the box of pixels a kernel leaves valid, the convolution
  of an image with a kernel (the new contents of the output image), the sum of a
  kernel's image (what \<open>computeImage\<close> returns), the kernel image itself, the
  centre column of a kernel, and the mask of bad pixels grown by a number of pixels.
\<close>

record ('a, 'k) Afw =
  makeStatistics_MIN :: "'a Image \<Rightarrow> 'a"
  shrinkBBox :: "'k \<Rightarrow> Box2I \<Rightarrow> Box2I"
  convolve :: "'a Image \<Rightarrow> 'k \<Rightarrow> 'a Image"
  computeImage :: "('a, 'k) LinearCombinationKernel \<Rightarrow> 'a"
  kernelImage :: "('a, 'k) LinearCombinationKernel \<Rightarrow> 'a Image"
  getCtrX :: "'k \<Rightarrow> int"
  grownBadMask :: "nat Image \<Rightarrow> int \<Rightarrow> nat Image"

section \<open>StaticKernelSolution\<close>

record ('a, 'k) StaticKernelSolution = "'a KernelSolution" +
  cMat :: "'a mat"
  iVec :: "'a list"
  ivVec :: "'a list"
  kernel :: "('a, 'k) LinearCombinationKernel"
  background :: 'a
  kSum :: 'a

definition StaticKernelSolution_init ::
  "'k list \<Rightarrow> bool \<Rightarrow> ('a::zero, 'k) StaticKernelSolution" where
  "StaticKernelSolution_init basisList fit =
     \<lparr>mMat = empty_mat, bVec = [], aVec = [], solvedBy = NONE, fitForBackground = fit,
      cMat = empty_mat, iVec = [], ivVec = [],
      kernel = LinearCombinationKernel_fixed basisList (replicate (length basisList) 0),
      background = 0, kSum = 0\<rparr>"

definition getKernel ::
  "('a, 'k, 'z) StaticKernelSolution_scheme \<Rightarrow> 'a error + ('a, 'k) LinearCombinationKernel" where
  "getKernel s =
     (if solvedBy s = NONE then Inl (Error Exception [''Kernel not solved; cannot return solution''] [])
      else Inr (kernel s))"

definition makeKernelImage ::
  "('a, 'k) Afw \<Rightarrow> ('a, 'k, 'z) StaticKernelSolution_scheme \<Rightarrow> 'a error + 'a Image" where
  "makeKernelImage A s =
     (if solvedBy s = NONE then Inl (Error Exception [''Kernel not solved; cannot return image''] [])
      else Inr (kernelImage A (kernel s)))"

definition getBackground :: "('a, 'k, 'z) StaticKernelSolution_scheme \<Rightarrow> 'a error + 'a" where
  "getBackground s =
     (if solvedBy s = NONE then Inl (Error Exception [''Kernel not solved; cannot return background''] [])
      else Inr (background s))"

definition getKsum :: "('a, 'k, 'z) StaticKernelSolution_scheme \<Rightarrow> 'a error + 'a" where
  "getKsum s =
     (if solvedBy s = NONE then Inl (Error Exception [''Kernel not solved; cannot return ksum''] [])
      else Inr (kSum s))"

definition getSolutionPair ::
  "('a, 'k, 'z) StaticKernelSolution_scheme
     \<Rightarrow> 'a error + (('a, 'k) LinearCombinationKernel \<times> 'a)" where
  "getSolutionPair s =
     (if solvedBy s = NONE then Inl (Error Exception [''Kernel not solved; cannot return solution''] [])
      else Inr (kernel s, background s))"

text \<open>Assignment to a column, and \<open>col(j).fill(v)\<close>.\<close>

definition set_col :: "'a mat \<Rightarrow> nat \<Rightarrow> 'a list \<Rightarrow> 'a mat" where
  "set_col m j v = mk (rows m) (cols m) (\<lambda>i j'. if j' = j then v ! i else coeff m i j')"

definition fill_col :: "'a mat \<Rightarrow> nat \<Rightarrow> 'a \<Rightarrow> 'a mat" where
  "fill_col m j v = mk (rows m) (cols m) (\<lambda>i j'. if j' = j then v else coeff m i j')"

text \<open>
  \<open>build\<close>. The design matrix is declared without initial values in the code and every
  column of it is assigned afterwards; it starts from zeros here.
\<close>

definition StaticKernelSolution_build ::
  "('a::{zero,one,plus,times,inverse,ord}, 'k) Afw \<Rightarrow> 'a Image \<Rightarrow> 'a Image \<Rightarrow> 'a Image
     \<Rightarrow> ('a, 'k, 'z) StaticKernelSolution_scheme
     \<Rightarrow> ('a error + unit) \<times> ('a, 'k, 'z) StaticKernelSolution_scheme" where
  "StaticKernelSolution_build A templateImage scienceImage varianceEstimate s =
     (let varMin = makeStatistics_MIN A varianceEstimate in
      if varMin < 0 then
        (Inl (Error Exception [''Error: variance less than 0.0''] []), s)
      else if varMin = 0 then
        (Inl (Error Exception [''Error: variance equals 0.0, cannot inverse variance weight''] []), s)
      else
        (let basisList = getKernelList (kernel s);
             nKernelParameters = length basisList;
             nBackgroundParameters = (if fitForBackground s then 1 else 0);
             nParameters = nKernelParameters + nBackgroundParameters;
             goodBBox = shrinkBBox A (hd basisList) (getBBox_LOCAL templateImage);
             startCol = unsigned_int (getMinX goodBBox);
             startRow = unsigned_int (getMinY goodBBox);
             endCol = unsigned_int (getMaxX goodBBox + 1);
             endRow = unsigned_int (getMaxY goodBBox + 1);
             good = (\<lambda>m. block m startRow startCol
                            (unsigned_sub endRow startRow) (unsigned_sub endCol startCol));
             flat = (\<lambda>m. resize (rows m * cols m) 1 m);
             eigenTemplate = flat (good (imageToEigenMatrix templateImage));
             eigenScience = flat (good (imageToEigenMatrix scienceImage));
             eigeniVariance = flat (array_inverse (good (imageToEigenMatrix varianceEstimate)));
             convolvedEigenList =
               map (\<lambda>k. flat (good (imageToEigenMatrix (convolve A templateImage k)))) basisList;
             cMat0 = mk (length (col eigenTemplate 0)) nParameters (\<lambda>i j. 0);
             cMat1 = fold (\<lambda>kidxj c. set_col c kidxj (col (convolvedEigenList ! kidxj) 0))
                       [0..<nKernelParameters] cMat0;
             cMat2 = (if fitForBackground s then fill_col cMat1 (nParameters - 1) 1 else cMat1);
             s1 = s\<lparr>cMat := cMat2, ivVec := col eigeniVariance 0, iVec := col eigenScience 0\<rparr>;
             s2 = s1\<lparr>mMat := mat_mul (transpose_mat (cMat s1)) (diag_mul_left (ivVec s1) (cMat s1))\<rparr>;
             s3 = s2\<lparr>bVec := mat_vec (transpose_mat (cMat s2)) (diag_mul_vec (ivVec s2) (iVec s2))\<rparr>
         in (Inr (), s3)))"

text \<open>\<open>_setKernel\<close>: the coefficients become the kernel and the background.\<close>

definition StaticKernelSolution_setKernel ::
  "('a, 'k) Afw \<Rightarrow> ('a \<Rightarrow> bool) \<Rightarrow> ('a, 'k, 'z) StaticKernelSolution_scheme
     \<Rightarrow> ('a error + unit) \<times> ('a, 'k, 'z) StaticKernelSolution_scheme" where
  "StaticKernelSolution_setKernel A isnan s =
     (if solvedBy s = NONE then
        (Inl (Error Exception [''Kernel not solved; cannot make solution''] []), s)
      else
        (let nParameters = length (aVec s);
             nBackgroundParameters = (if fitForBackground s then 1 else 0);
             nKernelParameters = length (getKernelList (kernel s))
         in if nParameters \<noteq> nKernelParameters + nBackgroundParameters then
              (Inl (Error Exception [''Mismatched sizes in kernel solution''] []), s)
            else
              (case find (\<lambda>idx. isnan (aVec s ! idx)) [0..<nKernelParameters] of
                 Some idx \<Rightarrow>
                   (Inl (Error Exception [''Unable to determine kernel solution %d (nan)'']
                          [ArgInt idx]), s)
               | None \<Rightarrow>
                   (let kValues = map (\<lambda>idx. aVec s ! idx) [0..<nKernelParameters];
                        s1 = s\<lparr>kernel := (kernel s)\<lparr>getKernelParameters := kValues\<rparr>\<rparr>;
                        s2 = s1\<lparr>kSum := computeImage A (kernel s1)\<rparr>
                    in if fitForBackground s2 then
                         (if isnan (aVec s2 ! (nParameters - 1)) then
                            (Inl (Error Exception
                                    [''Unable to determine background solution %d (nan)'']
                                    [ArgInt (nParameters - 1)]), s2)
                          else (Inr (), s2\<lparr>background := aVec s2 ! (nParameters - 1)\<rparr>))
                       else (Inr (), s2)))))"

definition StaticKernelSolution_solve ::
  "('a::{zero,one,plus,times,inverse}, 'k) Afw \<Rightarrow> 'a Eigen \<Rightarrow> ('a \<Rightarrow> bool)
     \<Rightarrow> ('a, 'k, 'z) StaticKernelSolution_scheme
     \<Rightarrow> ('a error + unit) \<times> ('a, 'k, 'z) StaticKernelSolution_scheme" where
  "StaticKernelSolution_solve A E isnan s =
     (case KernelSolution_solve E (mMat s) (bVec s) s of
        (Inl e, s1) \<Rightarrow> (Inl (rethrow_add e ''Unable to solve static kernel matrix''), s1)
      | (Inr u, s1) \<Rightarrow> StaticKernelSolution_setKernel A isnan s1)"


section \<open>MaskedKernelSolution\<close>

text \<open>
  \<open>buildWithMask\<close>. The grown mask of bad pixels comes from the detection library.
  Flattening an image over the footprint of the full box lists its pixels row by row.
  The two debugging files the code writes are not modelled.
\<close>

definition MaskedKernelSolution_buildWithMask ::
  "('a::{zero,one,plus,times,inverse,ord}, 'k) Afw \<Rightarrow> 'a Image \<Rightarrow> 'a Image \<Rightarrow> 'a Image
     \<Rightarrow> nat Image \<Rightarrow> ('a, 'k, 'z) StaticKernelSolution_scheme
     \<Rightarrow> ('a error + unit) \<times> ('a, 'k, 'z) StaticKernelSolution_scheme" where
  "MaskedKernelSolution_buildWithMask A templateImage scienceImage varianceEstimate pixelMask s =
     (let varMin = makeStatistics_MIN A varianceEstimate in
      if varMin < 0 then
        (Inl (Error Exception [''Error: variance less than 0.0''] []), s)
      else if varMin = 0 then
        (Inl (Error Exception [''Error: variance equals 0.0, cannot inverse variance weight''] []), s)
      else
        (let basisList = getKernelList (kernel s);
             growPix = getCtrX A (hd basisList);
             finalMask = grownBadMask A pixelMask growPix;
             maskEigen = getArray finalMask;
             eigenTemplate0 = getArray templateImage;
             eigenScience0 = getArray scienceImage;
             eigenVariance0 = getArray varianceEstimate;
             used = filter (\<lambda>i. maskEigen ! i = 0) [0..<length maskEigen];
             eigenTemplate = map (\<lambda>i. eigenTemplate0 ! i) used;
             eigenScience = map (\<lambda>i. eigenScience0 ! i) used;
             eigenVariance = map (\<lambda>i. eigenVariance0 ! i) used;
             nKernelParameters = length basisList;
             nBackgroundParameters = (if fitForBackground s then 1 else 0);
             nParameters = nKernelParameters + nBackgroundParameters;
             convolvedEigenList =
               map (\<lambda>k. map (\<lambda>i. getArray (convolve A templateImage k) ! i) used) basisList;
             cMat0 = mk (length eigenTemplate) nParameters (\<lambda>i j. 0);
             cMat1 = fold (\<lambda>kidxj c. set_col c kidxj (convolvedEigenList ! kidxj))
                       [0..<nKernelParameters] cMat0;
             cMat2 = (if fitForBackground s then fill_col cMat1 (nParameters - 1) 1 else cMat1);
             s1 = s\<lparr>cMat := cMat2, ivVec := map (\<lambda>x. 1 / x) eigenVariance, iVec := eigenScience\<rparr>;
             s2 = s1\<lparr>mMat := mat_mul (diag_mul_right (transpose_mat (cMat s1)) (ivVec s1)) (cMat s1)\<rparr>;
             s3 = s2\<lparr>bVec := mat_vec (diag_mul_right (transpose_mat (cMat s2)) (ivVec s2)) (iVec s2)\<rparr>
         in (Inr (), s3)))"

section \<open>RegularizedKernelSolution\<close>

text \<open>
  The configuration (a property set in the code) with the keys the solutions and the
  candidate read; every key is present.
\<close>

record 'a Policy =
  p_fitForBackground :: bool
  p_constantVarianceWeighting :: bool
  p_iterateSingleKernel :: bool
  p_checkConditionNumber :: bool
  p_maxConditionNumber :: 'a
  p_conditionNumberType :: string
  p_lambdaType :: string
  p_lambdaValue :: 'a
  p_lambdaScaling :: 'a
  p_kernelBasisSet :: string
  p_usePcaForSpatialKernel :: bool

record ('a, 'k) RegularizedKernelSolution = "('a, 'k) StaticKernelSolution" +
  hMat :: "'a mat"
  lambda :: 'a
  policy :: "'a Policy"

text \<open>The constructor leaves \<open>_lambda\<close> without a value; it starts from zero here.\<close>

definition RegularizedKernelSolution_init ::
  "'k list \<Rightarrow> bool \<Rightarrow> 'a mat \<Rightarrow> 'a Policy \<Rightarrow> ('a::zero, 'k) RegularizedKernelSolution" where
  "RegularizedKernelSolution_init basisList fit h pol =
     \<lparr>mMat = empty_mat, bVec = [], aVec = [], solvedBy = NONE, fitForBackground = fit,
      cMat = empty_mat, iVec = [], ivVec = [],
      kernel = LinearCombinationKernel_fixed basisList (replicate (length basisList) 0),
      background = 0, kSum = 0, hMat = h, lambda = 0, policy = pol\<rparr>"

text \<open>
  \<open>solve\<close>. The search for the \<open>lambda\<close> of least risk (\<open>estimateRisk\<close>) is a
  parameter: it is given the largest condition number to keep and the solution, and
  returns \<open>lambda\<close> or fails; \<open>dbl_max\<close> is \<open>std::numeric_limits<double>::max()\<close>.
\<close>

definition RegularizedKernelSolution_solve ::
  "('a::{zero,one,plus,times,inverse}, 'k) Afw \<Rightarrow> 'a Eigen \<Rightarrow> ('a \<Rightarrow> bool)
     \<Rightarrow> ('a \<Rightarrow> ('a, 'k) RegularizedKernelSolution
           \<Rightarrow> ('a error + 'a) \<times> ('a, 'k) RegularizedKernelSolution)
     \<Rightarrow> 'a \<Rightarrow> ('a, 'k) RegularizedKernelSolution
     \<Rightarrow> ('a error + unit) \<times> ('a, 'k) RegularizedKernelSolution" where
  "RegularizedKernelSolution_solve A E isnan estimateRisk dbl_max s =
     (let s1 = s\<lparr>mMat := mat_mul (diag_mul_right (transpose_mat (cMat s)) (ivVec s)) (cMat s)\<rparr>;
          s2 = s1\<lparr>bVec := mat_vec (diag_mul_right (transpose_mat (cMat s1)) (ivVec s1)) (iVec s1)\<rparr>;
          lambdaType = p_lambdaType (policy s2);
          chosen =
            (if lambdaType = ''absolute'' then
               (Inr (), s2\<lparr>lambda := p_lambdaValue (policy s2)\<rparr>)
             else if lambdaType = ''relative'' then
               (let s3 = s2\<lparr>lambda := trace (mMat s2) / trace (hMat s2)\<rparr>
                in (Inr (), s3\<lparr>lambda := lambda s3 * p_lambdaScaling (policy s3)\<rparr>))
             else if lambdaType = ''minimizeBiasedRisk'' then
               (case estimateRisk (p_maxConditionNumber (policy s2)) s2 of
                  (Inl e, s3) \<Rightarrow> (Inl e, s3)
                | (Inr l, s3) \<Rightarrow> (Inr (), s3\<lparr>lambda := l\<rparr>))
             else if lambdaType = ''minimizeUnbiasedRisk'' then
               (case estimateRisk dbl_max s2 of
                  (Inl e, s3) \<Rightarrow> (Inl e, s3)
                | (Inr l, s3) \<Rightarrow> (Inr (), s3\<lparr>lambda := l\<rparr>))
             else
               (Inl (Error Exception [''lambdaType in Policy not recognized''] []), s2))
      in case chosen of
           (Inl e, s4) \<Rightarrow> (Inl e, s4)
         | (Inr u, s4) \<Rightarrow>
             (case KernelSolution_solve E
                     (mat_add (mMat s4) (scalar_mul (lambda s4) (hMat s4))) (bVec s4) s4 of
                (Inl e, s5) \<Rightarrow> (Inl (rethrow_add e ''Unable to solve static kernel matrix''), s5)
              | (Inr u, s5) \<Rightarrow> StaticKernelSolution_setKernel A isnan s5))"

section \<open>SpatialKernelSolution\<close>

record ('a, 'k) SpatialKernelSolution = "'a KernelSolution" +
  spatialKernelFunction :: "'a Function2"
  constantFirstTerm :: bool
  spatialKernel :: "('a, 'k) LinearCombinationKernel"
  backgroundFunction :: "'a Function2"
  spatialKSum :: 'a
  spatialPolicy :: "'a Policy"
  nbases :: int
  nkt :: int
  nbt :: int
  nt :: int

definition SpatialKernelSolution_init ::
  "'k list \<Rightarrow> 'a Function2 \<Rightarrow> 'a Function2 \<Rightarrow> 'a Policy
     \<Rightarrow> ('a::zero, 'k) SpatialKernelSolution" where
  "SpatialKernelSolution_init basisList f bg pol =
     (let isAlardLupton = (p_kernelBasisSet pol = ''alard-lupton'');
          usePca = p_usePcaForSpatialKernel pol;
          cft = (isAlardLupton \<or> usePca);
          fit = p_fitForBackground pol;
          nb = int (length basisList);
          nk = int (length (getParameters f));
          nbg = (if fit then int (length (getParameters bg)) else 0);
          n = (if cft then (nb - 1) * nk + 1 + nbg else nb * nk + nbg)
      in \<lparr>mMat = mk (nat n) (nat n) (\<lambda>i j. 0), bVec = replicate (nat n) 0, aVec = [],
          solvedBy = NONE, fitForBackground = fit,
          spatialKernelFunction = f, constantFirstTerm = cft,
          spatialKernel = LinearCombinationKernel_spatial basisList f,
          backgroundFunction = bg, spatialKSum = 0, spatialPolicy = pol,
          nbases = nb, nkt = nk, nbt = nbg, nt = n\<rparr>)"

text \<open>
  The values of a spatial function for each unit parameter vector: the parameters
  are set to zero, then each in turn to one while the function is evaluated. The
  function object keeps the last parameter vector it was given.
\<close>

definition unit_responses ::
  "'a Function2 \<Rightarrow> nat \<Rightarrow> 'a \<Rightarrow> 'a \<Rightarrow> ('a::{zero,one}) list \<times> 'a Function2" where
  "unit_responses f n x y =
     (let params0 = fold (\<lambda>idx p. p[idx := 0]) [0..<n] (getParameters f)
      in fold (\<lambda>idx (p, g).
                 (let g' = g\<lparr>getParameters := params0[idx := 1]\<rparr>
                  in (p @ [evaluate g' (getParameters g') x y], g')))
              [0..<n] ([], f))"

definition outer :: "'a list \<Rightarrow> 'a list \<Rightarrow> 'a::times mat" where
  "outer u v = mk (length u) (length v) (\<lambda>i j. u ! i * v ! j)"

definition row_vec :: "'a list \<Rightarrow> 'a mat" where
  "row_vec v = mk 1 (length v) (\<lambda>i j. v ! j)"

definition scale_right :: "'a mat \<Rightarrow> 'a \<Rightarrow> 'a::times mat" where
  "scale_right A q = mk (rows A) (cols A) (\<lambda>i j. coeff A i j * q)"

text \<open>
  Adding \<open>X.triangularView<Eigen::Upper>()\<close> to a block adds the coefficients of X on
  and above the diagonal, and zero below it.
\<close>

definition triangularView_Upper :: "'a mat \<Rightarrow> 'a::zero mat" where
  "triangularView_Upper X = mk (rows X) (cols X) (\<lambda>i j. if i \<le> j then coeff X i j else 0)"

text \<open>\<open>m.block(r0, c0, nr, nc) += X\<close>, \<open>m(i, j) += v\<close>, \<open>m(i, j) = v\<close>, \<open>b.segment(k0, n) += v\<close>.\<close>

definition block_add :: "'a mat \<Rightarrow> nat \<Rightarrow> nat \<Rightarrow> nat \<Rightarrow> nat \<Rightarrow> 'a mat \<Rightarrow> 'a::plus mat" where
  "block_add m r0 c0 nr nc X =
     mk (rows m) (cols m)
       (\<lambda>i j. if r0 \<le> i \<and> i < r0 + nr \<and> c0 \<le> j \<and> j < c0 + nc
              then coeff m i j + coeff X (i - r0) (j - c0) else coeff m i j)"

definition set_coeff :: "'a mat \<Rightarrow> nat \<Rightarrow> nat \<Rightarrow> 'a \<Rightarrow> 'a mat" where
  "set_coeff m i j v = mk (rows m) (cols m) (\<lambda>i' j'. if i' = i \<and> j' = j then v else coeff m i' j')"

definition segment_add :: "'a list \<Rightarrow> nat \<Rightarrow> nat \<Rightarrow> 'a list \<Rightarrow> 'a::plus list" where
  "segment_add b k0 n v =
     map (\<lambda>k. if k0 \<le> k \<and> k < k0 + n then b ! k + v ! (k - k0) else b ! k) [0..<length b]"

definition SpatialKernelSolution_addConstraint ::
  "'a \<Rightarrow> 'a \<Rightarrow> 'a mat \<Rightarrow> 'a list \<Rightarrow> ('a::{zero,one,plus,times}, 'k) SpatialKernelSolution
     \<Rightarrow> ('a, 'k) SpatialKernelSolution" where
  "SpatialKernelSolution_addConstraint xCenter yCenter qMat wVec s =
     (let n_kt = nat (nkt s); n_bt = nat (nbt s); n_b = nat (nbases s);
          (pK, fK) = unit_responses (spatialKernelFunction s) n_kt xCenter yCenter;
          pKpKt = outer pK pK;
          (pB, fB) = (if fitForBackground s
                      then unit_responses (backgroundFunction s) n_bt xCenter yCenter
                      else ([], backgroundFunction s));
          pBpBt = outer pB pB;
          pKpBt = outer pK pB;
          s0 = s\<lparr>spatialKernelFunction := fK, backgroundFunction := fB\<rparr>;
          m0 = (if constantFirstTerm s then 1 else 0);
          dm = (if constantFirstTerm s then nkt s - 1 else 0);
          mb = nat (nt s - nbt s);
          start = (\<lambda>m. nat (int m * nkt s - dm));
          s1 = (if constantFirstTerm s then
                  (let M1 = set_coeff (mMat s0) 0 0 (coeff (mMat s0) 0 0 + coeff qMat 0 0);
                       M2 = fold (\<lambda>m2 M. block_add M 0 (start m2) 1 n_kt
                                           (scalar_mul (coeff qMat 0 m2) (row_vec pK)))
                              [1..<n_b] M1;
                       b1 = (bVec s0)[0 := bVec s0 ! 0 + wVec ! 0];
                       M3 = (if fitForBackground s
                             then block_add M2 0 mb 1 n_bt (scalar_mul (coeff qMat 0 n_b) (row_vec pB))
                             else M2)
                   in s0\<lparr>mMat := M3, bVec := b1\<rparr>)
                else s0);
          s2 = fold (\<lambda>m1 st.
                 (let M1 = block_add (mMat st) (start m1) (start m1) n_kt n_kt
                             (triangularView_Upper (scale_right pKpKt (coeff qMat m1 m1)));
                      M2 = fold (\<lambda>m2 M. block_add M (start m1) (start m2) n_kt n_kt
                                          (scalar_mul (coeff qMat m1 m2) pKpKt))
                             [m1 + 1..<n_b] M1;
                      M3 = (if fitForBackground s
                            then block_add M2 (start m1) mb n_kt n_bt
                                   (scalar_mul (coeff qMat m1 n_b) pKpBt)
                            else M2);
                      b1 = segment_add (bVec st) (start m1) n_kt (map (\<lambda>p. wVec ! m1 * p) pK)
                  in st\<lparr>mMat := M3, bVec := b1\<rparr>))
                 [m0..<n_b] s1;
          s3 = (if fitForBackground s then
                  s2\<lparr>mMat := block_add (mMat s2) mb mb n_bt n_bt
                                (triangularView_Upper (scale_right pBpBt (coeff qMat n_b n_b))),
                     bVec := segment_add (bVec s2) mb n_bt (map (\<lambda>p. wVec ! n_b * p) pB)\<rparr>
                else s2)
      in s3)"

text \<open>The loop of \<open>solve\<close> that fills in the other half of the matrix.\<close>

definition fill_lower :: "nat \<Rightarrow> 'a mat \<Rightarrow> 'a mat" where
  "fill_lower n m =
     fold (\<lambda>i M. fold (\<lambda>j M'. set_coeff M' j i (coeff M' i j)) [i + 1..<n] M) [0..<n] m"

text \<open>
  The loop of \<open>_setKernel\<close> over the basis kernels of a spatially varying solution:
  \<open>idx\<close> is the next coefficient to read. It stops at the first NaN with the number
  of the message (2 or 3) and the index; otherwise it returns the coefficients.
\<close>

fun kCoeffs_loop ::
  "('a \<Rightarrow> bool) \<Rightarrow> 'a list \<Rightarrow> bool \<Rightarrow> nat \<Rightarrow> nat list \<Rightarrow> nat \<Rightarrow> 'a list list
     \<Rightarrow> (nat \<times> nat) + ('a::zero) list list" where
  "kCoeffs_loop isnan a cft n_kt [] idx kCoeffs = Inr kCoeffs"
| "kCoeffs_loop isnan a cft n_kt (i # bases) idx kCoeffs =
     (if i = 0 \<and> cft then
        (if isnan (a ! idx) then Inl (2, idx)
         else kCoeffs_loop isnan a cft n_kt bases (idx + 1)
                (kCoeffs @ [(replicate n_kt 0)[0 := a ! idx]]))
      else
        (case find (\<lambda>j. isnan (a ! (idx + j))) [0..<n_kt] of
           Some j \<Rightarrow> Inl (3, idx + j)
         | None \<Rightarrow> kCoeffs_loop isnan a cft n_kt bases (idx + n_kt)
                     (kCoeffs @ [map (\<lambda>j. a ! (idx + j)) [0..<n_kt]])))"

definition SpatialKernelSolution_setKernel ::
  "('a::{zero,inverse,ord}, 'k) Afw \<Rightarrow> 'a Eigen \<Rightarrow> ('a \<Rightarrow> bool) \<Rightarrow> ('a, 'k) SpatialKernelSolution
     \<Rightarrow> ('a error + unit) \<times> ('a, 'k) SpatialKernelSolution" where
  "SpatialKernelSolution_setKernel A E isnan s =
     (case getConditionNumber E (mMat s) EIGENVALUE of
        Inl e \<Rightarrow> (Inl e, s)
      | Inr cNumber \<Rightarrow>
          (let n_b = nat (nbases s); n_kt = nat (nkt s); n_bt = nat (nbt s);
               kernelSet =
                 (if nkt s = 1 then
                    (case find (\<lambda>i. isnan (aVec s ! i)) [0..<n_b] of
                       Some i \<Rightarrow>
                         Inl (Error Exception
                                [''I. Unable to determine spatial kernel solution %d (nan).  Condition number = %.3e'']
                                [ArgInt i, ArgDouble cNumber])
                     | None \<Rightarrow>
                         Inr (LinearCombinationKernel_fixed (getKernelList (spatialKernel s))
                                (map (\<lambda>i. aVec s ! i) [0..<n_b])))
                  else
                    (case kCoeffs_loop isnan (aVec s) (constantFirstTerm s) n_kt [0..<n_b] 0 [] of
                       Inl (which, idx) \<Rightarrow>
                         Inl (Error Exception
                                [if which = 2
                                 then ''II. Unable to determine spatial kernel solution %d (nan).  Condition number = %.3e''
                                 else ''III. Unable to determine spatial kernel solution %d (nan).  Condition number = %.3e'']
                                [ArgInt idx, ArgDouble cNumber])
                     | Inr kCoeffs \<Rightarrow>
                         Inr ((spatialKernel s)\<lparr>getSpatialParameters := kCoeffs\<rparr>)))
           in case kernelSet of
                Inl e \<Rightarrow> (Inl e, s)
              | Inr k \<Rightarrow>
                  (let s1 = s\<lparr>spatialKernel := k\<rparr>;
                       s2 = s1\<lparr>spatialKSum := computeImage A (spatialKernel s1)\<rparr>
                   in if fitForBackground s2 then
                        (case find (\<lambda>i. isnan (aVec s2 ! (nat (nt s2 - nbt s2 + int i)))) [0..<n_bt] of
                           Some i \<Rightarrow>
                             (Inl (Error Exception
                                     [''Unable to determine spatial background solution %d (nan)'']
                                     [ArgInt (nat (nt s2 - nbt s2 + int i))]), s2)
                         | None \<Rightarrow>
                             (Inr (), s2\<lparr>backgroundFunction := (backgroundFunction s2)
                                 \<lparr>getParameters :=
                                    map (\<lambda>i. aVec s2 ! (nat (nt s2 - nbt s2 + int i))) [0..<n_bt]\<rparr>\<rparr>))
                      else
                        (Inr (), s2\<lparr>backgroundFunction :=
                                     (backgroundFunction s2)\<lparr>getParameters := [0]\<rparr>\<rparr>))))"

definition SpatialKernelSolution_solve ::
  "('a::{zero,one,plus,times,inverse,ord}, 'k) Afw \<Rightarrow> 'a Eigen \<Rightarrow> ('a \<Rightarrow> bool)
     \<Rightarrow> ('a, 'k) SpatialKernelSolution
     \<Rightarrow> ('a error + unit) \<times> ('a, 'k) SpatialKernelSolution" where
  "SpatialKernelSolution_solve A E isnan s =
     (let s1 = s\<lparr>mMat := fill_lower (nat (nt s)) (mMat s)\<rparr>
      in case KernelSolution_solve E (mMat s1) (bVec s1) s1 of
           (Inl e, s2) \<Rightarrow> (Inl (rethrow_add e ''Unable to solve spatial kernel matrix''), s2)
         | (Inr u, s2) \<Rightarrow> SpatialKernelSolution_setKernel A E isnan s2)"


section \<open>KernelCandidate\<close>

record 'a MaskedImage =
  getImage :: "'a Image"
  getVariance :: "'a Image"

datatype Status = UNKNOWN | GOOD | BAD

text \<open>
  A solution slot of a candidate points to a \<open>StaticKernelSolution\<close> that may be a
  \<open>RegularizedKernelSolution\<close>; \<open>solve\<close> is virtual, \<open>build\<close> and
  \<open>getConditionNumber\<close> are those of the base classes.
\<close>

datatype ('a, 'k) Solution =
  Static "('a, 'k) StaticKernelSolution"
| Regularized "('a, 'k) RegularizedKernelSolution"

record ('a, 'k) KernelCandidate =
  templateMaskedImage :: "'a MaskedImage"
  scienceMaskedImage :: "'a MaskedImage"
  varianceEstimate :: "'a Image option"
  ps :: "'a Policy"
  isInitialized :: bool
  useRegularization :: bool
  candFitForBackground :: bool
  kernelSolutionOrig :: "('a, 'k) Solution option"
  kernelSolutionPca :: "('a, 'k) Solution option"
  status :: Status

text \<open>
  What the calls below need from outside the candidate. The last three fields are the
  operations of other files that \<open>build\<close> and \<open>getDifferenceImage\<close> call: the sum of
  two images (\<open>operator+=\<close> of the image library, which may throw), the median of an
  image, and \<open>convolveAndSubtract\<close>, whose result is the difference image
  science - (template convolved with the kernel) - background.
\<close>

record ('a, 'k) Env =
  afw :: "('a, 'k) Afw"
  eigen :: "'a Eigen"
  isnan :: "'a \<Rightarrow> bool"
  estimateRisk :: "'a \<Rightarrow> ('a, 'k) RegularizedKernelSolution
                     \<Rightarrow> ('a error + 'a) \<times> ('a, 'k) RegularizedKernelSolution"
  dbl_max :: 'a
  plusImage :: "'a Image \<Rightarrow> 'a Image \<Rightarrow> 'a error + 'a Image"
  makeStatistics_MEDIAN :: "'a Image \<Rightarrow> 'a"
  convolveAndSubtract :: "'a MaskedImage \<Rightarrow> 'a MaskedImage \<Rightarrow> ('a, 'k) LinearCombinationKernel
                            \<Rightarrow> 'a \<Rightarrow> 'a error + 'a MaskedImage"

fun Solution_build ::
  "('a::{zero,one,plus,times,inverse,ord}, 'k) Env \<Rightarrow> 'a Image \<Rightarrow> 'a Image \<Rightarrow> 'a Image
     \<Rightarrow> ('a, 'k) Solution \<Rightarrow> ('a error + unit) \<times> ('a, 'k) Solution" where
  "Solution_build env t sc v (Static x) =
     (case StaticKernelSolution_build (afw env) t sc v x of (r, x') \<Rightarrow> (r, Static x'))"
| "Solution_build env t sc v (Regularized x) =
     (case StaticKernelSolution_build (afw env) t sc v x of (r, x') \<Rightarrow> (r, Regularized x'))"

fun Solution_getConditionNumber ::
  "('a::{zero,one,plus,times,inverse,ord}, 'k) Env \<Rightarrow> ('a, 'k) Solution \<Rightarrow> ConditionNumberType
     \<Rightarrow> 'a error + 'a" where
  "Solution_getConditionNumber env (Static x) ctype = getConditionNumber (eigen env) (mMat x) ctype"
| "Solution_getConditionNumber env (Regularized x) ctype = getConditionNumber (eigen env) (mMat x) ctype"

fun Solution_solve ::
  "('a::{zero,one,plus,times,inverse,ord}, 'k) Env \<Rightarrow> ('a, 'k) Solution
     \<Rightarrow> ('a error + unit) \<times> ('a, 'k) Solution" where
  "Solution_solve env (Static x) =
     (case StaticKernelSolution_solve (afw env) (eigen env) (isnan env) x of
        (r, x') \<Rightarrow> (r, Static x'))"
| "Solution_solve env (Regularized x) =
     (case RegularizedKernelSolution_solve (afw env) (eigen env) (isnan env)
             (estimateRisk env) (dbl_max env) x of
        (r, x') \<Rightarrow> (r, Regularized x'))"

fun Solution_solvedBy :: "('a, 'k) Solution \<Rightarrow> KernelSolvedBy" where
  "Solution_solvedBy (Static x) = solvedBy x"
| "Solution_solvedBy (Regularized x) = solvedBy x"

text \<open>
  The text that \<open>_buildKernelSolution\<close> repeats in its four branches, for the new
  solution \<open>sol\<close> and the slot that \<open>put\<close> assigns: build, the gate on the condition
  number, solve. The slot holds the solution object, so it shows every change made to it.
\<close>

definition build_in_slot ::
  "('a::{zero,one,plus,times,inverse,ord}, 'k) Env \<Rightarrow> ConditionNumberType
     \<Rightarrow> (('a, 'k) Solution \<Rightarrow> ('a, 'k) KernelCandidate \<Rightarrow> ('a, 'k) KernelCandidate)
     \<Rightarrow> ('a, 'k) Solution \<Rightarrow> ('a, 'k) KernelCandidate
     \<Rightarrow> ('a error + unit) \<times> ('a, 'k) KernelCandidate" where
  "build_in_slot env ctype put sol c =
     (let checkConditionNumber = p_checkConditionNumber (ps c);
          maxConditionNumber = p_maxConditionNumber (ps c)
      in case Solution_build env (getImage (templateMaskedImage c))
                (getImage (scienceMaskedImage c)) (the (varianceEstimate c)) sol of
           (Inl e, sol1) \<Rightarrow> (Inl e, put sol1 c)
         | (Inr u, sol1) \<Rightarrow>
             (let solve = (case Solution_solve env sol1 of (r, sol2) \<Rightarrow> (r, put sol2 c))
              in if checkConditionNumber then
                   (case Solution_getConditionNumber env sol1 ctype of
                      Inl e \<Rightarrow> (Inl e, put sol1 c)
                    | Inr cond \<Rightarrow>
                        if cond > maxConditionNumber
                        then (Inr (), (put sol1 c)\<lparr>status := BAD\<rparr>)
                        else solve)
                 else solve))"

definition mat_size :: "'a mat \<Rightarrow> nat" where
  "mat_size m = rows m * cols m"

definition buildKernelSolution ::
  "('a::{zero,one,plus,times,inverse,ord}, 'k) Env \<Rightarrow> 'k list \<Rightarrow> 'a mat
     \<Rightarrow> ('a, 'k) KernelCandidate \<Rightarrow> ('a error + unit) \<times> ('a, 'k) KernelCandidate" where
  "buildKernelSolution env basisList h c =
     (let conditionNumberType = p_conditionNumberType (ps c) in
      if conditionNumberType \<noteq> ''SVD'' \<and> conditionNumberType \<noteq> ''EIGENVALUE'' then
        (Inl (Error TypeError [''conditionNumberType not recognized''] []), c)
      else
        (let ctype = (if conditionNumberType = ''SVD'' then SVD else EIGENVALUE) in
         if mat_size h > 0 then
           (let c1 = c\<lparr>useRegularization := True\<rparr> in
            if isInitialized c1 then
              build_in_slot env ctype (\<lambda>x k. k\<lparr>kernelSolutionPca := Some x\<rparr>)
                (Regularized (RegularizedKernelSolution_init basisList (candFitForBackground c1) h (ps c1))) c1
            else
              build_in_slot env ctype (\<lambda>x k. k\<lparr>kernelSolutionOrig := Some x\<rparr>)
                (Regularized (RegularizedKernelSolution_init basisList (candFitForBackground c1) h (ps c1))) c1)
         else
           (let c1 = c\<lparr>useRegularization := False\<rparr> in
            if isInitialized c1 then
              build_in_slot env ctype (\<lambda>x k. k\<lparr>kernelSolutionPca := Some x\<rparr>)
                (Static (StaticKernelSolution_init basisList (candFitForBackground c1))) c1
            else
              build_in_slot env ctype (\<lambda>x k. k\<lparr>kernelSolutionOrig := Some x\<rparr>)
                (Static (StaticKernelSolution_init basisList (candFitForBackground c1))) c1)))"

text \<open>
  \<open>getDifferenceImage(cand)\<close>. \<open>CandidateSwitch\<close> is a C++ enumeration; the values
  outside it, for which the code throws \<open>std::logic_error\<close>, are left out. The
  kernel and the background of the chosen solution are read before the private
  \<open>getDifferenceImage(kernel, background)\<close> is entered; C++ leaves the order of the
  two reads open, and the kernel is read first here. Both reads throw on a solution
  that is not solved.
\<close>

datatype CandidateSwitch = ORIG | PCA | RECENT

fun Solution_getKernel ::
  "('a, 'k) Solution \<Rightarrow> 'a error + ('a, 'k) LinearCombinationKernel" where
  "Solution_getKernel (Static x) = getKernel x"
| "Solution_getKernel (Regularized x) = getKernel x"

fun Solution_getBackground :: "('a, 'k) Solution \<Rightarrow> 'a error + 'a" where
  "Solution_getBackground (Static x) = getBackground x"
| "Solution_getBackground (Regularized x) = getBackground x"

definition getDifferenceImage_of ::
  "('a, 'k) Env \<Rightarrow> ('a, 'k) KernelCandidate \<Rightarrow> ('a, 'k) Solution
     \<Rightarrow> 'a error + 'a MaskedImage" where
  "getDifferenceImage_of env c sol =
     (case Solution_getKernel sol of
        Inl e \<Rightarrow> Inl e
      | Inr k \<Rightarrow>
          (case Solution_getBackground sol of
             Inl e \<Rightarrow> Inl e
           | Inr bg \<Rightarrow>
               convolveAndSubtract env (templateMaskedImage c) (scienceMaskedImage c) k bg))"

definition getDifferenceImage ::
  "('a, 'k) Env \<Rightarrow> CandidateSwitch \<Rightarrow> ('a, 'k) KernelCandidate
     \<Rightarrow> 'a error + 'a MaskedImage" where
  "getDifferenceImage env cand c =
     (case cand of
        ORIG \<Rightarrow>
          (case kernelSolutionOrig c of
             Some sol \<Rightarrow> getDifferenceImage_of env c sol
           | None \<Rightarrow> Inl (Error RuntimeError [''Original kernel does not exist''] []))
      | PCA \<Rightarrow>
          (case kernelSolutionPca c of
             Some sol \<Rightarrow> getDifferenceImage_of env c sol
           | None \<Rightarrow> Inl (Error RuntimeError [''Pca kernel does not exist''] []))
      | RECENT \<Rightarrow>
          (case kernelSolutionPca c of
             Some sol \<Rightarrow> getDifferenceImage_of env c sol
           | None \<Rightarrow>
               (case kernelSolutionOrig c of
                  Some sol \<Rightarrow> getDifferenceImage_of env c sol
                | None \<Rightarrow> Inl (Error RuntimeError [''No kernels exist''] []))))"

text \<open>
  \<open>catch (pexExcept::Exception &e) { throw e; }\<close>: the rethrown object is a copy with
  the static type of the handler.
\<close>

fun rethrow :: "'a error \<Rightarrow> 'a error" where
  "rethrow (Error k msgs args) = Error Exception msgs args"

text \<open>
  \<open>build(basisList, hMat)\<close>: the variance estimate is the sum of the variances of the
  two images, or its median everywhere (1 when the median is not positive) under
  \<open>constantVarianceWeighting\<close>; then \<open>_buildKernelSolution\<close>; then, under
  \<open>iterateSingleKernel\<close> without \<open>constantVarianceWeighting\<close>, the variance of the
  difference image of the most recent solution becomes the variance estimate and
  \<open>_buildKernelSolution\<close> runs again. The candidate is initialized at the end.
\<close>

definition KernelCandidate_build ::
  "('a::{zero,one,plus,times,inverse,ord}, 'k) Env \<Rightarrow> 'k list \<Rightarrow> 'a mat
     \<Rightarrow> ('a, 'k) KernelCandidate \<Rightarrow> ('a error + unit) \<times> ('a, 'k) KernelCandidate" where
  "KernelCandidate_build env basisList h c =
     (case plusImage env (getVariance (scienceMaskedImage c))
             (getVariance (templateMaskedImage c)) of
        Inl e \<Rightarrow> (Inl e, c)
      | Inr var0 \<Rightarrow>
          (let var = (if p_constantVarianceWeighting (ps c) then
                        (let median = makeStatistics_MEDIAN env var0;
                             varValue = (if median \<le> 0 then 1 else median)
                         in var0\<lparr>getArray := map (\<lambda>p. varValue) (getArray var0)\<rparr>)
                      else var0);
               c1 = c\<lparr>varianceEstimate := Some var\<rparr>
           in case buildKernelSolution env basisList h c1 of
                (Inl e, c2) \<Rightarrow> (Inl (rethrow e), c2)
              | (Inr u, c2) \<Rightarrow>
                  if p_iterateSingleKernel (ps c2) \<and> \<not> p_constantVarianceWeighting (ps c2) then
                    (case getDifferenceImage env RECENT c2 of
                       Inl e \<Rightarrow> (Inl e, c2)
                     | Inr diffim \<Rightarrow>
                         (let c3 = c2\<lparr>varianceEstimate := Some (getVariance diffim)\<rparr>
                          in case buildKernelSolution env basisList h c3 of
                               (Inl e, c4) \<Rightarrow> (Inl (rethrow e), c4)
                             | (Inr u, c4) \<Rightarrow> (Inr (), c4\<lparr>isInitialized := True\<rparr>)))
                  else (Inr (), c2\<lparr>isInitialized := True\<rparr>)))"

section \<open>Concrete scalars and libraries for the examples\<close>

text \<open>
  A scalar type with the special values of a double and exact arithmetic on the
  finite ones (no rounding, no signed zero), used where an example needs a NaN.
\<close>

datatype double = Finite real | PInf | NInf | NaN

instantiation double :: "{zero,one,plus,uminus,times,inverse,ord}"
begin

definition zero_double :: double where "zero_double = Finite 0"

definition one_double :: double where "one_double = Finite 1"

fun plus_double :: "double \<Rightarrow> double \<Rightarrow> double" where
  "plus_double (Finite x) (Finite y) = Finite (x + y)"
| "plus_double NaN _ = NaN"
| "plus_double _ NaN = NaN"
| "plus_double PInf NInf = NaN"
| "plus_double NInf PInf = NaN"
| "plus_double PInf _ = PInf"
| "plus_double _ PInf = PInf"
| "plus_double NInf _ = NInf"
| "plus_double _ NInf = NInf"

fun uminus_double :: "double \<Rightarrow> double" where
  "uminus_double (Finite x) = Finite (- x)"
| "uminus_double PInf = NInf"
| "uminus_double NInf = PInf"
| "uminus_double NaN = NaN"

definition sign_double :: "double \<Rightarrow> int" where
  "sign_double d = (case d of Finite x \<Rightarrow> (if x < 0 then - 1 else if x = 0 then 0 else 1)
                    | PInf \<Rightarrow> 1 | NInf \<Rightarrow> - 1 | NaN \<Rightarrow> 0)"

fun times_double :: "double \<Rightarrow> double \<Rightarrow> double" where
  "times_double (Finite x) (Finite y) = Finite (x * y)"
| "times_double NaN _ = NaN"
| "times_double _ NaN = NaN"
| "times_double a b =
     (let sg = sign_double a * sign_double b
      in if sg = 0 then NaN else if sg < 0 then NInf else PInf)"

fun inverse_double :: "double \<Rightarrow> double" where
  "inverse_double (Finite x) = (if x = 0 then PInf else Finite (inverse x))"
| "inverse_double NaN = NaN"
| "inverse_double _ = Finite 0"

fun divide_double :: "double \<Rightarrow> double \<Rightarrow> double" where
  "divide_double (Finite x) (Finite y) =
     (if y = 0 then (if x = 0 then NaN else if x < 0 then NInf else PInf) else Finite (x / y))"
| "divide_double NaN _ = NaN"
| "divide_double _ NaN = NaN"
| "divide_double (Finite x) _ = Finite 0"
| "divide_double a (Finite y) =
     (if sign_double a * (if y < 0 then - 1 else 1) < 0 then NInf else PInf)"
| "divide_double _ _ = NaN"

fun less_double :: "double \<Rightarrow> double \<Rightarrow> bool" where
  "less_double (Finite x) (Finite y) = (x < y)"
| "less_double NaN _ = False"
| "less_double _ NaN = False"
| "less_double NInf b = (b \<noteq> NInf)"
| "less_double a PInf = (a \<noteq> PInf)"
| "less_double _ _ = False"

definition less_eq_double :: "double \<Rightarrow> double \<Rightarrow> bool" where
  "less_eq_double a b = (a \<noteq> NaN \<and> b \<noteq> NaN \<and> (a = b \<or> a < b))"

instance ..

end

definition isnan_double :: "double \<Rightarrow> bool" where
  "isnan_double d = (d = NaN)"

text \<open>
  An instance of the Eigen parameters for diagonal matrices in exact arithmetic: the
  eigenvalues of a diagonal matrix are its diagonal, with the unit vectors as
  eigenvectors; its singular values are the absolute values of its diagonal; the
  solution of a diagonal system is the vector of the quotients. Eigen returns the
  eigenvalues in increasing and the singular values in decreasing order, which the
  code does not depend on: it reads the largest and the smallest of them, and the
  product R diag(e) R^T. The quotients are what the substitution of Eigen returns as
  long as they are all finite. The test of invertibility is the exact one, no zero on
  the diagonal; the test of Eigen, which has a threshold, is that of
  \<open>thresholded_Eigen\<close> below. \<open>failing_Eigen\<close> stands for the decompositions at a
  matrix on which the LU decomposition reports a singular matrix and the eigen-solver
  throws.
\<close>

definition diagonal_of :: "'a mat \<Rightarrow> 'a list" where
  "diagonal_of m = map (\<lambda>i. coeff m i i) [0..<rows m]"

definition identity_mat :: "nat \<Rightarrow> 'a::{zero,one} mat" where
  "identity_mat n = mk n n (\<lambda>i j. if i = j then 1 else 0)"

definition magnitude :: "'a \<Rightarrow> 'a::{zero,uminus,ord}" where
  "magnitude d = (if d < 0 then - d else d)"

definition diag_Eigen :: "'a::{zero,one,uminus,inverse,ord} Eigen" where
  "diag_Eigen =
     \<lparr>lu_isInvertible = (\<lambda>m. list_all (\<lambda>d. d \<noteq> 0) (diagonal_of m)),
      lu_solve = (\<lambda>m b. map (\<lambda>i. b ! i / coeff m i i) [0..<rows m]),
      SelfAdjointEigenSolver = (\<lambda>m. Inr (identity_mat (rows m), diagonal_of m)),
      jacobiSvd_singularValues = (\<lambda>m. map magnitude (diagonal_of m))\<rparr>"

definition failing_Eigen :: "'a::{zero,one,uminus,inverse,ord} Eigen" where
  "failing_Eigen =
     diag_Eigen\<lparr>lu_isInvertible := (\<lambda>m. False),
                SelfAdjointEigenSolver := (\<lambda>m. Inl (Error Exception [''eigen-solver failed''] []))\<rparr>"




text \<open>
  An instance of the image-library parameters for basis kernels that are the 1 x 1
  kernel with the single pixel 1 (the type \<open>unit\<close>): convolution with it returns the
  image, it leaves every pixel valid, its centre is column 0, and the image of a
  linear combination of such kernels is the sum of the coefficients. Every nonzero
  mask value counts as a bad pixel.
\<close>

definition delta_Afw :: "('a::{zero,plus,ord}, unit) Afw" where
  "delta_Afw =
     \<lparr>makeStatistics_MIN = (\<lambda>img. minCoeff (getArray img)),
      shrinkBBox = (\<lambda>k box. box),
      convolve = (\<lambda>img k. img),
      computeImage = (\<lambda>k. foldl (+) 0 (getKernelParameters k)),
      kernelImage = (\<lambda>k. \<lparr>getWidth = 1, getHeight = 1,
                              getArray = [foldl (+) 0 (getKernelParameters k)]\<rparr>),
      getCtrX = (\<lambda>k. 0),
      grownBadMask = (\<lambda>mask n. mask\<lparr>getArray := map (\<lambda>p. if p = 0 then 0 else 1) (getArray mask)\<rparr>)\<rparr>"

definition example_policy :: "string \<Rightarrow> real Policy" where
  "example_policy ltype =
     \<lparr>p_fitForBackground = False, p_constantVarianceWeighting = False,
      p_iterateSingleKernel = False, p_checkConditionNumber = True,
      p_maxConditionNumber = 1 / 2, p_conditionNumberType = ''EIGENVALUE'',
      p_lambdaType = ltype, p_lambdaValue = 3, p_lambdaScaling = 1 / 2,
      p_kernelBasisSet = ''delta-function'', p_usePcaForSpatialKernel = False\<rparr>"

definition example_regularized :: "string \<Rightarrow> (real, unit) RegularizedKernelSolution" where
  "example_regularized ltype =
     (RegularizedKernelSolution_init [()] False \<lparr>rows = 1, cols = 1, dat = [1]\<rparr> (example_policy ltype))
       \<lparr>cMat := \<lparr>rows = 1, cols = 1, dat = [2]\<rparr>, ivVec := [1], iVec := [4]\<rparr>"

definition example_env :: "(real, unit) Env" where
  "example_env =
     \<lparr>afw = delta_Afw, eigen = diag_Eigen, isnan = (\<lambda>x. False),
      estimateRisk = (\<lambda>maxCond s. (Inr 0, s)), dbl_max = 0,
      plusImage = (\<lambda>a b. Inr (a\<lparr>getArray := map (\<lambda>(x, y). x + y)
                                                    (zip (getArray a) (getArray b))\<rparr>)),
      makeStatistics_MEDIAN = (\<lambda>img. hd (getArray img)),
      convolveAndSubtract =
        (\<lambda>t sc k bg.
           Inr \<lparr>getImage = (getImage sc)
                   \<lparr>getArray := map (\<lambda>(x, y). x - computeImage delta_Afw k * y - bg)
                                   (zip (getArray (getImage sc)) (getArray (getImage t)))\<rparr>,
                getVariance = (getVariance sc)
                   \<lparr>getArray := map (\<lambda>(x, y). x + computeImage delta_Afw k
                                                     * computeImage delta_Afw k * y)
                                   (zip (getArray (getVariance sc)) (getArray (getVariance t)))\<rparr>\<rparr>)\<rparr>"

definition example_candidate :: "bool \<Rightarrow> (real, unit) KernelCandidate" where
  "example_candidate initialized =
     \<lparr>templateMaskedImage =
        \<lparr>getImage = \<lparr>getWidth = 1, getHeight = 1, getArray = [3]\<rparr>,
         getVariance = \<lparr>getWidth = 1, getHeight = 1, getArray = [1]\<rparr>\<rparr>,
      scienceMaskedImage =
        \<lparr>getImage = \<lparr>getWidth = 1, getHeight = 1, getArray = [6]\<rparr>,
         getVariance = \<lparr>getWidth = 1, getHeight = 1, getArray = [1]\<rparr>\<rparr>,
      varianceEstimate = Some \<lparr>getWidth = 1, getHeight = 1, getArray = [2]\<rparr>,
      ps = example_policy ''absolute'',
      isInitialized = initialized, useRegularization = False, candFitForBackground = False,
      kernelSolutionOrig = None, kernelSolutionPca = None, status = UNKNOWN\<rparr>"

text \<open>
  The same candidate before its first build, under \<open>iterateSingleKernel\<close>.
\<close>

definition iterating_candidate :: "bool \<Rightarrow> (real, unit) KernelCandidate" where
  "iterating_candidate initialized =
     (example_candidate initialized)
       \<lparr>varianceEstimate := None,
        ps := (example_policy ''absolute'')\<lparr>p_iterateSingleKernel := True\<rparr>\<rparr>"

text \<open>
  A spatial solution with one basis kernel, a constant spatial function for the kernel
  and one for the background, and so two unknowns: the kernel coefficient and the
  background coefficient. Its matrix is diagonal and it holds the coefficients \<open>a\<close>.
\<close>

definition constant_function :: "double Function2" where
  "constant_function = \<lparr>getParameters = [Finite 0], evaluate = (\<lambda>p x y. p ! 0)\<rparr>"

definition spatial_policy :: "double Policy" where
  "spatial_policy =
     \<lparr>p_fitForBackground = True, p_constantVarianceWeighting = False,
      p_iterateSingleKernel = False, p_checkConditionNumber = False,
      p_maxConditionNumber = Finite 1000, p_conditionNumberType = ''EIGENVALUE'',
      p_lambdaType = ''absolute'', p_lambdaValue = Finite 0, p_lambdaScaling = Finite 0,
      p_kernelBasisSet = ''delta-function'', p_usePcaForSpatialKernel = False\<rparr>"

definition example_spatial :: "double list \<Rightarrow> (double, unit) SpatialKernelSolution" where
  "example_spatial a =
     (SpatialKernelSolution_init [()] constant_function constant_function spatial_policy)
       \<lparr>mMat := \<lparr>rows = 2, cols = 2, dat = [Finite 2, Finite 0, Finite 0, Finite 4]\<rparr>,
        aVec := a, solvedBy := LU\<rparr>"

text \<open>
  What \<open>m.block(r0, c0, nr, nc) += X\<close> adds to the coefficient (i, j) of m.
\<close>

definition block_delta :: "nat \<Rightarrow> nat \<Rightarrow> nat \<Rightarrow> nat \<Rightarrow> 'a mat \<Rightarrow> nat \<Rightarrow> nat \<Rightarrow> 'a::zero" where
  "block_delta r0 c0 nr nc X i j =
     (if r0 \<le> i \<and> i < r0 + nr \<and> c0 \<le> j \<and> j < c0 + nc then coeff X (i - r0) (j - c0) else 0)"

text \<open>
  The sizes the constructor of a spatial solution establishes: the counts of terms are
  not negative, a constant first term needs a first basis, the total number of terms
  is what the constructor computes from them, and the matrix and the vector have that
  size.
\<close>

definition SpatialKernelSolution_sized :: "('a, 'k) SpatialKernelSolution \<Rightarrow> bool" where
  "SpatialKernelSolution_sized s =
     (0 \<le> nkt s \<and> 0 \<le> nbt s \<and> (if constantFirstTerm s then 1 else 0) \<le> nbases s
      \<and> nt s = (if constantFirstTerm s then (nbases s - 1) * nkt s + 1 + nbt s
                else nbases s * nkt s + nbt s)
      \<and> rows (mMat s) = nat (nt s) \<and> cols (mMat s) = nat (nt s)
      \<and> length (bVec s) = nat (nt s))"

text \<open>
  A spatial solution over the reals with two basis kernels, a kernel spatial function
  with two parameters (its value is p0 + p1 x), a background function with two
  parameters (its value is p0 + p1 y) and no constant first term: six unknowns. Its
  matrix and vector hold values that differ from place to place. \<open>stamp_Q\<close> and
  \<open>stamp_w\<close> are the matrix and the vector of one stamp of this model.
\<close>

definition linear_function :: "real Function2" where
  "linear_function = \<lparr>getParameters = [0, 0], evaluate = (\<lambda>p x y. p ! 0 + p ! 1 * x)\<rparr>"

definition tilted_function :: "real Function2" where
  "tilted_function = \<lparr>getParameters = [0, 0], evaluate = (\<lambda>p x y. p ! 0 + p ! 1 * y)\<rparr>"

definition real_policy :: "real Policy" where
  "real_policy =
     \<lparr>p_fitForBackground = True, p_constantVarianceWeighting = False,
      p_iterateSingleKernel = False, p_checkConditionNumber = False,
      p_maxConditionNumber = 1000, p_conditionNumberType = ''EIGENVALUE'',
      p_lambdaType = ''absolute'', p_lambdaValue = 0, p_lambdaScaling = 0,
      p_kernelBasisSet = ''delta-function'', p_usePcaForSpatialKernel = False\<rparr>"

definition accumulating_spatial :: "(real, unit) SpatialKernelSolution" where
  "accumulating_spatial =
     (SpatialKernelSolution_init [(), ()] linear_function tilted_function real_policy)
       \<lparr>mMat := mk 6 6 (\<lambda>i j. of_nat (6 * i + j)), bVec := [1, 2, 3, 4, 5, 6]\<rparr>"

definition stamp_Q :: "real mat" where
  "stamp_Q = \<lparr>rows = 3, cols = 3, dat = [2, 5, 7, 5, 11, 13, 7, 13, 17]\<rparr>"

definition stamp_w :: "real list" where
  "stamp_w = [19, 23, 29]"

section \<open>Properties\<close>

subsection \<open>Coefficients of constructed matrices\<close>

lemma rows_mk [simp]: "rows (mk r c f) = r"
  by (simp add: mk_def)

lemma cols_mk [simp]: "cols (mk r c f) = c"
  by (simp add: mk_def)

lemma length_dat_mk [simp]: "length (dat (mk r c f)) = r * c"
  by (simp add: mk_def)

lemma index_bound: "i < r \<Longrightarrow> j < c \<Longrightarrow> j * r + i < r * (c::nat)"
proof -
  assume i: "i < r" and j: "j < c"
  have "j * r + i < j * r + r" using i by simp
  also have "\<dots> = (Suc j) * r" by simp
  also have "\<dots> \<le> c * r" using j by (intro mult_le_mono1) simp
  finally show ?thesis by (simp add: mult.commute)
qed

lemma coeff_mk: "i < r \<Longrightarrow> j < c \<Longrightarrow> coeff (mk r c f) i j = f i j"
  using index_bound[of i r j c] by (simp add: coeff_def mk_def)

lemma upt_1 [simp]: "[0..<1] = [0]"
  by (simp add: upt_rec)

subsection \<open>Coefficients of products\<close>



lemma dims_mat_mul [simp]: "rows (mat_mul A B) = rows A" "cols (mat_mul A B) = cols B"
  by (simp_all add: mat_mul_def)


lemma length_mat_vec [simp]: "length (mat_vec A x) = rows A"
  by (simp add: mat_vec_def)


lemma dims_transpose_mat [simp]:
  "rows (transpose_mat A) = cols A" "cols (transpose_mat A) = rows A"
  by (simp_all add: transpose_mat_def)


lemma dims_diag_mul_left [simp]:
  "rows (diag_mul_left v A) = length v" "cols (diag_mul_left v A) = cols A"
  by (simp_all add: diag_mul_left_def)


lemma dims_diag_mul_right [simp]:
  "rows (diag_mul_right A v) = rows A" "cols (diag_mul_right A v) = length v"
  by (simp_all add: diag_mul_right_def)


lemma length_diag_mul_vec [simp]: "length (diag_mul_vec v x) = length v"
  by (simp add: diag_mul_vec_def)


subsection \<open>Small ranges\<close>

lemma upt_2: "[0..<2] = [0, 1]"
  by (simp add: upt_rec)









subsection \<open>The linear solver\<close>




lemma sum_delta_right:
  fixes f :: "nat \<Rightarrow> 'a::semiring_1"
  shows "k < n \<Longrightarrow> (\<Sum>j<n. f j * (if j = k then 1 else 0)) = f k"
  by (simp add: if_distrib[where f = "\<lambda>x. _ * x"] sum.delta cong: if_cong)










subsection \<open>The condition number\<close>

lemma foldl_max: "foldl (\<lambda>m x. if m < x then x else m) a xs = fold max xs (a::'a::linorder)"
  by (induction xs arbitrary: a) (auto simp: max_def)

lemma foldl_min: "foldl (\<lambda>m x. if x < m then x else m) a xs = fold min xs (a::'a::linorder)"
  by (induction xs arbitrary: a) (auto simp: min_def)

lemma maxCoeff_Max: "xs \<noteq> [] \<Longrightarrow> maxCoeff xs = Max (set (xs::'a::linorder list))"
  by (cases xs) (simp_all add: maxCoeff_def foldl_max Max.set_eq_fold[symmetric])

lemma minCoeff_Min: "xs \<noteq> [] \<Longrightarrow> minCoeff xs = Min (set (xs::'a::linorder list))"
  by (cases xs) (simp_all add: minCoeff_def foldl_min Min.set_eq_fold[symmetric])

lemma abs_image_nonneg: "\<forall>e\<in>S. 0 \<le> e \<Longrightarrow> abs ` S = (S::'a::linordered_idom set)"
  by (force simp: image_iff)

text \<open>
  C4, as amended. With the eigenvalues that the symmetric eigen-solver returns for m,
  the smallest of them not zero, \<open>getConditionNumber\<close> with \<open>EIGENVALUE\<close> returns the
  largest eigenvalue divided by the smallest one, both taken with their signs; this is
  the ratio of the largest to the smallest absolute eigenvalue when no eigenvalue is
  negative. With \<open>SVD\<close> and the smallest singular value not zero it returns the
  largest singular value divided by the smallest. Any other selector fails with
  \<open>InvalidParameterError\<close>. (A divisor that is zero makes the quotient of the code an
  infinity or NaN, which the numbers of this statement do not have.)
\<close>

theorem getConditionNumber_signed_ratio:
  fixes E :: "'a::linordered_field Eigen"
  shows
  "(SelfAdjointEigenSolver E m = Inr (rMat, eValues) \<longrightarrow> eValues \<noteq> [] \<longrightarrow>
      Min (set eValues) \<noteq> 0 \<longrightarrow>
      getConditionNumber E m EIGENVALUE = Inr (Max (set eValues) / Min (set eValues))
      \<and> ((\<forall>e\<in>set eValues. 0 \<le> e) \<longrightarrow>
           getConditionNumber E m EIGENVALUE
             = Inr (Max (abs ` set eValues) / Min (abs ` set eValues))))
   \<and> (jacobiSvd_singularValues E m \<noteq> [] \<longrightarrow>
      Min (set (jacobiSvd_singularValues E m)) \<noteq> 0 \<longrightarrow>
      getConditionNumber E m SVD
        = Inr (Max (set (jacobiSvd_singularValues E m)) / Min (set (jacobiSvd_singularValues E m))))
   \<and> getConditionNumber E m (UndefinedType n)
        = Inl (Error InvalidParameterError
                 [''Undefined ConditionNumberType : only EIGENVALUE, SVD allowed.''] [])"
  by (simp add: getConditionNumber_def Let_def maxCoeff_Max minCoeff_Min abs_image_nonneg)

theorem getConditionNumber_signed_ratio_witness:
  "SelfAdjointEigenSolver diag_Eigen \<lparr>rows = 2, cols = 2, dat = [2, 0, 0, 4::real]\<rparr>
     = Inr (identity_mat 2, [2, 4])
   \<and> [2, 4::real] \<noteq> []
   \<and> Min (set [2, 4::real]) = 2
   \<and> getConditionNumber diag_Eigen \<lparr>rows = 2, cols = 2, dat = [2, 0, 0, 4::real]\<rparr> EIGENVALUE = Inr 2
   \<and> 0 \<le> (2::real) \<and> 0 \<le> (4::real)
   \<and> Max (abs ` set [2, 4::real]) / Min (abs ` set [2, 4::real]) = 2
   \<and> jacobiSvd_singularValues diag_Eigen \<lparr>rows = 2, cols = 2, dat = [- 2, 0, 0, 4::real]\<rparr> = [2, 4]
   \<and> getConditionNumber diag_Eigen \<lparr>rows = 2, cols = 2, dat = [- 2, 0, 0, 4::real]\<rparr> SVD = Inr 2
   \<and> getConditionNumber diag_Eigen \<lparr>rows = 2, cols = 2, dat = [2, 0, 0, 4::real]\<rparr> (UndefinedType 7)
        = Inl (Error InvalidParameterError
                 [''Undefined ConditionNumberType : only EIGENVALUE, SVD allowed.''] [])"
  using getConditionNumber_signed_ratio[of diag_Eigen "\<lparr>rows = 2, cols = 2, dat = [2, 0, 0, 4::real]\<rparr>"
      "identity_mat 2" "[2, 4]" 7]
    getConditionNumber_signed_ratio[of diag_Eigen "\<lparr>rows = 2, cols = 2, dat = [- 2, 0, 0, 4::real]\<rparr>"
      "identity_mat 2" "[- 2, 4]" 7]
  by (simp add: diag_Eigen_def diagonal_of_def coeff_def upt_2 magnitude_def)

text \<open>
  With a zero eigenvalue the quotient of the code is not a number: on doubles, the
  diagonal matrix with entries 2 and 0 gives an infinity and the zero matrix gives NaN.
\<close>

lemma getConditionNumber_zero_eigenvalue:
  "getConditionNumber diag_Eigen
     \<lparr>rows = 2, cols = 2, dat = [Finite 2, Finite 0, Finite 0, Finite 0]\<rparr> EIGENVALUE = Inr PInf
   \<and> getConditionNumber diag_Eigen
     \<lparr>rows = 2, cols = 2, dat = [Finite 0, Finite 0, Finite 0, Finite 0]\<rparr> EIGENVALUE = Inr NaN"
  by (simp add: getConditionNumber_def diag_Eigen_def diagonal_of_def coeff_def upt_2
      maxCoeff_def minCoeff_def)

text \<open>
  C4 as stated fails on a symmetric matrix with a negative eigenvalue. The diagonal
  matrix with entries -3 and 1 is symmetric, has the eigenvalues -3 and 1 (with the
  unit vectors as eigenvectors), and the ratio of its absolute eigenvalues is 3; the
  code returns 1 / (-3).
\<close>

theorem getConditionNumber_absolute_counterexample:
  "transpose_mat \<lparr>rows = 2, cols = 2, dat = [- 3, 0, 0, 1::real]\<rparr>
     = \<lparr>rows = 2, cols = 2, dat = [- 3, 0, 0, 1::real]\<rparr>
   \<and> mat_vec \<lparr>rows = 2, cols = 2, dat = [- 3, 0, 0, 1::real]\<rparr> [1, 0] = [- 3 * 1, - 3 * 0]
   \<and> mat_vec \<lparr>rows = 2, cols = 2, dat = [- 3, 0, 0, 1::real]\<rparr> [0, 1] = [1 * 0, 1 * 1]
   \<and> SelfAdjointEigenSolver diag_Eigen \<lparr>rows = 2, cols = 2, dat = [- 3, 0, 0, 1::real]\<rparr>
       = Inr (identity_mat 2, [- 3, 1])
   \<and> getConditionNumber diag_Eigen \<lparr>rows = 2, cols = 2, dat = [- 3, 0, 0, 1::real]\<rparr> EIGENVALUE
       = Inr (- (1 / 3))
   \<and> Max (abs ` set [- 3, 1::real]) / Min (abs ` set [- 3, 1::real]) = 3
   \<and> getConditionNumber diag_Eigen \<lparr>rows = 2, cols = 2, dat = [- 3, 0, 0, 1::real]\<rparr> EIGENVALUE
       \<noteq> Inr (Max (abs ` set [- 3, 1::real]) / Min (abs ` set [- 3, 1::real]))"
  by (simp add: diag_Eigen_def diagonal_of_def coeff_def upt_2 getConditionNumber_def
      maxCoeff_def minCoeff_def transpose_mat_def mk_def mat_vec_def sum_seq_def
      upt_rec[of _ 4] upt_rec[of _ 3])

subsection \<open>Building the normal equations: the variance check\<close>

text \<open>
  C7. \<open>build\<close> and \<open>buildWithMask\<close> fail with the message "variance less than 0.0"
  when the minimum of the variance image is negative, and with the message "variance
  equals 0.0, cannot inverse variance weight" when it is zero; they go on to form the
  matrices (and then return normally) only when the minimum is neither negative nor
  zero. Both failures are the generic exception of the library.
\<close>

theorem build_rejects_nonpositive_variance:
  fixes A :: "('a::{zero,one,plus,times,inverse,ord}, 'k) Afw"
  shows
  "(makeStatistics_MIN A v < 0 \<longrightarrow>
      fst (StaticKernelSolution_build A t sc v s)
        = Inl (Error Exception [''Error: variance less than 0.0''] [])
      \<and> fst (MaskedKernelSolution_buildWithMask A t sc v pm s)
        = Inl (Error Exception [''Error: variance less than 0.0''] []))
   \<and> (\<not> makeStatistics_MIN A v < 0 \<longrightarrow> makeStatistics_MIN A v = 0 \<longrightarrow>
      fst (StaticKernelSolution_build A t sc v s)
        = Inl (Error Exception [''Error: variance equals 0.0, cannot inverse variance weight''] [])
      \<and> fst (MaskedKernelSolution_buildWithMask A t sc v pm s)
        = Inl (Error Exception [''Error: variance equals 0.0, cannot inverse variance weight''] []))
   \<and> (fst (StaticKernelSolution_build A t sc v s) = Inr () \<longleftrightarrow>
        \<not> makeStatistics_MIN A v < 0 \<and> makeStatistics_MIN A v \<noteq> 0)
   \<and> (fst (MaskedKernelSolution_buildWithMask A t sc v pm s) = Inr () \<longleftrightarrow>
        \<not> makeStatistics_MIN A v < 0 \<and> makeStatistics_MIN A v \<noteq> 0)"
  by (simp add: StaticKernelSolution_build_def MaskedKernelSolution_buildWithMask_def Let_def)

theorem build_rejects_nonpositive_variance_witness:
  "makeStatistics_MIN delta_Afw \<lparr>getWidth = 1, getHeight = 1, getArray = [- 1::real]\<rparr> < 0
   \<and> fst (StaticKernelSolution_build delta_Afw
            \<lparr>getWidth = 1, getHeight = 1, getArray = [3]\<rparr> \<lparr>getWidth = 1, getHeight = 1, getArray = [6]\<rparr>
            \<lparr>getWidth = 1, getHeight = 1, getArray = [- 1::real]\<rparr>
            (StaticKernelSolution_init [()] False))
       = Inl (Error Exception [''Error: variance less than 0.0''] [])
   \<and> fst (MaskedKernelSolution_buildWithMask delta_Afw
            \<lparr>getWidth = 1, getHeight = 1, getArray = [3]\<rparr> \<lparr>getWidth = 1, getHeight = 1, getArray = [6]\<rparr>
            \<lparr>getWidth = 1, getHeight = 1, getArray = [- 1::real]\<rparr>
            \<lparr>getWidth = 1, getHeight = 1, getArray = [0]\<rparr>
            (StaticKernelSolution_init [()] False))
       = Inl (Error Exception [''Error: variance less than 0.0''] [])
   \<and> \<not> makeStatistics_MIN delta_Afw \<lparr>getWidth = 1, getHeight = 1, getArray = [0::real]\<rparr> < 0
   \<and> makeStatistics_MIN delta_Afw \<lparr>getWidth = 1, getHeight = 1, getArray = [0::real]\<rparr> = 0
   \<and> fst (StaticKernelSolution_build delta_Afw
            \<lparr>getWidth = 1, getHeight = 1, getArray = [3]\<rparr> \<lparr>getWidth = 1, getHeight = 1, getArray = [6]\<rparr>
            \<lparr>getWidth = 1, getHeight = 1, getArray = [0::real]\<rparr>
            (StaticKernelSolution_init [()] False))
       = Inl (Error Exception [''Error: variance equals 0.0, cannot inverse variance weight''] [])
   \<and> fst (MaskedKernelSolution_buildWithMask delta_Afw
            \<lparr>getWidth = 1, getHeight = 1, getArray = [3]\<rparr> \<lparr>getWidth = 1, getHeight = 1, getArray = [6]\<rparr>
            \<lparr>getWidth = 1, getHeight = 1, getArray = [0::real]\<rparr>
            \<lparr>getWidth = 1, getHeight = 1, getArray = [0]\<rparr>
            (StaticKernelSolution_init [()] False))
       = Inl (Error Exception [''Error: variance equals 0.0, cannot inverse variance weight''] [])
   \<and> \<not> makeStatistics_MIN delta_Afw \<lparr>getWidth = 1, getHeight = 1, getArray = [2::real]\<rparr> < 0
   \<and> makeStatistics_MIN delta_Afw \<lparr>getWidth = 1, getHeight = 1, getArray = [2::real]\<rparr> \<noteq> 0
   \<and> fst (StaticKernelSolution_build delta_Afw
            \<lparr>getWidth = 1, getHeight = 1, getArray = [3]\<rparr> \<lparr>getWidth = 1, getHeight = 1, getArray = [6]\<rparr>
            \<lparr>getWidth = 1, getHeight = 1, getArray = [2::real]\<rparr>
            (StaticKernelSolution_init [()] False))
       = Inr ()
   \<and> fst (MaskedKernelSolution_buildWithMask delta_Afw
            \<lparr>getWidth = 1, getHeight = 1, getArray = [3]\<rparr> \<lparr>getWidth = 1, getHeight = 1, getArray = [6]\<rparr>
            \<lparr>getWidth = 1, getHeight = 1, getArray = [2::real]\<rparr>
            \<lparr>getWidth = 1, getHeight = 1, getArray = [0]\<rparr>
            (StaticKernelSolution_init [()] False))
       = Inr ()"
  using
    build_rejects_nonpositive_variance[of delta_Afw
      "\<lparr>getWidth = 1, getHeight = 1, getArray = [- 1::real]\<rparr>"
      "\<lparr>getWidth = 1, getHeight = 1, getArray = [3]\<rparr>" "\<lparr>getWidth = 1, getHeight = 1, getArray = [6]\<rparr>"
      "StaticKernelSolution_init [()] False" "\<lparr>getWidth = 1, getHeight = 1, getArray = [0]\<rparr>"]
    build_rejects_nonpositive_variance[of delta_Afw
      "\<lparr>getWidth = 1, getHeight = 1, getArray = [0::real]\<rparr>"
      "\<lparr>getWidth = 1, getHeight = 1, getArray = [3]\<rparr>" "\<lparr>getWidth = 1, getHeight = 1, getArray = [6]\<rparr>"
      "StaticKernelSolution_init [()] False" "\<lparr>getWidth = 1, getHeight = 1, getArray = [0]\<rparr>"]
    build_rejects_nonpositive_variance[of delta_Afw
      "\<lparr>getWidth = 1, getHeight = 1, getArray = [2::real]\<rparr>"
      "\<lparr>getWidth = 1, getHeight = 1, getArray = [3]\<rparr>" "\<lparr>getWidth = 1, getHeight = 1, getArray = [6]\<rparr>"
      "StaticKernelSolution_init [()] False" "\<lparr>getWidth = 1, getHeight = 1, getArray = [0]\<rparr>"]
  by (simp add: delta_Afw_def minCoeff_def)

text \<open>
  C10. When \<open>build\<close> or \<open>buildWithMask\<close> fails because the minimum of the variance
  image is negative or zero, the solution is exactly as it was before the call: the
  design matrix, the weights, the science vector, the normal equations, \<open>solvedBy\<close>,
  the kernel, the background and the kernel sum are all unchanged.
\<close>

theorem build_failure_is_atomic:
  fixes A :: "('a::{zero,one,plus,times,inverse,ord}, 'k) Afw"
  shows
  "makeStatistics_MIN A v < 0 \<or> makeStatistics_MIN A v = 0 \<longrightarrow>
     isl (fst (StaticKernelSolution_build A t sc v s))
     \<and> snd (StaticKernelSolution_build A t sc v s) = s
     \<and> isl (fst (MaskedKernelSolution_buildWithMask A t sc v pm s))
     \<and> snd (MaskedKernelSolution_buildWithMask A t sc v pm s) = s"
  by (simp add: StaticKernelSolution_build_def MaskedKernelSolution_buildWithMask_def Let_def)

theorem build_failure_is_atomic_witness:
  "makeStatistics_MIN delta_Afw \<lparr>getWidth = 1, getHeight = 1, getArray = [- 1::real]\<rparr> < 0
   \<and> snd (StaticKernelSolution_build delta_Afw
            \<lparr>getWidth = 1, getHeight = 1, getArray = [3]\<rparr> \<lparr>getWidth = 1, getHeight = 1, getArray = [6]\<rparr>
            \<lparr>getWidth = 1, getHeight = 1, getArray = [- 1::real]\<rparr>
            (StaticKernelSolution_init [()] True))
       = StaticKernelSolution_init [()] True
   \<and> snd (MaskedKernelSolution_buildWithMask delta_Afw
            \<lparr>getWidth = 1, getHeight = 1, getArray = [3]\<rparr> \<lparr>getWidth = 1, getHeight = 1, getArray = [6]\<rparr>
            \<lparr>getWidth = 1, getHeight = 1, getArray = [- 1::real]\<rparr>
            \<lparr>getWidth = 1, getHeight = 1, getArray = [0]\<rparr>
            (StaticKernelSolution_init [()] True))
       = StaticKernelSolution_init [()] True
   \<and> makeStatistics_MIN delta_Afw \<lparr>getWidth = 1, getHeight = 1, getArray = [0::real]\<rparr> = 0
   \<and> snd (StaticKernelSolution_build delta_Afw
            \<lparr>getWidth = 1, getHeight = 1, getArray = [3]\<rparr> \<lparr>getWidth = 1, getHeight = 1, getArray = [6]\<rparr>
            \<lparr>getWidth = 1, getHeight = 1, getArray = [0::real]\<rparr>
            (StaticKernelSolution_init [()] True))
       = StaticKernelSolution_init [()] True
   \<and> snd (MaskedKernelSolution_buildWithMask delta_Afw
            \<lparr>getWidth = 1, getHeight = 1, getArray = [3]\<rparr> \<lparr>getWidth = 1, getHeight = 1, getArray = [6]\<rparr>
            \<lparr>getWidth = 1, getHeight = 1, getArray = [0::real]\<rparr>
            \<lparr>getWidth = 1, getHeight = 1, getArray = [0]\<rparr>
            (StaticKernelSolution_init [()] True))
       = StaticKernelSolution_init [()] True"
  using
    build_failure_is_atomic[of delta_Afw
      "\<lparr>getWidth = 1, getHeight = 1, getArray = [- 1::real]\<rparr>"
      "\<lparr>getWidth = 1, getHeight = 1, getArray = [3]\<rparr>" "\<lparr>getWidth = 1, getHeight = 1, getArray = [6]\<rparr>"
      "StaticKernelSolution_init [()] True" "\<lparr>getWidth = 1, getHeight = 1, getArray = [0]\<rparr>"]
    build_failure_is_atomic[of delta_Afw
      "\<lparr>getWidth = 1, getHeight = 1, getArray = [0::real]\<rparr>"
      "\<lparr>getWidth = 1, getHeight = 1, getArray = [3]\<rparr>" "\<lparr>getWidth = 1, getHeight = 1, getArray = [6]\<rparr>"
      "StaticKernelSolution_init [()] True" "\<lparr>getWidth = 1, getHeight = 1, getArray = [0]\<rparr>"]
  by (simp add: delta_Afw_def minCoeff_def)

subsection \<open>Reading a solution before it is solved\<close>

lemma build_keeps_solution:
  fixes A :: "('a::{zero,one,plus,times,inverse,ord}, 'k) Afw"
  shows "solvedBy (snd (StaticKernelSolution_build A t sc v s)) = solvedBy s
       \<and> aVec (snd (StaticKernelSolution_build A t sc v s)) = aVec s
       \<and> kernel (snd (StaticKernelSolution_build A t sc v s)) = kernel s
       \<and> fitForBackground (snd (StaticKernelSolution_build A t sc v s)) = fitForBackground s"
  by (simp add: StaticKernelSolution_build_def Let_def)

lemma setKernel_keeps_aVec:
  "aVec (snd (StaticKernelSolution_setKernel A isn s)) = aVec s
   \<and> solvedBy (snd (StaticKernelSolution_setKernel A isn s)) = solvedBy s"
  by (simp add: StaticKernelSolution_setKernel_def Let_def split: option.split)

lemma KernelSolution_solve_NONE:
  fixes E :: "'a::{zero,one,plus,times,inverse} Eigen"
  shows "solvedBy (snd (KernelSolution_solve E m b s)) = NONE \<Longrightarrow>
     aVec (snd (KernelSolution_solve E m b s)) = aVec s \<and> isl (fst (KernelSolution_solve E m b s))"
  by (auto simp add: KernelSolution_solve_def Let_def split: sum.splits if_splits)

lemma StaticKernelSolution_solve_NONE:
  fixes E :: "'a::{zero,one,plus,times,inverse} Eigen"
  assumes "solvedBy (snd (StaticKernelSolution_solve A E isn s)) = NONE"
  shows "aVec (snd (StaticKernelSolution_solve A E isn s)) = aVec s
       \<and> isl (fst (StaticKernelSolution_solve A E isn s))"
proof (cases "KernelSolution_solve E (mMat s) (bVec s) s")
  case (Pair r s1)
  show ?thesis
  proof (cases r)
    case (Inl e)
    with Pair assms have "solvedBy s1 = NONE"
      by (simp add: StaticKernelSolution_solve_def)
    with KernelSolution_solve_NONE[of E "mMat s" "bVec s" s] Pair Inl show ?thesis
      by (simp add: StaticKernelSolution_solve_def)
  next
    case (Inr u)
    with Pair assms have "solvedBy s1 = NONE"
      by (simp add: StaticKernelSolution_solve_def setKernel_keeps_aVec)
    with KernelSolution_solve_NONE[of E "mMat s" "bVec s" s] Pair Inr show ?thesis
      by simp
  qed
qed

text \<open>
  C8. On a \<open>StaticKernelSolution\<close> whose \<open>solvedBy\<close> is \<open>NONE\<close>, each of \<open>getKernel\<close>,
  \<open>getBackground\<close>, \<open>getKsum\<close>, \<open>makeKernelImage\<close> and \<open>getSolutionPair\<close> fails with
  the "Kernel not solved" exception. The coefficient vector is given a value only by
  a solve that ends with \<open>solvedBy\<close> other than \<open>NONE\<close>: a new solution has \<open>solvedBy\<close>
  \<open>NONE\<close> and an empty coefficient vector, \<open>build\<close> changes neither, a \<open>solve\<close> that
  ends with \<open>NONE\<close> fails and leaves the vector as it was, and a \<open>solve\<close> that ends
  otherwise has stored the vector of the linear solver; so a solution that is
  constructed, built and solved has an empty coefficient vector whenever its
  \<open>solvedBy\<close> is \<open>NONE\<close>.
\<close>

theorem unsolved_accessors_fail:
  fixes E :: "'a::{zero,one,plus,times,inverse,ord} Eigen"
  shows
  "(solvedBy s = NONE \<longrightarrow>
      getKernel s = Inl (Error Exception [''Kernel not solved; cannot return solution''] [])
      \<and> getBackground s = Inl (Error Exception [''Kernel not solved; cannot return background''] [])
      \<and> getKsum s = Inl (Error Exception [''Kernel not solved; cannot return ksum''] [])
      \<and> makeKernelImage A s = Inl (Error Exception [''Kernel not solved; cannot return image''] [])
      \<and> getSolutionPair s = Inl (Error Exception [''Kernel not solved; cannot return solution''] []))
   \<and> solvedBy (StaticKernelSolution_init basisList fit :: ('a, 'k) StaticKernelSolution) = NONE
   \<and> aVec (StaticKernelSolution_init basisList fit :: ('a, 'k) StaticKernelSolution) = []
   \<and> solvedBy (snd (StaticKernelSolution_build A t sc v s)) = solvedBy s
   \<and> aVec (snd (StaticKernelSolution_build A t sc v s)) = aVec s
   \<and> (solvedBy (snd (StaticKernelSolution_solve A E isn s)) = NONE \<longrightarrow>
        aVec (snd (StaticKernelSolution_solve A E isn s)) = aVec s
        \<and> isl (fst (StaticKernelSolution_solve A E isn s)))
   \<and> (solvedBy (snd (StaticKernelSolution_solve A E isn s)) \<noteq> NONE \<longrightarrow>
        aVec (snd (StaticKernelSolution_solve A E isn s))
          = aVec (snd (KernelSolution_solve E (mMat s) (bVec s) s)))
   \<and> (solvedBy (snd (StaticKernelSolution_solve A E isn
          (snd (StaticKernelSolution_build A t sc v
             (StaticKernelSolution_init basisList fit :: ('a, 'k) StaticKernelSolution))))) = NONE \<longrightarrow>
        aVec (snd (StaticKernelSolution_solve A E isn
          (snd (StaticKernelSolution_build A t sc v
             (StaticKernelSolution_init basisList fit :: ('a, 'k) StaticKernelSolution))))) = [])"
proof -
  let ?s0 = "StaticKernelSolution_init basisList fit :: ('a, 'k) StaticKernelSolution"
  let ?s1 = "snd (StaticKernelSolution_build A t sc v ?s0)"
  have fresh: "solvedBy ?s0 = NONE" "aVec ?s0 = []"
    by (simp_all add: StaticKernelSolution_init_def)
  have built: "aVec ?s1 = []"
    using build_keeps_solution[of A t sc v ?s0] fresh by simp
  have last: "solvedBy (snd (StaticKernelSolution_solve A E isn ?s1)) = NONE \<longrightarrow>
        aVec (snd (StaticKernelSolution_solve A E isn ?s1)) = []"
    using StaticKernelSolution_solve_NONE[of A E isn ?s1] built by simp
  have getters: "solvedBy s = NONE \<longrightarrow>
      getKernel s = Inl (Error Exception [''Kernel not solved; cannot return solution''] [])
      \<and> getBackground s = Inl (Error Exception [''Kernel not solved; cannot return background''] [])
      \<and> getKsum s = Inl (Error Exception [''Kernel not solved; cannot return ksum''] [])
      \<and> makeKernelImage A s = Inl (Error Exception [''Kernel not solved; cannot return image''] [])
      \<and> getSolutionPair s = Inl (Error Exception [''Kernel not solved; cannot return solution''] [])"
    by (simp add: getKernel_def getBackground_def getKsum_def makeKernelImage_def
        getSolutionPair_def)
  have solved: "solvedBy (snd (StaticKernelSolution_solve A E isn s)) \<noteq> NONE \<longrightarrow>
        aVec (snd (StaticKernelSolution_solve A E isn s))
          = aVec (snd (KernelSolution_solve E (mMat s) (bVec s) s))"
    by (auto simp add: StaticKernelSolution_solve_def setKernel_keeps_aVec
        split: prod.splits sum.splits)
  show ?thesis
    using fresh last getters solved StaticKernelSolution_solve_NONE[of A E isn s]
      build_keeps_solution[of A t sc v s]
    by blast
qed

theorem unsolved_accessors_fail_witness:
  "solvedBy (StaticKernelSolution_init [()] False :: (real, unit) StaticKernelSolution) = NONE
   \<and> getKernel (StaticKernelSolution_init [()] False :: (real, unit) StaticKernelSolution)
       = Inl (Error Exception [''Kernel not solved; cannot return solution''] [])
   \<and> getBackground (StaticKernelSolution_init [()] False :: (real, unit) StaticKernelSolution)
       = Inl (Error Exception [''Kernel not solved; cannot return background''] [])
   \<and> getKsum (StaticKernelSolution_init [()] False :: (real, unit) StaticKernelSolution)
       = Inl (Error Exception [''Kernel not solved; cannot return ksum''] [])
   \<and> makeKernelImage delta_Afw (StaticKernelSolution_init [()] False :: (real, unit) StaticKernelSolution)
       = Inl (Error Exception [''Kernel not solved; cannot return image''] [])
   \<and> getSolutionPair (StaticKernelSolution_init [()] False :: (real, unit) StaticKernelSolution)
       = Inl (Error Exception [''Kernel not solved; cannot return solution''] [])
   \<and> solvedBy (snd (StaticKernelSolution_solve delta_Afw failing_Eigen (\<lambda>x. False)
        ((StaticKernelSolution_init [()] False :: (real, unit) StaticKernelSolution)
           \<lparr>mMat := \<lparr>rows = 1, cols = 1, dat = [0]\<rparr>, bVec := [4]\<rparr>))) = NONE
   \<and> aVec (snd (StaticKernelSolution_solve delta_Afw failing_Eigen (\<lambda>x. False)
        ((StaticKernelSolution_init [()] False :: (real, unit) StaticKernelSolution)
           \<lparr>mMat := \<lparr>rows = 1, cols = 1, dat = [0]\<rparr>, bVec := [4]\<rparr>))) = []
   \<and> isl (fst (StaticKernelSolution_solve delta_Afw failing_Eigen (\<lambda>x. False)
        ((StaticKernelSolution_init [()] False :: (real, unit) StaticKernelSolution)
           \<lparr>mMat := \<lparr>rows = 1, cols = 1, dat = [0]\<rparr>, bVec := [4]\<rparr>)))
   \<and> solvedBy (snd (StaticKernelSolution_solve delta_Afw diag_Eigen (\<lambda>x. False)
        ((StaticKernelSolution_init [()] False :: (real, unit) StaticKernelSolution)
           \<lparr>mMat := \<lparr>rows = 1, cols = 1, dat = [2]\<rparr>, bVec := [4]\<rparr>))) \<noteq> NONE
   \<and> aVec (snd (StaticKernelSolution_solve delta_Afw diag_Eigen (\<lambda>x. False)
        ((StaticKernelSolution_init [()] False :: (real, unit) StaticKernelSolution)
           \<lparr>mMat := \<lparr>rows = 1, cols = 1, dat = [2]\<rparr>, bVec := [4]\<rparr>))) = [2]
   \<and> solvedBy (snd (StaticKernelSolution_solve delta_Afw failing_Eigen (\<lambda>x. False)
        (snd (StaticKernelSolution_build delta_Afw
           \<lparr>getWidth = 1, getHeight = 1, getArray = [0]\<rparr> \<lparr>getWidth = 1, getHeight = 1, getArray = [6]\<rparr>
           \<lparr>getWidth = 1, getHeight = 1, getArray = [2::real]\<rparr>
           (StaticKernelSolution_init [()] False))))) = NONE
   \<and> aVec (snd (StaticKernelSolution_solve delta_Afw failing_Eigen (\<lambda>x. False)
        (snd (StaticKernelSolution_build delta_Afw
           \<lparr>getWidth = 1, getHeight = 1, getArray = [0]\<rparr> \<lparr>getWidth = 1, getHeight = 1, getArray = [6]\<rparr>
           \<lparr>getWidth = 1, getHeight = 1, getArray = [2::real]\<rparr>
           (StaticKernelSolution_init [()] False))))) = []"
proof -
  let ?s0 = "StaticKernelSolution_init [()] False :: (real, unit) StaticKernelSolution"
  let ?sing = "?s0\<lparr>mMat := \<lparr>rows = 1, cols = 1, dat = [0]\<rparr>, bVec := [4]\<rparr>"
  let ?reg = "?s0\<lparr>mMat := \<lparr>rows = 1, cols = 1, dat = [2]\<rparr>, bVec := [4]\<rparr>"
  let ?t = "\<lparr>getWidth = 1, getHeight = 1, getArray = [0::real]\<rparr>"
  let ?sc = "\<lparr>getWidth = 1, getHeight = 1, getArray = [6::real]\<rparr>"
  let ?v = "\<lparr>getWidth = 1, getHeight = 1, getArray = [2::real]\<rparr>"
  let ?built = "snd (StaticKernelSolution_build delta_Afw ?t ?sc ?v ?s0)"
  have n1: "solvedBy (snd (StaticKernelSolution_solve delta_Afw failing_Eigen (\<lambda>x. False) ?sing)) = NONE"
    by (simp add: StaticKernelSolution_solve_def KernelSolution_solve_def failing_Eigen_def
        diag_Eigen_def diagonal_of_def coeff_def StaticKernelSolution_init_def)
  have n2: "solvedBy (snd (StaticKernelSolution_solve delta_Afw diag_Eigen (\<lambda>x. False) ?reg)) \<noteq> NONE"
    by (simp add: StaticKernelSolution_solve_def KernelSolution_solve_def
        diag_Eigen_def diagonal_of_def coeff_def StaticKernelSolution_init_def
        setKernel_keeps_aVec)
  have a2: "aVec (snd (KernelSolution_solve diag_Eigen (mMat ?reg) (bVec ?reg) ?reg)) = [2]"
    by (simp add: KernelSolution_solve_def diag_Eigen_def diagonal_of_def coeff_def
        StaticKernelSolution_init_def)
  have n3: "solvedBy (snd (StaticKernelSolution_solve delta_Afw failing_Eigen (\<lambda>x. False) ?built)) = NONE"
    by (simp add: StaticKernelSolution_solve_def KernelSolution_solve_def failing_Eigen_def)
  show ?thesis
    using unsolved_accessors_fail[of ?s0 delta_Afw "[()]" False ?t ?sc ?v failing_Eigen "\<lambda>x. False"]
      unsolved_accessors_fail[of ?sing delta_Afw "[()]" False ?t ?sc ?v failing_Eigen "\<lambda>x. False"]
      unsolved_accessors_fail[of ?reg delta_Afw "[()]" False ?t ?sc ?v diag_Eigen "\<lambda>x. False"]
      n1 n2 a2 n3
    by (simp add: StaticKernelSolution_init_def)
qed

subsection \<open>The regularized solver\<close>

text \<open>
  C5. \<open>RegularizedKernelSolution::solve\<close> first forms M and b again from the design
  matrix, the weights and the science vector. With \<open>lambdaType\<close> "absolute" the
  strength \<open>lambda\<close> is the configured \<open>lambdaValue\<close>; with "relative" it is
  (trace M / trace H) times the configured \<open>lambdaScaling\<close>; in both cases the base
  linear solver is then run on (M + lambda H, b) and its coefficients are turned into
  the kernel. A \<open>lambdaType\<close> that is none of the four known names fails.
\<close>

theorem regularized_solve_lambda:
  fixes E :: "'a::{zero,one,plus,times,inverse} Eigen"
  shows
  "(let M = mat_mul (diag_mul_right (transpose_mat (cMat s)) (ivVec s)) (cMat s);
        bv = mat_vec (diag_mul_right (transpose_mat (cMat s)) (ivVec s)) (iVec s);
        finish = (\<lambda>l.
          case KernelSolution_solve E (mat_add M (scalar_mul l (hMat s))) bv
                 (s\<lparr>mMat := M, bVec := bv, lambda := l\<rparr>) of
            (Inl e, s') \<Rightarrow> (Inl (rethrow_add e ''Unable to solve static kernel matrix''), s')
          | (Inr u, s') \<Rightarrow> StaticKernelSolution_setKernel A isn s')
    in (p_lambdaType (policy s) = ''absolute'' \<longrightarrow>
          RegularizedKernelSolution_solve A E isn risk dmax s
            = finish (p_lambdaValue (policy s)))
     \<and> (p_lambdaType (policy s) = ''relative'' \<longrightarrow>
          RegularizedKernelSolution_solve A E isn risk dmax s
            = finish (trace M / trace (hMat s) * p_lambdaScaling (policy s)))
     \<and> (p_lambdaType (policy s) \<notin> {''absolute'', ''relative'', ''minimizeBiasedRisk'',
                                      ''minimizeUnbiasedRisk''} \<longrightarrow>
          RegularizedKernelSolution_solve A E isn risk dmax s
            = (Inl (Error Exception [''lambdaType in Policy not recognized''] []),
               s\<lparr>mMat := M, bVec := bv\<rparr>)))"
  by (simp add: RegularizedKernelSolution_solve_def Let_def)

lemma example_regularized_M:
  "mat_mul (diag_mul_right (transpose_mat \<lparr>rows = Suc 0, cols = Suc 0, dat = [2::real]\<rparr>) [1])
     \<lparr>rows = Suc 0, cols = Suc 0, dat = [2]\<rparr> = \<lparr>rows = Suc 0, cols = Suc 0, dat = [4]\<rparr>"
  by (simp add: mat_mul_def diag_mul_right_def transpose_mat_def mk_def coeff_def sum_seq_def)

lemma example_regularized_b:
  "mat_vec (diag_mul_right (transpose_mat \<lparr>rows = Suc 0, cols = Suc 0, dat = [2::real]\<rparr>) [1]) [4] = [8]"
  by (simp add: mat_vec_def diag_mul_right_def transpose_mat_def mk_def coeff_def sum_seq_def)

lemma example_regularized_sum:
  "mat_add \<lparr>rows = Suc 0, cols = Suc 0, dat = [4::real]\<rparr> (scalar_mul l \<lparr>rows = Suc 0, cols = Suc 0, dat = [1]\<rparr>)
     = \<lparr>rows = Suc 0, cols = Suc 0, dat = [4 + l]\<rparr>"
  by (simp add: mat_add_def scalar_mul_def mk_def coeff_def)

lemma example_regularized_trace:
  "trace \<lparr>rows = Suc 0, cols = Suc 0, dat = [x::real]\<rparr> = x"
  by (simp add: trace_def coeff_def sum_seq_def)

lemma example_regularized_solve:
  "d \<noteq> 0 \<Longrightarrow>
   KernelSolution_solve diag_Eigen \<lparr>rows = Suc 0, cols = Suc 0, dat = [d::real]\<rparr> [8] s
     = (Inr (), s\<lparr>solvedBy := LU, aVec := [8 / d]\<rparr>)"
  by (simp add: KernelSolution_solve_def diag_Eigen_def diagonal_of_def coeff_def)

theorem regularized_solve_lambda_witness:
  "p_lambdaType (policy (example_regularized ''absolute'')) = ''absolute''
   \<and> fst (RegularizedKernelSolution_solve delta_Afw diag_Eigen (\<lambda>x. False) (\<lambda>c s. (Inr 0, s)) 0
            (example_regularized ''absolute'')) = Inr ()
   \<and> lambda (snd (RegularizedKernelSolution_solve delta_Afw diag_Eigen (\<lambda>x. False) (\<lambda>c s. (Inr 0, s)) 0
            (example_regularized ''absolute''))) = 3
   \<and> aVec (snd (RegularizedKernelSolution_solve delta_Afw diag_Eigen (\<lambda>x. False) (\<lambda>c s. (Inr 0, s)) 0
            (example_regularized ''absolute''))) = [8 / 7]
   \<and> p_lambdaType (policy (example_regularized ''relative'')) = ''relative''
   \<and> fst (RegularizedKernelSolution_solve delta_Afw diag_Eigen (\<lambda>x. False) (\<lambda>c s. (Inr 0, s)) 0
            (example_regularized ''relative'')) = Inr ()
   \<and> lambda (snd (RegularizedKernelSolution_solve delta_Afw diag_Eigen (\<lambda>x. False) (\<lambda>c s. (Inr 0, s)) 0
            (example_regularized ''relative''))) = 2
   \<and> aVec (snd (RegularizedKernelSolution_solve delta_Afw diag_Eigen (\<lambda>x. False) (\<lambda>c s. (Inr 0, s)) 0
            (example_regularized ''relative''))) = [4 / 3]
   \<and> p_lambdaType (policy (example_regularized ''other''))
        \<notin> {''absolute'', ''relative'', ''minimizeBiasedRisk'', ''minimizeUnbiasedRisk''}
   \<and> fst (RegularizedKernelSolution_solve delta_Afw diag_Eigen (\<lambda>x. False) (\<lambda>c s. (Inr 0, s)) 0
            (example_regularized ''other''))
        = Inl (Error Exception [''lambdaType in Policy not recognized''] [])"
proof -
  have set: "\<And>s :: (real, unit) RegularizedKernelSolution.
      solvedBy s \<noteq> NONE \<Longrightarrow> length (aVec s) = 1 \<Longrightarrow> getKernelList (kernel s) = [()] \<Longrightarrow>
      \<not> fitForBackground s \<Longrightarrow>
      fst (StaticKernelSolution_setKernel delta_Afw (\<lambda>x. False) s) = Inr ()
      \<and> lambda (snd (StaticKernelSolution_setKernel delta_Afw (\<lambda>x. False) s)) = lambda s
      \<and> aVec (snd (StaticKernelSolution_setKernel delta_Afw (\<lambda>x. False) s)) = aVec s"
    by (simp add: StaticKernelSolution_setKernel_def Let_def)
  have init: "\<And>lt. getKernelList (kernel (example_regularized lt)) = [()]
      \<and> \<not> fitForBackground (example_regularized lt)
      \<and> cMat (example_regularized lt) = \<lparr>rows = 1, cols = 1, dat = [2]\<rparr>
      \<and> ivVec (example_regularized lt) = [1] \<and> iVec (example_regularized lt) = [4]
      \<and> hMat (example_regularized lt) = \<lparr>rows = 1, cols = 1, dat = [1]\<rparr>
      \<and> policy (example_regularized lt) = example_policy lt"
    by (simp add: example_regularized_def RegularizedKernelSolution_init_def
        LinearCombinationKernel_fixed_def)
  have pol: "\<And>lt. p_lambdaType (example_policy lt) = lt \<and> p_lambdaValue (example_policy lt) = 3
      \<and> p_lambdaScaling (example_policy lt) = 1 / 2"
    by (simp add: example_policy_def)
  show ?thesis
    using regularized_solve_lambda[where s = "example_regularized ''absolute''" and A = delta_Afw
        and E = diag_Eigen and isn = "\<lambda>x. False" and risk = "\<lambda>c s. (Inr 0, s)" and dmax = 0]
      regularized_solve_lambda[where s = "example_regularized ''relative''" and A = delta_Afw
        and E = diag_Eigen and isn = "\<lambda>x. False" and risk = "\<lambda>c s. (Inr 0, s)" and dmax = 0]
      regularized_solve_lambda[where s = "example_regularized ''other''" and A = delta_Afw
        and E = diag_Eigen and isn = "\<lambda>x. False" and risk = "\<lambda>c s. (Inr 0, s)" and dmax = 0]
    by (simp add: Let_def init pol example_regularized_M example_regularized_b
        example_regularized_sum example_regularized_trace example_regularized_solve set)
qed

subsection \<open>Building the normal equations: the matrices\<close>

lemma rows_set_col [simp]: "rows (set_col m j v) = rows m"
  by (simp add: set_col_def)

lemma cols_set_col [simp]: "cols (set_col m j v) = cols m"
  by (simp add: set_col_def)


lemma rows_fill_col [simp]: "rows (fill_col m j v) = rows m"
  by (simp add: fill_col_def)

lemma cols_fill_col [simp]: "cols (fill_col m j v) = cols m"
  by (simp add: fill_col_def)


lemma dims_fold_set_col [simp]:
  "rows (fold (\<lambda>k c. set_col c k (f k)) [0..<n] m) = rows m"
  "cols (fold (\<lambda>k c. set_col c k (f k)) [0..<n] m) = cols m"
  by (induction n) simp_all



lemma length_dat_block [simp]: "length (dat (block m r0 c0 nr nc)) = nr * nc"
  by (simp add: block_def)

lemma rows_block [simp]: "rows (block m r0 c0 nr nc) = nr"
  by (simp add: block_def)

lemma cols_block [simp]: "cols (block m r0 c0 nr nc) = nc"
  by (simp add: block_def)

lemma array_inverse_simps [simp]:
  "rows (array_inverse m) = rows m" "cols (array_inverse m) = cols m"
  "dat (array_inverse m) = map (\<lambda>x. 1 / x) (dat m)"
  by (simp_all add: array_inverse_def)






subsection \<open>The gate on the condition number\<close>

lemma KernelSolution_solve_returns:
  fixes E :: "'a::{zero,one,plus,times,inverse} Eigen"
  shows "fst (KernelSolution_solve E m b s) = Inr () \<Longrightarrow>
     solvedBy (snd (KernelSolution_solve E m b s)) \<noteq> NONE"
  by (auto simp add: KernelSolution_solve_def Let_def split: sum.splits if_splits)

lemma finish_returns:
  fixes E :: "'a::{zero,one,plus,times,inverse} Eigen"
  assumes "fst (case KernelSolution_solve E m b s of
                  (Inl e, s') \<Rightarrow> (Inl (f e), s')
                | (Inr u, s') \<Rightarrow> StaticKernelSolution_setKernel A isn s') = Inr ()"
  shows "solvedBy (snd (case KernelSolution_solve E m b s of
                  (Inl e, s') \<Rightarrow> (Inl (f e), s')
                | (Inr u, s') \<Rightarrow> StaticKernelSolution_setKernel A isn s')) \<noteq> NONE"
proof -
  obtain r s1 where k: "KernelSolution_solve E m b s = (r, s1)"
    by (cases "KernelSolution_solve E m b s")
  with assms have r: "r = Inr ()" by (cases r) simp_all
  with k KernelSolution_solve_returns[of E m b s] have "solvedBy s1 \<noteq> NONE" by simp
  with k r show ?thesis by (simp add: setKernel_keeps_aVec)
qed

lemma chosen_returns:
  assumes "fst (case ch of (Inl e, s4) \<Rightarrow> (Inl e, s4) | (Inr u, s4) \<Rightarrow> F s4) = Inr ()"
  shows "\<exists>s4. (case ch of (Inl e, s4) \<Rightarrow> (Inl e, s4) | (Inr u, s4) \<Rightarrow> F s4) = F s4"
proof (cases ch)
  case (Pair r s4)
  with assms show ?thesis by (cases r) auto
qed

lemma Solution_solve_returns:
  fixes env :: "('a::{zero,one,plus,times,inverse,ord}, 'k) Env"
  assumes "fst (Solution_solve env sol) = Inr ()"
  shows "Solution_solvedBy (snd (Solution_solve env sol)) \<noteq> NONE"
proof (cases sol)
  case (Static x)
  with assms have "fst (StaticKernelSolution_solve (afw env) (eigen env) (isnan env) x) = Inr ()"
    by (simp add: case_prod_beta)
  then have "solvedBy (snd (StaticKernelSolution_solve (afw env) (eigen env) (isnan env) x)) \<noteq> NONE"
    unfolding StaticKernelSolution_solve_def by (rule finish_returns)
  with Static show ?thesis by (simp add: case_prod_beta)
next
  case (Regularized x)
  let ?R = "RegularizedKernelSolution_solve (afw env) (eigen env) (isnan env)
              (estimateRisk env) (dbl_max env) x"
  let ?F = "\<lambda>s4. case KernelSolution_solve (eigen env)
                     (mat_add (mMat s4) (scalar_mul (lambda s4) (hMat s4))) (bVec s4) s4 of
                (Inl e, s5) \<Rightarrow> (Inl (rethrow_add e ''Unable to solve static kernel matrix''), s5)
              | (Inr u, s5) \<Rightarrow> StaticKernelSolution_setKernel (afw env) (isnan env) s5"
  from assms Regularized have ok: "fst ?R = Inr ()"
    by (simp add: case_prod_beta)
  have "\<exists>s4. ?R = ?F s4"
    using ok unfolding RegularizedKernelSolution_solve_def Let_def
    by (rule chosen_returns)
  then obtain s4 where R: "?R = ?F s4" by blast
  with ok have "fst (?F s4) = Inr ()" by simp
  then have "solvedBy (snd (?F s4)) \<noteq> NONE" by (rule finish_returns)
  with R Regularized show ?thesis by (simp add: case_prod_beta)
qed

text \<open>
  The gate inside \<open>_buildKernelSolution\<close>, with \<open>checkConditionNumber\<close> set and a
  recognised \<open>conditionNumberType\<close>: when the new solution (regularized when a
  regularization matrix is given, else static) has been built and its condition number
  is greater than \<open>maxConditionNumber\<close>, the call returns normally, the status of the
  candidate is \<open>BAD\<close>, and the slot (\<open>pca\<close> when the candidate is initialized, else
  \<open>original\<close>) holds the solution as \<open>build\<close> left it, with \<open>solvedBy\<close> \<open>NONE\<close>; a
  \<open>solve\<close> that returns would have left \<open>solvedBy\<close> different from \<open>NONE\<close>.
\<close>

lemma condition_number_gate:
  fixes env :: "('a::{zero,one,plus,times,inverse,ord}, 'k) Env"
  assumes check: "p_checkConditionNumber (ps c)"
    and known: "p_conditionNumberType (ps c) = ''SVD'' \<or> p_conditionNumberType (ps c) = ''EIGENVALUE''"
    and built: "Solution_build env (getImage (templateMaskedImage c))
                  (getImage (scienceMaskedImage c)) (the (varianceEstimate c))
                  (if mat_size h > 0
                   then Regularized (RegularizedKernelSolution_init basisList
                                       (candFitForBackground c) h (ps c))
                   else Static (StaticKernelSolution_init basisList (candFitForBackground c)))
                = (Inr (), sol1)"
    and cond: "Solution_getConditionNumber env sol1
                 (if p_conditionNumberType (ps c) = ''SVD'' then SVD else EIGENVALUE) = Inr cn"
    and exceeds: "cn > p_maxConditionNumber (ps c)"
  shows "buildKernelSolution env basisList h c
           = (Inr (),
              if isInitialized c
              then c\<lparr>useRegularization := (mat_size h > 0), kernelSolutionPca := Some sol1,
                      status := BAD\<rparr>
              else c\<lparr>useRegularization := (mat_size h > 0), kernelSolutionOrig := Some sol1,
                      status := BAD\<rparr>)
         \<and> Solution_solvedBy sol1 = NONE
         \<and> (fst (Solution_solve env sol1) = Inr () \<longrightarrow>
              Solution_solvedBy (snd (Solution_solve env sol1)) \<noteq> NONE)"
proof -
  have unsolved: "Solution_solvedBy sol1 = NONE"
  proof (cases "mat_size h > 0")
    case True
    with built show ?thesis
      using build_keeps_solution[of "afw env" "getImage (templateMaskedImage c)"
          "getImage (scienceMaskedImage c)" "the (varianceEstimate c)"
          "RegularizedKernelSolution_init basisList (candFitForBackground c) h (ps c)"]
      by (auto simp add: RegularizedKernelSolution_init_def split: prod.splits)
  next
    case False
    with built show ?thesis
      using build_keeps_solution[of "afw env" "getImage (templateMaskedImage c)"
          "getImage (scienceMaskedImage c)" "the (varianceEstimate c)"
          "StaticKernelSolution_init basisList (candFitForBackground c)"]
      by (auto simp add: StaticKernelSolution_init_def split: prod.splits)
  qed
  have result: "buildKernelSolution env basisList h c
           = (Inr (),
              if isInitialized c
              then c\<lparr>useRegularization := (mat_size h > 0), kernelSolutionPca := Some sol1,
                      status := BAD\<rparr>
              else c\<lparr>useRegularization := (mat_size h > 0), kernelSolutionOrig := Some sol1,
                      status := BAD\<rparr>)"
    using check known built cond exceeds
    by (auto simp add: buildKernelSolution_def build_in_slot_def Let_def)
  show ?thesis
    using unsolved result Solution_solve_returns[of env sol1] by blast
qed

lemma block_1x1: "block (imageToEigenMatrix \<lparr>getWidth = Suc 0, getHeight = Suc 0, getArray = [x]\<rparr>) 0 0 (Suc 0) (Suc 0)
   = \<lparr>rows = Suc 0, cols = Suc 0, dat = [x]\<rparr>"
  by (simp add: block_def imageToEigenMatrix_def mk_def coeff_def pixel_def)

lemma resize_1x1: "resize (Suc 0) (Suc 0) \<lparr>rows = Suc 0, cols = Suc 0, dat = [x]\<rparr> = \<lparr>rows = Suc 0, cols = Suc 0, dat = [x]\<rparr>"
  by (simp add: resize_def)

lemma col_1x1: "col \<lparr>rows = Suc 0, cols = Suc 0, dat = [x]\<rparr> 0 = [x]"
  by (simp add: col_def coeff_def)

lemma set_col_1x1: "set_col (mk (Suc 0) (Suc 0) f) 0 [x] = \<lparr>rows = Suc 0, cols = Suc 0, dat = [x]\<rparr>"
  by (simp add: set_col_def mk_def)

lemma array_inverse_1x1: "array_inverse \<lparr>rows = Suc 0, cols = Suc 0, dat = [x]\<rparr> = \<lparr>rows = Suc 0, cols = Suc 0, dat = [1 / x]\<rparr>"
  by (simp add: array_inverse_def)

lemma normal_matrix_1x1: "mat_mul (transpose_mat \<lparr>rows = Suc 0, cols = Suc 0, dat = [c]\<rparr>) (diag_mul_left [w] \<lparr>rows = Suc 0, cols = Suc 0, dat = [c::real]\<rparr>)
   = \<lparr>rows = Suc 0, cols = Suc 0, dat = [c * (w * c)]\<rparr>"
  by (simp add: mat_mul_def transpose_mat_def diag_mul_left_def mk_def coeff_def sum_seq_def)

lemma normal_vector_1x1: "mat_vec (transpose_mat \<lparr>rows = Suc 0, cols = Suc 0, dat = [c]\<rparr>) (diag_mul_vec [w] [y::real]) = [c * (w * y)]"
  by (simp add: mat_vec_def transpose_mat_def diag_mul_vec_def mk_def coeff_def sum_seq_def)

lemma example_build_1x1:
  assumes "getKernelList (kernel s) = [()]" "\<not> fitForBackground s" "0 < v"
  shows "StaticKernelSolution_build delta_Afw
           \<lparr>getWidth = 1, getHeight = 1, getArray = [t]\<rparr> \<lparr>getWidth = 1, getHeight = 1, getArray = [sc]\<rparr>
           \<lparr>getWidth = 1, getHeight = 1, getArray = [v::real]\<rparr> s
         = (Inr (), s\<lparr>cMat := \<lparr>rows = 1, cols = 1, dat = [t]\<rparr>, ivVec := [1 / v], iVec := [sc],
                      mMat := \<lparr>rows = 1, cols = 1, dat = [t * (1 / v * t)]\<rparr>,
                      bVec := [t * (1 / v * sc)]\<rparr>)"
proof -
  have ext: "shrinkBBox delta_Afw = (\<lambda>k box. box)" "convolve delta_Afw = (\<lambda>img k. img)"
    "makeStatistics_MIN delta_Afw \<lparr>getWidth = Suc 0, getHeight = Suc 0, getArray = [v]\<rparr> = v"
    by (simp_all add: delta_Afw_def minCoeff_def)
  have box: "unsigned_int 0 = 0" "unsigned_int 1 = 1" "unsigned_sub (Suc 0) 0 = Suc 0"
    by (simp_all add: unsigned_int_def unsigned_sub_def)
  show ?thesis
    using assms
    by (simp add: StaticKernelSolution_build_def Let_def ext getBBox_LOCAL_def box
        block_1x1 resize_1x1 col_1x1 set_col_1x1 array_inverse_1x1 normal_matrix_1x1
        normal_vector_1x1)
qed

lemma example_solve_1x1:
  fixes s :: "(real, unit, 'z) StaticKernelSolution_scheme"
  assumes "getKernelList (kernel s) = [()]" "\<not> fitForBackground s" "d \<noteq> 0"
    "mMat s = \<lparr>rows = 1, cols = 1, dat = [d]\<rparr>" "bVec s = [y]"
  shows "StaticKernelSolution_solve delta_Afw diag_Eigen (\<lambda>x. False) s
         = (Inr (), s\<lparr>solvedBy := LU, aVec := [y / d],
                      kernel := (kernel s)\<lparr>getKernelParameters := [y / d]\<rparr>,
                      kSum := y / d\<rparr>)"
  using assms
  by (simp add: StaticKernelSolution_solve_def KernelSolution_solve_def diag_Eigen_def
      diagonal_of_def coeff_def StaticKernelSolution_setKernel_def delta_Afw_def Let_def)

lemma condition_number_gate_examples:
  "fst (buildKernelSolution example_env [()] empty_mat (example_candidate False)) = Inr ()
   \<and> status (snd (buildKernelSolution example_env [()] empty_mat (example_candidate False))) = BAD
   \<and> map_option Solution_solvedBy
        (kernelSolutionOrig (snd (buildKernelSolution example_env [()] empty_mat
                                     (example_candidate False)))) = Some NONE
   \<and> fst (buildKernelSolution example_env [()] empty_mat (example_candidate True)) = Inr ()
   \<and> status (snd (buildKernelSolution example_env [()] empty_mat (example_candidate True))) = BAD
   \<and> map_option Solution_solvedBy
        (kernelSolutionPca (snd (buildKernelSolution example_env [()] empty_mat
                                    (example_candidate True)))) = Some NONE
   \<and> fst (buildKernelSolution example_env [()] \<lparr>rows = 1, cols = 1, dat = [1]\<rparr>
             (example_candidate False)) = Inr ()
   \<and> status (snd (buildKernelSolution example_env [()] \<lparr>rows = 1, cols = 1, dat = [1]\<rparr>
                      (example_candidate False))) = BAD
   \<and> map_option Solution_solvedBy
        (kernelSolutionOrig (snd (buildKernelSolution example_env [()]
                                     \<lparr>rows = 1, cols = 1, dat = [1]\<rparr>
                                     (example_candidate False)))) = Some NONE
   \<and> fst (buildKernelSolution example_env [()] \<lparr>rows = 1, cols = 1, dat = [1]\<rparr>
             (example_candidate True)) = Inr ()
   \<and> status (snd (buildKernelSolution example_env [()] \<lparr>rows = 1, cols = 1, dat = [1]\<rparr>
                      (example_candidate True))) = BAD
   \<and> map_option Solution_solvedBy
        (kernelSolutionPca (snd (buildKernelSolution example_env [()]
                                    \<lparr>rows = 1, cols = 1, dat = [1]\<rparr>
                                    (example_candidate True)))) = Some NONE
   \<and> fst (Solution_solve example_env
             (Static (snd (StaticKernelSolution_build delta_Afw
                \<lparr>getWidth = 1, getHeight = 1, getArray = [3]\<rparr>
                \<lparr>getWidth = 1, getHeight = 1, getArray = [6]\<rparr>
                \<lparr>getWidth = 1, getHeight = 1, getArray = [2]\<rparr>
                (StaticKernelSolution_init [()] False))))) = Inr ()
   \<and> Solution_solvedBy (snd (Solution_solve example_env
             (Static (snd (StaticKernelSolution_build delta_Afw
                \<lparr>getWidth = 1, getHeight = 1, getArray = [3]\<rparr>
                \<lparr>getWidth = 1, getHeight = 1, getArray = [6]\<rparr>
                \<lparr>getWidth = 1, getHeight = 1, getArray = [2]\<rparr>
                (StaticKernelSolution_init [()] False)))))) = LU"
proof -
  let ?t = "\<lparr>getWidth = 1, getHeight = 1, getArray = [3::real]\<rparr>"
  let ?sc = "\<lparr>getWidth = 1, getHeight = 1, getArray = [6::real]\<rparr>"
  let ?v = "\<lparr>getWidth = 1, getHeight = 1, getArray = [2::real]\<rparr>"
  let ?h = "\<lparr>rows = 1, cols = 1, dat = [1::real]\<rparr>"
  let ?S0 = "StaticKernelSolution_init [()] False :: (real, unit) StaticKernelSolution"
  let ?R0 = "RegularizedKernelSolution_init [()] False ?h (example_policy ''absolute'')"
  let ?S1 = "?S0\<lparr>cMat := \<lparr>rows = 1, cols = 1, dat = [3]\<rparr>, ivVec := [1 / 2], iVec := [6],
                  mMat := \<lparr>rows = 1, cols = 1, dat = [3 * (1 / 2 * 3)]\<rparr>,
                  bVec := [3 * (1 / 2 * 6)]\<rparr>"
  let ?R1 = "?R0\<lparr>cMat := \<lparr>rows = 1, cols = 1, dat = [3]\<rparr>, ivVec := [1 / 2], iVec := [6],
                  mMat := \<lparr>rows = 1, cols = 1, dat = [3 * (1 / 2 * 3)]\<rparr>,
                  bVec := [3 * (1 / 2 * 6)]\<rparr>"
  have bS: "StaticKernelSolution_build delta_Afw ?t ?sc ?v ?S0 = (Inr (), ?S1)"
    by (rule example_build_1x1)
      (simp_all add: StaticKernelSolution_init_def LinearCombinationKernel_fixed_def)
  have bR: "StaticKernelSolution_build delta_Afw ?t ?sc ?v ?R0 = (Inr (), ?R1)"
    by (rule example_build_1x1)
      (simp_all add: RegularizedKernelSolution_init_def LinearCombinationKernel_fixed_def)
  have cS: "getConditionNumber diag_Eigen (mMat ?S1) EIGENVALUE = Inr 1"
    by (simp add: getConditionNumber_def diag_Eigen_def diagonal_of_def coeff_def
        maxCoeff_def minCoeff_def)
  have cR: "getConditionNumber diag_Eigen (mMat ?R1) EIGENVALUE = Inr 1"
    by (simp add: getConditionNumber_def diag_Eigen_def diagonal_of_def coeff_def
        maxCoeff_def minCoeff_def)
  have cand: "\<And>b. getImage (templateMaskedImage (example_candidate b)) = ?t
      \<and> getImage (scienceMaskedImage (example_candidate b)) = ?sc
      \<and> varianceEstimate (example_candidate b) = Some ?v
      \<and> ps (example_candidate b) = example_policy ''absolute''
      \<and> isInitialized (example_candidate b) = b
      \<and> \<not> candFitForBackground (example_candidate b)"
    by (simp add: example_candidate_def)
  have pol: "p_checkConditionNumber (example_policy ''absolute'')"
    "p_conditionNumberType (example_policy ''absolute'') = ''EIGENVALUE''"
    "p_maxConditionNumber (example_policy ''absolute'') = 1 / 2"
    by (simp_all add: example_policy_def)
  have env: "afw example_env = delta_Afw" "eigen example_env = diag_Eigen"
    "isnan example_env = (\<lambda>x. False)"
    by (simp_all add: example_env_def)
  have sz: "mat_size (empty_mat :: real mat) = 0" "mat_size ?h = 1"
    by (simp_all add: mat_size_def empty_mat_def)
  have solved: "StaticKernelSolution_solve delta_Afw diag_Eigen (\<lambda>x. False) ?S1
      = (Inr (), ?S1\<lparr>solvedBy := LU, aVec := [3 * (1 / 2 * 6) / (3 * (1 / 2 * 3))],
            kernel := (kernel ?S1)\<lparr>getKernelParameters := [3 * (1 / 2 * 6) / (3 * (1 / 2 * 3))]\<rparr>,
            kSum := 3 * (1 / 2 * 6) / (3 * (1 / 2 * 3))\<rparr>)"
    by (rule example_solve_1x1)
      (simp_all add: StaticKernelSolution_init_def LinearCombinationKernel_fixed_def)
  have g1: "buildKernelSolution example_env [()] empty_mat (example_candidate False)
      = (Inr (), (example_candidate False)\<lparr>useRegularization := False,
           kernelSolutionOrig := Some (Static ?S1), status := BAD\<rparr>)
      \<and> (fst (Solution_solve example_env (Static ?S1)) = Inr () \<longrightarrow>
           Solution_solvedBy (snd (Solution_solve example_env (Static ?S1))) \<noteq> NONE)"
    using condition_number_gate[where env = example_env and c = "example_candidate False"
        and h = empty_mat and basisList = "[()]" and ?sol1.0 = "Static ?S1" and cn = 1]
      bS cS cand pol env sz by simp
  have g2: "buildKernelSolution example_env [()] empty_mat (example_candidate True)
      = (Inr (), (example_candidate True)\<lparr>useRegularization := False,
           kernelSolutionPca := Some (Static ?S1), status := BAD\<rparr>)"
    using condition_number_gate[where env = example_env and c = "example_candidate True"
        and h = empty_mat and basisList = "[()]" and ?sol1.0 = "Static ?S1" and cn = 1]
      bS cS cand pol env sz by simp
  have g3: "buildKernelSolution example_env [()] ?h (example_candidate False)
      = (Inr (), (example_candidate False)\<lparr>useRegularization := True,
           kernelSolutionOrig := Some (Regularized ?R1), status := BAD\<rparr>)"
    using condition_number_gate[where env = example_env and c = "example_candidate False"
        and h = ?h and basisList = "[()]" and ?sol1.0 = "Regularized ?R1" and cn = 1]
      bR cR cand pol env sz by simp
  have g4: "buildKernelSolution example_env [()] ?h (example_candidate True)
      = (Inr (), (example_candidate True)\<lparr>useRegularization := True,
           kernelSolutionPca := Some (Regularized ?R1), status := BAD\<rparr>)"
    using condition_number_gate[where env = example_env and c = "example_candidate True"
        and h = ?h and basisList = "[()]" and ?sol1.0 = "Regularized ?R1" and cn = 1]
      bR cR cand pol env sz by simp
  have none: "solvedBy ?S1 = NONE" "solvedBy ?R1 = NONE"
    by (simp_all add: StaticKernelSolution_init_def RegularizedKernelSolution_init_def)
  show ?thesis
    using g1 g2 g3 g4 none bS solved env
    by simp
qed

lemma Solution_getKernel_unsolved:
  "Solution_solvedBy sol = NONE \<Longrightarrow>
   Solution_getKernel sol = Inl (Error Exception [''Kernel not solved; cannot return solution''] [])"
  by (cases sol) (simp_all add: getKernel_def)

lemma Solution_getBackground_unsolved:
  "Solution_solvedBy sol = NONE \<Longrightarrow>
   Solution_getBackground sol
     = Inl (Error Exception [''Kernel not solved; cannot return background''] [])"
  by (cases sol) (simp_all add: getBackground_def)

text \<open>
  C9 fails on the code for a candidate that iterates. With \<open>checkConditionNumber\<close>
  set, when the solution that \<open>build\<close> builds from the sum of the variances has a
  condition number above \<open>maxConditionNumber\<close>, the gate stops
  \<open>_buildKernelSolution\<close>, which returns normally with the status \<open>BAD\<close>. But
  \<open>build\<close> goes on: with \<open>iterateSingleKernel\<close> set and \<open>constantVarianceWeighting\<close>
  not set it asks for the difference image of the most recent solution, which is the
  one the gate has just left unsolved (for a candidate that is not initialized, when
  no \<open>pca\<close> solution exists), and the read of its kernel throws. So \<open>build\<close>
  raises "Kernel not solved; cannot return solution", in each of the four paths
  (not initialized or initialized, without or with a regularization matrix); the
  status is \<open>BAD\<close>, the slot holds the unsolved solution and the candidate is not
  marked as initialized.
\<close>

theorem build_raises_after_gate:
  fixes env :: "('a::{zero,one,plus,times,inverse,ord}, 'k) Env"
  assumes plus: "plusImage env (getVariance (scienceMaskedImage c))
                   (getVariance (templateMaskedImage c)) = Inr var"
    and weighting: "\<not> p_constantVarianceWeighting (ps c)"
    and iterate: "p_iterateSingleKernel (ps c)"
    and check: "p_checkConditionNumber (ps c)"
    and known: "p_conditionNumberType (ps c) = ''SVD'' \<or> p_conditionNumberType (ps c) = ''EIGENVALUE''"
    and built: "Solution_build env (getImage (templateMaskedImage c))
                  (getImage (scienceMaskedImage c)) var
                  (if mat_size h > 0
                   then Regularized (RegularizedKernelSolution_init basisList
                                       (candFitForBackground c) h (ps c))
                   else Static (StaticKernelSolution_init basisList (candFitForBackground c)))
                = (Inr (), sol1)"
    and cond: "Solution_getConditionNumber env sol1
                 (if p_conditionNumberType (ps c) = ''SVD'' then SVD else EIGENVALUE) = Inr cn"
    and exceeds: "cn > p_maxConditionNumber (ps c)"
    and recent: "\<not> isInitialized c \<Longrightarrow> kernelSolutionPca c = None"
  shows "KernelCandidate_build env basisList h c
           = (Inl (Error Exception [''Kernel not solved; cannot return solution''] []),
              if isInitialized c
              then c\<lparr>varianceEstimate := Some var, useRegularization := (mat_size h > 0),
                      kernelSolutionPca := Some sol1, status := BAD\<rparr>
              else c\<lparr>varianceEstimate := Some var, useRegularization := (mat_size h > 0),
                      kernelSolutionOrig := Some sol1, status := BAD\<rparr>)"
proof -
  let ?c1 = "c\<lparr>varianceEstimate := Some var\<rparr>"
  let ?c2 = "if isInitialized c
             then ?c1\<lparr>useRegularization := (mat_size h > 0), kernelSolutionPca := Some sol1,
                       status := BAD\<rparr>
             else ?c1\<lparr>useRegularization := (mat_size h > 0), kernelSolutionOrig := Some sol1,
                       status := BAD\<rparr>"
  have check': "p_checkConditionNumber (ps ?c1)"
    and known': "p_conditionNumberType (ps ?c1) = ''SVD''
                 \<or> p_conditionNumberType (ps ?c1) = ''EIGENVALUE''"
    and built': "Solution_build env (getImage (templateMaskedImage ?c1))
                  (getImage (scienceMaskedImage ?c1)) (the (varianceEstimate ?c1))
                  (if mat_size h > 0
                   then Regularized (RegularizedKernelSolution_init basisList
                                       (candFitForBackground ?c1) h (ps ?c1))
                   else Static (StaticKernelSolution_init basisList (candFitForBackground ?c1)))
                = (Inr (), sol1)"
    and cond': "Solution_getConditionNumber env sol1
                 (if p_conditionNumberType (ps ?c1) = ''SVD'' then SVD else EIGENVALUE) = Inr cn"
    and exceeds': "cn > p_maxConditionNumber (ps ?c1)"
    using check known built cond exceeds
    by (simp_all del: Solution_build.simps split del: if_split cong del: if_weak_cong)
  note G = condition_number_gate[OF check' known' built' cond' exceeds']
  have gate: "buildKernelSolution env basisList h ?c1 = (Inr (), ?c2)"
    and unsolved: "Solution_solvedBy sol1 = NONE"
    using G by simp_all
  have diff: "getDifferenceImage env RECENT ?c2
      = Inl (Error Exception [''Kernel not solved; cannot return solution''] [])"
    using recent Solution_getKernel_unsolved[OF unsolved]
    by (simp add: getDifferenceImage_def getDifferenceImage_of_def)
  have policy: "ps ?c2 = ps c" by simp
  show ?thesis
    unfolding KernelCandidate_build_def plus
    using weighting iterate gate diff
    by (simp add: Let_def)
qed

text \<open>
  An example: a candidate with one basis kernel and stamps of one pixel,
  \<open>checkConditionNumber\<close> set with the maximum 1/2, \<open>iterateSingleKernel\<close> set and
  \<open>constantVarianceWeighting\<close> not set; the built matrix has the condition number 1.
  The gate returns normally, and \<open>build\<close> raises in each of the four paths; the
  read of the background of the unsolved solution would raise as well.
\<close>

theorem build_raises_after_gate_witness:
  "fst (buildKernelSolution example_env [()] empty_mat
          ((iterating_candidate False)
             \<lparr>varianceEstimate := Some \<lparr>getWidth = 1, getHeight = 1, getArray = [2]\<rparr>\<rparr>)) = Inr ()
   \<and> status (snd (buildKernelSolution example_env [()] empty_mat
          ((iterating_candidate False)
             \<lparr>varianceEstimate := Some \<lparr>getWidth = 1, getHeight = 1, getArray = [2]\<rparr>\<rparr>))) = BAD
   \<and> fst (KernelCandidate_build example_env [()] empty_mat (iterating_candidate False))
       = Inl (Error Exception [''Kernel not solved; cannot return solution''] [])
   \<and> status (snd (KernelCandidate_build example_env [()] empty_mat (iterating_candidate False)))
       = BAD
   \<and> isInitialized (snd (KernelCandidate_build example_env [()] empty_mat
                            (iterating_candidate False))) = False
   \<and> map_option Solution_solvedBy
        (kernelSolutionOrig (snd (KernelCandidate_build example_env [()] empty_mat
                                     (iterating_candidate False)))) = Some NONE
   \<and> map_option Solution_getBackground
        (kernelSolutionOrig (snd (KernelCandidate_build example_env [()] empty_mat
                                     (iterating_candidate False))))
       = Some (Inl (Error Exception [''Kernel not solved; cannot return background''] []))
   \<and> fst (KernelCandidate_build example_env [()] empty_mat (iterating_candidate True))
       = Inl (Error Exception [''Kernel not solved; cannot return solution''] [])
   \<and> status (snd (KernelCandidate_build example_env [()] empty_mat (iterating_candidate True)))
       = BAD
   \<and> fst (KernelCandidate_build example_env [()] \<lparr>rows = 1, cols = 1, dat = [1]\<rparr>
             (iterating_candidate False))
       = Inl (Error Exception [''Kernel not solved; cannot return solution''] [])
   \<and> status (snd (KernelCandidate_build example_env [()] \<lparr>rows = 1, cols = 1, dat = [1]\<rparr>
                      (iterating_candidate False))) = BAD
   \<and> fst (KernelCandidate_build example_env [()] \<lparr>rows = 1, cols = 1, dat = [1]\<rparr>
             (iterating_candidate True))
       = Inl (Error Exception [''Kernel not solved; cannot return solution''] [])
   \<and> status (snd (KernelCandidate_build example_env [()] \<lparr>rows = 1, cols = 1, dat = [1]\<rparr>
                      (iterating_candidate True))) = BAD"
proof -
  let ?t = "\<lparr>getWidth = 1, getHeight = 1, getArray = [3::real]\<rparr>"
  let ?sc = "\<lparr>getWidth = 1, getHeight = 1, getArray = [6::real]\<rparr>"
  let ?v = "\<lparr>getWidth = 1, getHeight = 1, getArray = [2::real]\<rparr>"
  let ?h = "\<lparr>rows = 1, cols = 1, dat = [1::real]\<rparr>"
  let ?pol = "(example_policy ''absolute'')\<lparr>p_iterateSingleKernel := True\<rparr>"
  let ?S0 = "StaticKernelSolution_init [()] False :: (real, unit) StaticKernelSolution"
  let ?R0 = "RegularizedKernelSolution_init [()] False ?h ?pol"
  let ?S1 = "?S0\<lparr>cMat := \<lparr>rows = 1, cols = 1, dat = [3]\<rparr>, ivVec := [1 / 2], iVec := [6],
                  mMat := \<lparr>rows = 1, cols = 1, dat = [3 * (1 / 2 * 3)]\<rparr>,
                  bVec := [3 * (1 / 2 * 6)]\<rparr>"
  let ?R1 = "?R0\<lparr>cMat := \<lparr>rows = 1, cols = 1, dat = [3]\<rparr>, ivVec := [1 / 2], iVec := [6],
                  mMat := \<lparr>rows = 1, cols = 1, dat = [3 * (1 / 2 * 3)]\<rparr>,
                  bVec := [3 * (1 / 2 * 6)]\<rparr>"
  have bS: "StaticKernelSolution_build delta_Afw ?t ?sc ?v ?S0 = (Inr (), ?S1)"
    by (rule example_build_1x1)
      (simp_all add: StaticKernelSolution_init_def LinearCombinationKernel_fixed_def)
  have bR: "StaticKernelSolution_build delta_Afw ?t ?sc ?v ?R0 = (Inr (), ?R1)"
    by (rule example_build_1x1)
      (simp_all add: RegularizedKernelSolution_init_def LinearCombinationKernel_fixed_def)
  have cS: "getConditionNumber diag_Eigen (mMat ?S1) EIGENVALUE = Inr 1"
    by (simp add: getConditionNumber_def diag_Eigen_def diagonal_of_def coeff_def
        maxCoeff_def minCoeff_def)
  have cR: "getConditionNumber diag_Eigen (mMat ?R1) EIGENVALUE = Inr 1"
    by (simp add: getConditionNumber_def diag_Eigen_def diagonal_of_def coeff_def
        maxCoeff_def minCoeff_def)
  have cand: "\<And>b. getImage (templateMaskedImage (iterating_candidate b)) = ?t
      \<and> getImage (scienceMaskedImage (iterating_candidate b)) = ?sc
      \<and> getVariance (templateMaskedImage (iterating_candidate b))
          = \<lparr>getWidth = 1, getHeight = 1, getArray = [1]\<rparr>
      \<and> getVariance (scienceMaskedImage (iterating_candidate b))
          = \<lparr>getWidth = 1, getHeight = 1, getArray = [1]\<rparr>
      \<and> ps (iterating_candidate b) = ?pol
      \<and> isInitialized (iterating_candidate b) = b
      \<and> kernelSolutionPca (iterating_candidate b) = None
      \<and> \<not> candFitForBackground (iterating_candidate b)"
    by (simp add: iterating_candidate_def example_candidate_def)
  have pol: "p_checkConditionNumber ?pol" "p_iterateSingleKernel ?pol"
    "\<not> p_constantVarianceWeighting ?pol"
    "p_conditionNumberType ?pol = ''EIGENVALUE''"
    "p_maxConditionNumber ?pol = 1 / 2"
    by (simp_all add: example_policy_def)
  have env: "afw example_env = delta_Afw" "eigen example_env = diag_Eigen"
    "plusImage example_env \<lparr>getWidth = 1, getHeight = 1, getArray = [1]\<rparr>
       \<lparr>getWidth = 1, getHeight = 1, getArray = [1]\<rparr> = Inr ?v"
    by (simp_all add: example_env_def)
  have sz: "mat_size (empty_mat :: real mat) = 0" "mat_size ?h = 1"
    by (simp_all add: mat_size_def empty_mat_def)
  have none: "solvedBy ?S1 = NONE" "solvedBy ?R1 = NONE"
    by (simp_all add: StaticKernelSolution_init_def RegularizedKernelSolution_init_def)
  have g: "buildKernelSolution example_env [()] empty_mat
             ((iterating_candidate False)\<lparr>varianceEstimate := Some ?v\<rparr>)
      = (Inr (), (iterating_candidate False)\<lparr>varianceEstimate := Some ?v,
           useRegularization := False, kernelSolutionOrig := Some (Static ?S1), status := BAD\<rparr>)"
    using condition_number_gate[where env = example_env
        and c = "(iterating_candidate False)\<lparr>varianceEstimate := Some ?v\<rparr>"
        and h = empty_mat and basisList = "[()]" and ?sol1.0 = "Static ?S1" and cn = 1]
      bS cS cand pol env sz by simp
  have b1: "KernelCandidate_build example_env [()] empty_mat (iterating_candidate False)
      = (Inl (Error Exception [''Kernel not solved; cannot return solution''] []),
         (iterating_candidate False)\<lparr>varianceEstimate := Some ?v,
           useRegularization := False, kernelSolutionOrig := Some (Static ?S1), status := BAD\<rparr>)"
    using build_raises_after_gate[where env = example_env and c = "iterating_candidate False"
        and h = empty_mat and basisList = "[()]" and ?sol1.0 = "Static ?S1" and cn = 1
        and var = ?v]
      bS cS cand pol env sz by simp
  have b2: "KernelCandidate_build example_env [()] empty_mat (iterating_candidate True)
      = (Inl (Error Exception [''Kernel not solved; cannot return solution''] []),
         (iterating_candidate True)\<lparr>varianceEstimate := Some ?v,
           useRegularization := False, kernelSolutionPca := Some (Static ?S1), status := BAD\<rparr>)"
    using build_raises_after_gate[where env = example_env and c = "iterating_candidate True"
        and h = empty_mat and basisList = "[()]" and ?sol1.0 = "Static ?S1" and cn = 1
        and var = ?v]
      bS cS cand pol env sz by simp
  have b3: "KernelCandidate_build example_env [()] ?h (iterating_candidate False)
      = (Inl (Error Exception [''Kernel not solved; cannot return solution''] []),
         (iterating_candidate False)\<lparr>varianceEstimate := Some ?v,
           useRegularization := True, kernelSolutionOrig := Some (Regularized ?R1),
           status := BAD\<rparr>)"
    using build_raises_after_gate[where env = example_env and c = "iterating_candidate False"
        and h = ?h and basisList = "[()]" and ?sol1.0 = "Regularized ?R1" and cn = 1
        and var = ?v]
      bR cR cand pol env sz by simp
  have b4: "KernelCandidate_build example_env [()] ?h (iterating_candidate True)
      = (Inl (Error Exception [''Kernel not solved; cannot return solution''] []),
         (iterating_candidate True)\<lparr>varianceEstimate := Some ?v,
           useRegularization := True, kernelSolutionPca := Some (Regularized ?R1),
           status := BAD\<rparr>)"
    using build_raises_after_gate[where env = example_env and c = "iterating_candidate True"
        and h = ?h and basisList = "[()]" and ?sol1.0 = "Regularized ?R1" and cn = 1
        and var = ?v]
      bR cR cand pol env sz by simp
  show ?thesis
    unfolding g b1 b2 b3 b4
    using none cand by (simp add: getBackground_def)
qed

subsection \<open>NaN coefficients\<close>

lemma static_setKernel_nan_fails:
  assumes "i < length (aVec s)" "isn (aVec s ! i)"
  shows "isl (fst (StaticKernelSolution_setKernel A isn s))"
proof (cases "solvedBy s = NONE \<or> length (aVec s) \<noteq> length (getKernelList (kernel s))
                                      + (if fitForBackground s then 1 else 0)")
  case True
  then show ?thesis
    by (auto simp add: StaticKernelSolution_setKernel_def Let_def)
next
  case False
  let ?nK = "length (getKernelList (kernel s))"
  show ?thesis
  proof (cases "find (\<lambda>idx. isn (aVec s ! idx)) [0..<?nK]")
    case (Some idx)
    with False show ?thesis
      by (simp add: StaticKernelSolution_setKernel_def Let_def)
  next
    case None
    then have clean: "\<forall>idx < ?nK. \<not> isn (aVec s ! idx)"
      by (simp add: find_None_iff)
    with assms have "\<not> i < ?nK" by blast
    with assms(1) False have fit: "fitForBackground s" and i: "i = length (aVec s) - 1"
      by (auto split: if_splits)
    with None False assms(2) show ?thesis
      by (simp add: StaticKernelSolution_setKernel_def Let_def)
  qed
qed

lemma spatial_setKernel_messages:
  assumes c: "getConditionNumber E (mMat s) EIGENVALUE = Inr c"
    and e: "fst (SpatialKernelSolution_setKernel A E isn s) = Inl (Error k msgs args)"
  shows "ArgDouble c \<in> set args
         \<or> msgs = [''Unable to determine spatial background solution %d (nan)'']"
proof (cases "nkt s = 1")
  case True
  show ?thesis
  proof (cases "find (\<lambda>i. isn (aVec s ! i)) [0..<nat (nbases s)]")
    case None
    with e c True show ?thesis
      by (auto simp add: SpatialKernelSolution_setKernel_def Let_def split: option.splits if_splits)
  next
    case (Some i)
    with e c True show ?thesis
      by (auto simp add: SpatialKernelSolution_setKernel_def Let_def)
  qed
next
  case False
  show ?thesis
  proof (cases "kCoeffs_loop isn (aVec s) (constantFirstTerm s) (nat (nkt s)) [0..<nat (nbases s)] 0 []")
    case (Inl p)
    obtain w idx where "p = (w, idx)" by (cases p)
    with Inl e c False show ?thesis
      by (auto simp add: SpatialKernelSolution_setKernel_def Let_def)
  next
    case (Inr kc)
    with e c False show ?thesis
      by (auto simp add: SpatialKernelSolution_setKernel_def Let_def split: option.splits if_splits)
  qed
qed

text \<open>
  C6 fails on the code for a NaN background coefficient of a spatial solution. In
  \<open>SpatialKernelSolution::_setKernel\<close>, with the condition number 2 reported for the
  matrix, the coefficients (1, NaN) give the exception "Unable to determine spatial
  background solution 1 (nan)", whose message has no condition number, while the
  coefficients (NaN, 1) give the exception for the kernel coefficient 0 with the
  condition number 2 in its message.
\<close>

theorem spatial_background_nan_message:
  "getConditionNumber diag_Eigen (mMat (example_spatial [Finite 1, NaN])) EIGENVALUE
     = Inr (Finite 2)
   \<and> fst (SpatialKernelSolution_setKernel delta_Afw diag_Eigen isnan_double
            (example_spatial [Finite 1, NaN]))
       = Inl (Error Exception [''Unable to determine spatial background solution %d (nan)'']
               [ArgInt 1])
   \<and> fst (SpatialKernelSolution_setKernel delta_Afw diag_Eigen isnan_double
            (example_spatial [NaN, Finite 1]))
       = Inl (Error Exception
               [''I. Unable to determine spatial kernel solution %d (nan).  Condition number = %.3e'']
               [ArgInt 0, ArgDouble (Finite 2)])"
proof -
  have cn: "\<And>a. getConditionNumber diag_Eigen (mMat (example_spatial a)) EIGENVALUE
     = Inr (Finite 2)"
    by (simp add: example_spatial_def getConditionNumber_def diag_Eigen_def diagonal_of_def
        coeff_def upt_2 maxCoeff_def minCoeff_def)
  have dims: "\<And>a. nkt (example_spatial a) = 1 \<and> nbt (example_spatial a) = 1
      \<and> nt (example_spatial a) = 2 \<and> nbases (example_spatial a) = 1
      \<and> fitForBackground (example_spatial a) \<and> aVec (example_spatial a) = a"
    by (simp add: example_spatial_def SpatialKernelSolution_init_def Let_def
        constant_function_def spatial_policy_def)
  show ?thesis
    by (simp add: cn SpatialKernelSolution_setKernel_def Let_def dims isnan_double_def)
qed

subsection \<open>Accumulating the spatial normal equations\<close>

lemma dims_block_add [simp]:
  "rows (block_add m r0 c0 nr nc X) = rows m" "cols (block_add m r0 c0 nr nc X) = cols m"
  by (simp_all add: block_add_def)

lemma coeff_block_add:
  fixes m :: "'a::monoid_add mat"
  shows "i < rows m \<Longrightarrow> j < cols m \<Longrightarrow>
    coeff (block_add m r0 c0 nr nc X) i j = coeff m i j + block_delta r0 c0 nr nc X i j"
  by (simp add: block_add_def block_delta_def coeff_mk)

lemma dims_set_coeff [simp]:
  "rows (set_coeff m i j v) = rows m" "cols (set_coeff m i j v) = cols m"
  by (simp_all add: set_coeff_def)

lemma coeff_set_coeff:
  "i' < rows m \<Longrightarrow> j' < cols m \<Longrightarrow>
   coeff (set_coeff m i j v) i' j' = (if i' = i \<and> j' = j then v else coeff m i' j')"
  by (simp add: set_coeff_def coeff_mk)

lemma fold_additive:
  fixes F :: "'m \<Rightarrow> 'a::monoid_add mat \<Rightarrow> 'a mat"
  assumes step: "\<And>m M. m \<in> set ms \<Longrightarrow> rows M = n \<Longrightarrow> cols M = n \<Longrightarrow>
      rows (F m M) = n \<and> cols (F m M) = n
      \<and> (\<forall>i<n. \<forall>j<n. coeff (F m M) i j = coeff M i j + D m i j)"
    and dims: "rows M = n" "cols M = n"
  shows "rows (fold F ms M) = n \<and> cols (fold F ms M) = n
      \<and> (\<forall>i<n. \<forall>j<n. coeff (fold F ms M) i j = coeff M i j + sum_list (map (\<lambda>m. D m i j) ms))"
  using step dims
proof (induction ms arbitrary: M)
  case Nil
  then show ?case by simp
next
  case (Cons m ms)
  have first: "rows (F m M) = n \<and> cols (F m M) = n
      \<and> (\<forall>i<n. \<forall>j<n. coeff (F m M) i j = coeff M i j + D m i j)"
    using Cons.prems(1)[of m M] Cons.prems(2,3) by simp
  have rest: "rows (fold F ms (F m M)) = n \<and> cols (fold F ms (F m M)) = n
      \<and> (\<forall>i<n. \<forall>j<n. coeff (fold F ms (F m M)) i j
                         = coeff (F m M) i j + sum_list (map (\<lambda>m. D m i j) ms))"
    using Cons.IH[of "F m M"] Cons.prems(1) first by simp
  show ?case using first rest by (simp add: add.assoc)
qed

lemma sum_list_single:
  fixes g :: "'m \<Rightarrow> 'a::monoid_add"
  assumes "distinct ms" "k \<in> set ms" "\<And>m. m \<in> set ms \<Longrightarrow> m \<noteq> k \<Longrightarrow> g m = 0"
  shows "sum_list (map g ms) = g k"
  using assms
proof (induction ms)
  case Nil
  then show ?case by simp
next
  case (Cons m ms)
  show ?case
  proof (cases "m = k")
    case True
    with Cons.prems have "\<And>m'. m' \<in> set ms \<Longrightarrow> g m' = 0" by auto
    then have "sum_list (map g ms) = 0" by (induction ms) simp_all
    with True show ?thesis by simp
  next
    case False
    with Cons have "sum_list (map g ms) = g k" "g m = 0" by auto
    then show ?thesis by simp
  qed
qed

lemma sum_list_none:
  fixes g :: "'m \<Rightarrow> 'a::monoid_add"
  assumes "\<And>m. m \<in> set ms \<Longrightarrow> g m = 0"
  shows "sum_list (map g ms) = 0"
  using assms by (induction ms) simp_all

lemma fold_state_split:
  fixes s :: "('a, 'z) KernelSolution_scheme"
  shows "mMat (fold (\<lambda>m st. st\<lparr>mMat := FM m (mMat st), bVec := Fb m (bVec st)\<rparr>) ms s)
           = fold FM ms (mMat s)
       \<and> bVec (fold (\<lambda>m st. st\<lparr>mMat := FM m (mMat st), bVec := Fb m (bVec st)\<rparr>) ms s)
           = fold Fb ms (bVec s)"
  by (induction ms arbitrary: s) simp_all

lemma fold_state_fields:
  fixes s :: "('a, 'k, 'z) SpatialKernelSolution_scheme"
  shows "nkt (fold (\<lambda>m st. st\<lparr>mMat := FM m (mMat st), bVec := Fb m (bVec st)\<rparr>) ms s) = nkt s
       \<and> nbt (fold (\<lambda>m st. st\<lparr>mMat := FM m (mMat st), bVec := Fb m (bVec st)\<rparr>) ms s) = nbt s
       \<and> nbases (fold (\<lambda>m st. st\<lparr>mMat := FM m (mMat st), bVec := Fb m (bVec st)\<rparr>) ms s)
           = nbases s
       \<and> nt (fold (\<lambda>m st. st\<lparr>mMat := FM m (mMat st), bVec := Fb m (bVec st)\<rparr>) ms s) = nt s
       \<and> constantFirstTerm
             (fold (\<lambda>m st. st\<lparr>mMat := FM m (mMat st), bVec := Fb m (bVec st)\<rparr>) ms s)
           = constantFirstTerm s
       \<and> fitForBackground
             (fold (\<lambda>m st. st\<lparr>mMat := FM m (mMat st), bVec := Fb m (bVec st)\<rparr>) ms s)
           = fitForBackground s"
  by (induction ms arbitrary: s) simp_all

lemma unit_responses_fst:
  "fst (unit_responses f n x y)
     = map (\<lambda>idx. evaluate f ((fold (\<lambda>idx p. p[idx := 0]) [0..<n] (getParameters f))[idx := 1]) x y)
         [0..<n]"
proof -
  let ?p0 = "fold (\<lambda>idx p. p[idx := 0]) [0..<n] (getParameters f)"
  let ?step = "\<lambda>idx (p, g). (let g' = g\<lparr>getParameters := ?p0[idx := 1]\<rparr>
                  in (p @ [evaluate g' (getParameters g') x y], g'))"
  have "\<And>k. fst (fold ?step [0..<k] ([], f))
                = map (\<lambda>idx. evaluate f (?p0[idx := 1]) x y) [0..<k]
            \<and> evaluate (snd (fold ?step [0..<k] ([], f))) = evaluate f"
  proof -
    fix k show "fst (fold ?step [0..<k] ([], f))
                = map (\<lambda>idx. evaluate f (?p0[idx := 1]) x y) [0..<k]
            \<and> evaluate (snd (fold ?step [0..<k] ([], f))) = evaluate f"
      by (induction k) (simp_all add: case_prod_beta Let_def)
  qed
  then show ?thesis by (simp add: unit_responses_def Let_def)
qed

lemma addConstraint_split:
  fixes s :: "('a::{zero,one,plus,times}, 'k) SpatialKernelSolution"
    and x y :: 'a and Q :: "'a mat" and w :: "'a list"
  defines "K \<equiv> nat (nkt s)" and "Bt \<equiv> nat (nbt s)" and "nb \<equiv> nat (nbases s)"
  defines "pK \<equiv> fst (unit_responses (spatialKernelFunction s) K x y)"
  defines "pB \<equiv> (if fitForBackground s
                  then fst (unit_responses (backgroundFunction s) Bt x y) else [])"
  defines "m0 \<equiv> (if constantFirstTerm s then 1 else (0::nat))"
  defines "dm \<equiv> (if constantFirstTerm s then nkt s - 1 else 0)"
  defines "mb \<equiv> nat (nt s - nbt s)"
  defines "start \<equiv> (\<lambda>m. nat (int m * nkt s - dm))"
  defines "FM \<equiv> (\<lambda>m1 M.
      (let M1 = block_add M (start m1) (start m1) K K
                  (triangularView_Upper (scale_right (outer pK pK) (coeff Q m1 m1)));
           M2 = fold (\<lambda>m2 M. block_add M (start m1) (start m2) K K
                                (scalar_mul (coeff Q m1 m2) (outer pK pK)))
                  [m1 + 1..<nb] M1
       in if fitForBackground s
          then block_add M2 (start m1) mb K Bt (scalar_mul (coeff Q m1 nb) (outer pK pB))
          else M2))"
  defines "Fb \<equiv> (\<lambda>m1 b. segment_add b (start m1) K (map (\<lambda>p. w ! m1 * p) pK))"
  defines "Mcf \<equiv> (if constantFirstTerm s then
      (let M1 = set_coeff (mMat s) 0 0 (coeff (mMat s) 0 0 + coeff Q 0 0);
           M2 = fold (\<lambda>m2 M. block_add M 0 (start m2) 1 K
                                (scalar_mul (coeff Q 0 m2) (row_vec pK)))
                  [1..<nb] M1
       in if fitForBackground s
          then block_add M2 0 mb 1 Bt (scalar_mul (coeff Q 0 nb) (row_vec pB))
          else M2)
      else mMat s)"
  defines "bcf \<equiv> (if constantFirstTerm s then (bVec s)[0 := bVec s ! 0 + w ! 0] else bVec s)"
  shows "mMat (SpatialKernelSolution_addConstraint x y Q w s)
           = (if fitForBackground s
              then block_add (fold FM [m0..<nb] Mcf) mb mb Bt Bt
                     (triangularView_Upper (scale_right (outer pB pB) (coeff Q nb nb)))
              else fold FM [m0..<nb] Mcf)"
    and "bVec (SpatialKernelSolution_addConstraint x y Q w s)
           = (if fitForBackground s
              then segment_add (fold Fb [m0..<nb] bcf) mb Bt (map (\<lambda>p. w ! nb * p) pB)
              else fold Fb [m0..<nb] bcf)"
    and "nkt (SpatialKernelSolution_addConstraint x y Q w s) = nkt s
       \<and> nbt (SpatialKernelSolution_addConstraint x y Q w s) = nbt s
       \<and> nbases (SpatialKernelSolution_addConstraint x y Q w s) = nbases s
       \<and> nt (SpatialKernelSolution_addConstraint x y Q w s) = nt s
       \<and> constantFirstTerm (SpatialKernelSolution_addConstraint x y Q w s)
             = constantFirstTerm s
       \<and> fitForBackground (SpatialKernelSolution_addConstraint x y Q w s)
             = fitForBackground s"
proof -
  let ?fK = "snd (unit_responses (spatialKernelFunction s) K x y)"
  let ?fB = "(if fitForBackground s
              then snd (unit_responses (backgroundFunction s) Bt x y)
              else backgroundFunction s)"
  let ?s0 = "s\<lparr>spatialKernelFunction := ?fK, backgroundFunction := ?fB\<rparr>"
  let ?s1 = "?s0\<lparr>mMat := Mcf, bVec := bcf\<rparr>"
  let ?step = "\<lambda>m st. st\<lparr>mMat := FM m (mMat st), bVec := Fb m (bVec st)\<rparr>"
  have whole: "SpatialKernelSolution_addConstraint x y Q w s
      = (if fitForBackground s
         then (fold ?step [m0..<nb] ?s1)
                \<lparr>mMat := block_add (mMat (fold ?step [m0..<nb] ?s1)) mb mb Bt Bt
                            (triangularView_Upper (scale_right (outer pB pB) (coeff Q nb nb))),
                 bVec := segment_add (bVec (fold ?step [m0..<nb] ?s1)) mb Bt
                            (map (\<lambda>p. w ! nb * p) pB)\<rparr>
         else fold ?step [m0..<nb] ?s1)"
  proof (cases "constantFirstTerm s")
    case True
    show ?thesis
    proof (cases "fitForBackground s")
      case True
      with \<open>constantFirstTerm s\<close> show ?thesis
        unfolding SpatialKernelSolution_addConstraint_def FM_def Fb_def Mcf_def bcf_def
          start_def mb_def dm_def m0_def pB_def pK_def nb_def Bt_def K_def
        by (simp add: Let_def case_prod_beta)
    next
      case False
      with \<open>constantFirstTerm s\<close> show ?thesis
        unfolding SpatialKernelSolution_addConstraint_def FM_def Fb_def Mcf_def bcf_def
          start_def mb_def dm_def m0_def pB_def pK_def nb_def Bt_def K_def
        by (simp add: Let_def case_prod_beta)
    qed
  next
    case False
    show ?thesis
    proof (cases "fitForBackground s")
      case True
      with \<open>\<not> constantFirstTerm s\<close> show ?thesis
        unfolding SpatialKernelSolution_addConstraint_def FM_def Fb_def Mcf_def bcf_def
          start_def mb_def dm_def m0_def pB_def pK_def nb_def Bt_def K_def
        by (simp add: Let_def case_prod_beta)
    next
      case False
      with \<open>\<not> constantFirstTerm s\<close> show ?thesis
        unfolding SpatialKernelSolution_addConstraint_def FM_def Fb_def Mcf_def bcf_def
          start_def mb_def dm_def m0_def pB_def pK_def nb_def Bt_def K_def
        by (simp add: Let_def case_prod_beta)
    qed
  qed
  define st where "st = fold ?step [m0..<nb] ?s1"
  have split: "mMat st = fold FM [m0..<nb] Mcf" "bVec st = fold Fb [m0..<nb] bcf"
    unfolding st_def
    using fold_state_split[where FM = FM and Fb = Fb and ms = "[m0..<nb]" and s = ?s1] by simp_all
  have whole': "SpatialKernelSolution_addConstraint x y Q w s
      = (if fitForBackground s
         then st\<lparr>mMat := block_add (mMat st) mb mb Bt Bt
                            (triangularView_Upper (scale_right (outer pB pB) (coeff Q nb nb))),
                 bVec := segment_add (bVec st) mb Bt (map (\<lambda>p. w ! nb * p) pB)\<rparr>
         else st)"
    unfolding st_def by (rule whole)
  show "mMat (SpatialKernelSolution_addConstraint x y Q w s)
           = (if fitForBackground s
              then block_add (fold FM [m0..<nb] Mcf) mb mb Bt Bt
                     (triangularView_Upper (scale_right (outer pB pB) (coeff Q nb nb)))
              else fold FM [m0..<nb] Mcf)"
    unfolding whole' by (simp add: split)
  show "bVec (SpatialKernelSolution_addConstraint x y Q w s)
           = (if fitForBackground s
              then segment_add (fold Fb [m0..<nb] bcf) mb Bt (map (\<lambda>p. w ! nb * p) pB)
              else fold Fb [m0..<nb] bcf)"
    unfolding whole' by (simp add: split)
  have kept: "nkt st = nkt s \<and> nbt st = nbt s \<and> nbases st = nbases s \<and> nt st = nt s
      \<and> constantFirstTerm st = constantFirstTerm s \<and> fitForBackground st = fitForBackground s"
    unfolding st_def
    using fold_state_fields[where FM = FM and Fb = Fb and ms = "[m0..<nb]" and s = ?s1] by simp
  show "nkt (SpatialKernelSolution_addConstraint x y Q w s) = nkt s
       \<and> nbt (SpatialKernelSolution_addConstraint x y Q w s) = nbt s
       \<and> nbases (SpatialKernelSolution_addConstraint x y Q w s) = nbases s
       \<and> nt (SpatialKernelSolution_addConstraint x y Q w s) = nt s
       \<and> constantFirstTerm (SpatialKernelSolution_addConstraint x y Q w s)
             = constantFirstTerm s
       \<and> fitForBackground (SpatialKernelSolution_addConstraint x y Q w s)
             = fitForBackground s"
    unfolding whole' using kept by simp
qed
lemma fill_lower_column:
  assumes "rows M = n" "cols M = n" "i < n" "k \<le> n"
  shows "rows (fold (\<lambda>j M'. set_coeff M' j i (coeff M' i j)) [i + 1..<k] M) = n
       \<and> cols (fold (\<lambda>j M'. set_coeff M' j i (coeff M' i j)) [i + 1..<k] M) = n
       \<and> (\<forall>r<n. \<forall>c<n.
            coeff (fold (\<lambda>j M'. set_coeff M' j i (coeff M' i j)) [i + 1..<k] M) r c
              = (if c = i \<and> i < r \<and> r < k then coeff M i r else coeff M r c))"
  using assms(4)
proof (induction k)
  case 0
  then show ?case using assms(1,2) by simp
next
  case (Suc k)
  show ?case
  proof (cases "i + 1 \<le> k")
    case False
    then have e: "[i + 1..<Suc k] = []" by simp
    have "\<And>r. \<not> (i < r \<and> r < Suc k)" using False by auto
    then show ?thesis unfolding e using assms(1,2) by auto
  next
    case True
    let ?P = "fold (\<lambda>j M'. set_coeff M' j i (coeff M' i j)) [i + 1..<k] M"
    have ih: "rows ?P = n" "cols ?P = n"
      "\<And>r c. r < n \<Longrightarrow> c < n \<Longrightarrow>
         coeff ?P r c = (if c = i \<and> i < r \<and> r < k then coeff M i r else coeff M r c)"
      using Suc by simp_all
    have k: "k < n" "i < k" using Suc.prems True by simp_all
    have read: "coeff ?P i k = coeff M i k"
      using ih(3)[of i k] k assms(3) by simp
    have unfold: "fold (\<lambda>j M'. set_coeff M' j i (coeff M' i j)) [i + 1..<Suc k] M
                    = set_coeff ?P k i (coeff ?P i k)"
      using True by simp
    show ?thesis
      unfolding unfold
      using ih k read assms(3) by (auto simp add: coeff_set_coeff)
  qed
qed

lemma fill_lower_coeff:
  assumes "rows m = n" "cols m = n"
  shows "rows (fill_lower n m) = n \<and> cols (fill_lower n m) = n
       \<and> (\<forall>r<n. \<forall>c<n. coeff (fill_lower n m) r c = (if c < r then coeff m c r else coeff m r c))"
proof -
  let ?G = "\<lambda>i M. fold (\<lambda>j M'. set_coeff M' j i (coeff M' i j)) [i + 1..<n] M"
  have "\<And>k. k \<le> n \<Longrightarrow>
      rows (fold ?G [0..<k] m) = n \<and> cols (fold ?G [0..<k] m) = n
      \<and> (\<forall>r<n. \<forall>c<n. coeff (fold ?G [0..<k] m) r c
             = (if c < r \<and> c < k then coeff m c r else coeff m r c))"
  proof -
    fix k show "k \<le> n \<Longrightarrow>
      rows (fold ?G [0..<k] m) = n \<and> cols (fold ?G [0..<k] m) = n
      \<and> (\<forall>r<n. \<forall>c<n. coeff (fold ?G [0..<k] m) r c
             = (if c < r \<and> c < k then coeff m c r else coeff m r c))"
    proof (induction k)
      case 0
      then show ?case using assms by simp
    next
      case (Suc k)
      let ?P = "fold ?G [0..<k] m"
      have ih: "rows ?P = n" "cols ?P = n"
        "\<And>r c. r < n \<Longrightarrow> c < n \<Longrightarrow>
           coeff ?P r c = (if c < r \<and> c < k then coeff m c r else coeff m r c)"
        using Suc by simp_all
      have k: "k < n" using Suc.prems by simp
      have col: "rows (?G k ?P) = n \<and> cols (?G k ?P) = n
         \<and> (\<forall>r<n. \<forall>c<n. coeff (?G k ?P) r c
               = (if c = k \<and> k < r \<and> r < n then coeff ?P k r else coeff ?P r c))"
        using fill_lower_column[of ?P n k n] ih(1,2) k by simp
      have "fold ?G [0..<Suc k] m = ?G k ?P" by simp
      then show ?case
        using col ih(3) k by (auto simp add: less_Suc_eq)
    qed
  qed
  from this[of n] show ?thesis by (simp add: fill_lower_def)
qed
lemma length_segment_add [simp]: "length (segment_add b k0 n v) = length b"
  by (simp add: segment_add_def)

lemma nth_segment_add:
  fixes b :: "'a::monoid_add list"
  shows "k < length b \<Longrightarrow>
    segment_add b k0 n v ! k = b ! k + (if k0 \<le> k \<and> k < k0 + n then v ! (k - k0) else 0)"
  by (simp add: segment_add_def)

lemma fold_additive_vec:
  fixes F :: "'m \<Rightarrow> 'a::monoid_add list \<Rightarrow> 'a list"
  assumes step: "\<And>m b. m \<in> set ms \<Longrightarrow> length b = n \<Longrightarrow>
      length (F m b) = n \<and> (\<forall>k<n. F m b ! k = b ! k + d m k)"
    and len: "length b = n"
  shows "length (fold F ms b) = n
      \<and> (\<forall>k<n. fold F ms b ! k = b ! k + sum_list (map (\<lambda>m. d m k) ms))"
  using step len
proof (induction ms arbitrary: b)
  case Nil
  then show ?case by simp
next
  case (Cons m ms)
  have first: "length (F m b) = n \<and> (\<forall>k<n. F m b ! k = b ! k + d m k)"
    using Cons.prems(1)[of m b] Cons.prems(2) by simp
  have rest: "length (fold F ms (F m b)) = n
      \<and> (\<forall>k<n. fold F ms (F m b) ! k = F m b ! k + sum_list (map (\<lambda>m. d m k) ms))"
    using Cons.IH[of "F m b"] Cons.prems(1) first by simp
  show ?case using first rest by (simp add: add.assoc)
qed

lemma coeff_outer:
  "i < length u \<Longrightarrow> j < length v \<Longrightarrow> coeff (outer u v) i j = u ! i * v ! j"
  by (simp add: outer_def coeff_mk)

lemma coeff_scaled_outer:
  "i < length u \<Longrightarrow> j < length v \<Longrightarrow> coeff (scalar_mul q (outer u v)) i j = q * (u ! i * v ! j)"
  by (simp add: scalar_mul_def outer_def coeff_mk)

lemma coeff_upper_outer:
  fixes u :: "'a::comm_semiring_1 list"
  shows "i < length u \<Longrightarrow> j < length v \<Longrightarrow>
    coeff (triangularView_Upper (scale_right (outer u v) q)) i j
      = (if i \<le> j then q * (u ! i * v ! j) else 0)"
  by (simp add: triangularView_Upper_def scale_right_def outer_def coeff_mk mult.commute)

lemma coeff_scaled_row:
  "j < length v \<Longrightarrow> coeff (scalar_mul q (row_vec v)) 0 j = q * v ! j"
  by (simp add: scalar_mul_def row_vec_def coeff_mk)

lemma length_unit_responses [simp]: "length (fst (unit_responses f n x y)) = n"
  by (simp add: unit_responses_fst)

lemma start_nat:
  assumes "0 < (nk::int)" "(if cft then 1 else 0) \<le> m"
  shows "nat (int m * nk - (if cft then nk - 1 else 0)) + (if cft then nat nk - 1 else 0)
           = m * nat nk"
proof -
  obtain K where K: "nk = int K" "0 < K" using assms(1) by (metis nat_0_less_mult_iff nat_int pos_int_cases zero_less_nat_eq zero_less_one mult.right_neutral)
  show ?thesis
  proof (cases cft)
    case False
    then show ?thesis using K by (simp add: nat_mult_distrib)
  next
    case True
    with assms(2) have "1 \<le> m" by simp
    then have le: "K \<le> m * K" by simp
    define p where "p = m * K"
    have "nat (int p - (int K - 1)) + (K - 1) = p"
      using le K(2) unfolding p_def[symmetric] by linarith
    then show ?thesis using True K unfolding p_def by simp
  qed
qed
lemma addConstraint_matrix_delta:
  fixes s :: "('a::comm_semiring_1, 'k) SpatialKernelSolution"
    and x y :: 'a and Q :: "'a mat" and w :: "'a list"
  defines "K \<equiv> nat (nkt s)" and "Bt \<equiv> nat (nbt s)" and "nb \<equiv> nat (nbases s)"
  defines "pK \<equiv> fst (unit_responses (spatialKernelFunction s) K x y)"
  defines "pB \<equiv> (if fitForBackground s
                  then fst (unit_responses (backgroundFunction s) Bt x y) else [])"
  defines "m0 \<equiv> (if constantFirstTerm s then 1 else (0::nat))"
  defines "dm \<equiv> (if constantFirstTerm s then nkt s - 1 else 0)"
  defines "mb \<equiv> nat (nt s - nbt s)"
  defines "start \<equiv> (\<lambda>m. nat (int m * nkt s - dm))"
  defines "n \<equiv> nat (nt s)"
  defines "D \<equiv> (\<lambda>m1 i j.
      block_delta (start m1) (start m1) K K
        (triangularView_Upper (scale_right (outer pK pK) (coeff Q m1 m1))) i j
      + sum_list (map (\<lambda>m2. block_delta (start m1) (start m2) K K
                               (scalar_mul (coeff Q m1 m2) (outer pK pK)) i j) [m1 + 1..<nb])
      + (if fitForBackground s
         then block_delta (start m1) mb K Bt (scalar_mul (coeff Q m1 nb) (outer pK pB)) i j
         else 0))"
  defines "Dcf \<equiv> (\<lambda>i j.
      if constantFirstTerm s then
        (if i = 0 \<and> j = 0 then coeff Q 0 0 else 0)
        + sum_list (map (\<lambda>m2. block_delta 0 (start m2) 1 K
                                 (scalar_mul (coeff Q 0 m2) (row_vec pK)) i j) [1..<nb])
        + (if fitForBackground s
           then block_delta 0 mb 1 Bt (scalar_mul (coeff Q 0 nb) (row_vec pB)) i j
           else 0)
      else 0)"
  defines "Dbg \<equiv> (\<lambda>i j.
      if fitForBackground s
      then block_delta mb mb Bt Bt
             (triangularView_Upper (scale_right (outer pB pB) (coeff Q nb nb))) i j
      else 0)"
  assumes dims: "rows (mMat s) = n" "cols (mMat s) = n"
  shows "rows (mMat (SpatialKernelSolution_addConstraint x y Q w s)) = n
       \<and> cols (mMat (SpatialKernelSolution_addConstraint x y Q w s)) = n
       \<and> (\<forall>i<n. \<forall>j<n.
            coeff (mMat (SpatialKernelSolution_addConstraint x y Q w s)) i j
              = coeff (mMat s) i j + Dcf i j + sum_list (map (\<lambda>m1. D m1 i j) [m0..<nb])
                + Dbg i j)"
proof -
  define FM where "FM = (\<lambda>m1 M.
      (let M1 = block_add M (start m1) (start m1) K K
                  (triangularView_Upper (scale_right (outer pK pK) (coeff Q m1 m1)));
           M2 = fold (\<lambda>m2 M. block_add M (start m1) (start m2) K K
                                (scalar_mul (coeff Q m1 m2) (outer pK pK)))
                  [m1 + 1..<nb] M1
       in if fitForBackground s
          then block_add M2 (start m1) mb K Bt (scalar_mul (coeff Q m1 nb) (outer pK pB))
          else M2))"
  define Mcf where "Mcf = (if constantFirstTerm s then
      (let M1 = set_coeff (mMat s) 0 0 (coeff (mMat s) 0 0 + coeff Q 0 0);
           M2 = fold (\<lambda>m2 M. block_add M 0 (start m2) 1 K
                                (scalar_mul (coeff Q 0 m2) (row_vec pK)))
                  [1..<nb] M1
       in if fitForBackground s
          then block_add M2 0 mb 1 Bt (scalar_mul (coeff Q 0 nb) (row_vec pB))
          else M2)
      else mMat s)"
  have M': "mMat (SpatialKernelSolution_addConstraint x y Q w s)
           = (if fitForBackground s
              then block_add (fold FM [m0..<nb] Mcf) mb mb Bt Bt
                     (triangularView_Upper (scale_right (outer pB pB) (coeff Q nb nb)))
              else fold FM [m0..<nb] Mcf)"
    unfolding FM_def Mcf_def start_def mb_def dm_def m0_def pB_def pK_def nb_def Bt_def K_def
    by (rule addConstraint_split(1))
  have FM_add: "\<And>m1 M. rows M = n \<Longrightarrow> cols M = n \<Longrightarrow>
      rows (FM m1 M) = n \<and> cols (FM m1 M) = n
      \<and> (\<forall>i<n. \<forall>j<n. coeff (FM m1 M) i j = coeff M i j + D m1 i j)"
  proof -
    fix m1 and M :: "'a mat"
    assume d: "rows M = n" "cols M = n"
    let ?M1 = "block_add M (start m1) (start m1) K K
                 (triangularView_Upper (scale_right (outer pK pK) (coeff Q m1 m1)))"
    let ?F = "\<lambda>m2 M. block_add M (start m1) (start m2) K K
                        (scalar_mul (coeff Q m1 m2) (outer pK pK))"
    let ?M2 = "fold ?F [m1 + 1..<nb] ?M1"
    have one: "rows ?M1 = n" "cols ?M1 = n"
      "\<forall>i<n. \<forall>j<n. coeff ?M1 i j = coeff M i j
          + block_delta (start m1) (start m1) K K
              (triangularView_Upper (scale_right (outer pK pK) (coeff Q m1 m1))) i j"
      using d by (simp_all add: coeff_block_add)
    have two: "rows ?M2 = n \<and> cols ?M2 = n
      \<and> (\<forall>i<n. \<forall>j<n. coeff ?M2 i j = coeff ?M1 i j
            + sum_list (map (\<lambda>m2. block_delta (start m1) (start m2) K K
                               (scalar_mul (coeff Q m1 m2) (outer pK pK)) i j) [m1 + 1..<nb]))"
      by (rule fold_additive[where M = "?M1" and F = "?F" and n = n and ms = "[m1 + 1..<nb]"
            and D = "\<lambda>m2 i j. block_delta (start m1) (start m2) K K
                               (scalar_mul (coeff Q m1 m2) (outer pK pK)) i j"])
         (simp_all add: coeff_block_add d)
    have FM: "FM m1 M = (if fitForBackground s
          then block_add ?M2 (start m1) mb K Bt (scalar_mul (coeff Q m1 nb) (outer pK pB))
          else ?M2)"
      by (simp add: FM_def Let_def)
    show "rows (FM m1 M) = n \<and> cols (FM m1 M) = n
      \<and> (\<forall>i<n. \<forall>j<n. coeff (FM m1 M) i j = coeff M i j + D m1 i j)"
      unfolding FM D_def using one two by (simp add: coeff_block_add add.assoc)
  qed
  have Mcf_add: "rows Mcf = n \<and> cols Mcf = n
      \<and> (\<forall>i<n. \<forall>j<n. coeff Mcf i j = coeff (mMat s) i j + Dcf i j)"
  proof (cases "constantFirstTerm s")
    case False
    then show ?thesis using dims by (simp add: Mcf_def Dcf_def)
  next
    case True
    let ?M1 = "set_coeff (mMat s) 0 0 (coeff (mMat s) 0 0 + coeff Q 0 0)"
    let ?F = "\<lambda>m2 M. block_add M 0 (start m2) 1 K (scalar_mul (coeff Q 0 m2) (row_vec pK))"
    let ?M2 = "fold ?F [1..<nb] ?M1"
    have one: "rows ?M1 = n" "cols ?M1 = n"
      "\<forall>i<n. \<forall>j<n. coeff ?M1 i j
          = coeff (mMat s) i j + (if i = 0 \<and> j = 0 then coeff Q 0 0 else 0)"
      using dims by (simp_all add: coeff_set_coeff)
    have two: "rows ?M2 = n \<and> cols ?M2 = n
      \<and> (\<forall>i<n. \<forall>j<n. coeff ?M2 i j = coeff ?M1 i j
            + sum_list (map (\<lambda>m2. block_delta 0 (start m2) 1 K
                               (scalar_mul (coeff Q 0 m2) (row_vec pK)) i j) [1..<nb]))"
      by (rule fold_additive[where M = "?M1" and F = "?F" and n = n and ms = "[1..<nb]"
            and D = "\<lambda>m2 i j. block_delta 0 (start m2) 1 K
                               (scalar_mul (coeff Q 0 m2) (row_vec pK)) i j"])
         (simp_all add: coeff_block_add dims)
    have eq: "Mcf = (if fitForBackground s
          then block_add ?M2 0 mb 1 Bt (scalar_mul (coeff Q 0 nb) (row_vec pB))
          else ?M2)"
      using True by (simp add: Mcf_def Let_def)
    show ?thesis
      unfolding eq Dcf_def using True one two by (simp add: coeff_block_add add.assoc)
  qed
  have outer: "rows (fold FM [m0..<nb] Mcf) = n \<and> cols (fold FM [m0..<nb] Mcf) = n
      \<and> (\<forall>i<n. \<forall>j<n. coeff (fold FM [m0..<nb] Mcf) i j
             = coeff Mcf i j + sum_list (map (\<lambda>m1. D m1 i j) [m0..<nb]))"
    by (rule fold_additive[where M = Mcf and F = FM and n = n and ms = "[m0..<nb]" and D = D])
       (simp_all add: FM_add Mcf_add)
  show ?thesis
    unfolding M' Dbg_def using outer Mcf_add by (simp add: coeff_block_add add.assoc)
qed
lemma addConstraint_vector_delta:
  fixes s :: "('a::comm_semiring_1, 'k) SpatialKernelSolution"
    and x y :: 'a and Q :: "'a mat" and w :: "'a list"
  defines "K \<equiv> nat (nkt s)" and "Bt \<equiv> nat (nbt s)" and "nb \<equiv> nat (nbases s)"
  defines "pK \<equiv> fst (unit_responses (spatialKernelFunction s) K x y)"
  defines "pB \<equiv> (if fitForBackground s
                  then fst (unit_responses (backgroundFunction s) Bt x y) else [])"
  defines "m0 \<equiv> (if constantFirstTerm s then 1 else (0::nat))"
  defines "dm \<equiv> (if constantFirstTerm s then nkt s - 1 else 0)"
  defines "mb \<equiv> nat (nt s - nbt s)"
  defines "start \<equiv> (\<lambda>m. nat (int m * nkt s - dm))"
  defines "n \<equiv> nat (nt s)"
  defines "d \<equiv> (\<lambda>m1 k. if start m1 \<le> k \<and> k < start m1 + K
                         then map (\<lambda>p. w ! m1 * p) pK ! (k - start m1) else 0)"
  assumes len: "length (bVec s) = n"
  shows "length (bVec (SpatialKernelSolution_addConstraint x y Q w s)) = n
       \<and> (\<forall>k<n.
            bVec (SpatialKernelSolution_addConstraint x y Q w s) ! k
              = bVec s ! k + (if constantFirstTerm s \<and> k = 0 then w ! 0 else 0)
                + sum_list (map (\<lambda>m1. d m1 k) [m0..<nb])
                + (if fitForBackground s \<and> mb \<le> k \<and> k < mb + Bt
                   then map (\<lambda>p. w ! nb * p) pB ! (k - mb) else 0))"
proof -
  define Fb where "Fb = (\<lambda>m1 b. segment_add b (start m1) K (map (\<lambda>p. w ! m1 * p) pK))"
  define bcf where
    "bcf = (if constantFirstTerm s then (bVec s)[0 := bVec s ! 0 + w ! 0] else bVec s)"
  have b': "bVec (SpatialKernelSolution_addConstraint x y Q w s)
           = (if fitForBackground s
              then segment_add (fold Fb [m0..<nb] bcf) mb Bt (map (\<lambda>p. w ! nb * p) pB)
              else fold Fb [m0..<nb] bcf)"
    unfolding Fb_def bcf_def start_def mb_def dm_def m0_def pB_def pK_def nb_def Bt_def K_def
    by (rule addConstraint_split(2))
  have bcf: "length bcf = n"
    "\<forall>k<n. bcf ! k = bVec s ! k + (if constantFirstTerm s \<and> k = 0 then w ! 0 else 0)"
    using len by (auto simp add: bcf_def nth_list_update)
  have folded: "length (fold Fb [m0..<nb] bcf) = n
      \<and> (\<forall>k<n. fold Fb [m0..<nb] bcf ! k = bcf ! k + sum_list (map (\<lambda>m1. d m1 k) [m0..<nb]))"
    by (rule fold_additive_vec[where F = Fb and b = bcf and n = n and ms = "[m0..<nb]" and d = d])
       (simp_all add: Fb_def d_def nth_segment_add bcf)
  show ?thesis
    unfolding b' using folded bcf by (simp add: nth_segment_add add.assoc)
qed

lemma block_delta_outside:
  "\<not> (r0 \<le> i \<and> i < r0 + nr \<and> c0 \<le> j \<and> j < c0 + nc) \<Longrightarrow> block_delta r0 c0 nr nc X i j = 0"
  by (auto simp add: block_delta_def)

lemma block_delta_inside:
  "i < nr \<Longrightarrow> j < nc \<Longrightarrow> block_delta r0 c0 nr nc X (r0 + i) (c0 + j) = coeff X i j"
  by (simp add: block_delta_def)

lemma start_layout:
  fixes nk :: int and cft :: bool
  defines "st \<equiv> (\<lambda>m::nat. nat (int m * nk - (if cft then nk - 1 else 0)))"
  assumes nk: "0 \<le> nk"
  shows "(if cft then 1 else 0) \<le> m \<Longrightarrow> m < m' \<Longrightarrow> st m + nat nk \<le> st m'"
    and "cft \<Longrightarrow> 1 \<le> m \<Longrightarrow> 1 \<le> st m"
proof -
  have pos: "cft \<Longrightarrow> 1 \<le> m \<Longrightarrow> 1 \<le> int m * nk - (nk - 1)" for m
  proof -
    assume "cft" "1 \<le> m"
    then obtain e where e: "m = Suc e" by (cases m) auto
    have "0 \<le> int e * nk" using nk by simp
    then show ?thesis by (simp add: e algebra_simps)
  qed
  show "cft \<Longrightarrow> 1 \<le> m \<Longrightarrow> 1 \<le> st m"
    using pos[of m] by (simp add: st_def)
  show "st m + nat nk \<le> st m'" if m: "(if cft then 1 else 0) \<le> m" "m < m'"
  proof -
    obtain e where e: "m' = Suc (m + e)" using m(2) by (metis less_iff_Suc_add)
    define a where "a = int m * nk"
    define c where "c = int e * nk"
    have nonneg: "0 \<le> a" "0 \<le> c" using nk by (simp_all add: a_def c_def)
    have step: "int m' * nk = a + nk + c" by (simp add: e a_def c_def algebra_simps)
    have low: "cft \<Longrightarrow> 1 \<le> a - (nk - 1)" using pos[of m] m(1) by (simp add: a_def)
    have "nat (a - (if cft then nk - 1 else 0)) + nat nk
            \<le> nat (a + nk + c - (if cft then nk - 1 else 0))"
      using nonneg low nk by (cases cft) auto
    then show ?thesis unfolding st_def step a_def .
  qed
qed

lemma init_sized:
  assumes "p_kernelBasisSet pol = ''alard-lupton'' \<or> p_usePcaForSpatialKernel pol
             \<Longrightarrow> basisList \<noteq> []"
  shows "SpatialKernelSolution_sized (SpatialKernelSolution_init basisList f bg pol)"
proof -
  have "1 \<le> int (length basisList)"
    if "p_kernelBasisSet pol = ''alard-lupton'' \<or> p_usePcaForSpatialKernel pol"
    using assms[OF that] by (cases basisList) simp_all
  then show ?thesis
    by (auto simp add: SpatialKernelSolution_sized_def SpatialKernelSolution_init_def Let_def)
qed

lemma addConstraint_sized:
  fixes s :: "('a::comm_semiring_1, 'k) SpatialKernelSolution"
  assumes "SpatialKernelSolution_sized s"
  shows "SpatialKernelSolution_sized (SpatialKernelSolution_addConstraint x y Q w s)"
proof -
  have dims: "rows (mMat s) = nat (nt s)" "cols (mMat s) = nat (nt s)"
    and len: "length (bVec s) = nat (nt s)"
    using assms by (simp_all add: SpatialKernelSolution_sized_def)
  note kept = addConstraint_split(3)[where s = s and x = x and y = y and Q = Q and w = w]
  note M = addConstraint_matrix_delta[OF dims, where x = x and y = y and Q = Q and w = w]
  note b = addConstraint_vector_delta[OF len, where x = x and y = y and Q = Q and w = w]
  show ?thesis
    using assms kept M[THEN conjunct1] M[THEN conjunct2, THEN conjunct1] b[THEN conjunct1]
    by (simp add: SpatialKernelSolution_sized_def)
qed
text \<open>
  C3. One call of addConstraint(x, y, Q, w) on a spatial solution of the sizes its
  constructor gives adds, for the bases m1 \<le> m2 from the first non-constant one on,
  Q(m1, m2) pK pK^T to the block of the matrix that starts at
  (m1 nKt - D, m2 nKt - D), only the upper triangle of it when m1 = m2; when the
  background is fitted it adds Q(nBases, nBases) pB pB^T to the upper triangle of the
  background block and Q(m1, nBases) pK pB^T to the cross blocks; it adds w(m1) pK and
  w(nBases) pB to the segments of the vector. solve runs the linear solver on the
  matrix whose lower triangle is a copy of the upper one: that matrix is symmetric and
  its upper triangle is the accumulated one.
\<close>

theorem addConstraint_accumulates:
  fixes s :: "('a::{comm_semiring_1,inverse,ord}, 'k) SpatialKernelSolution"
    and x y :: 'a and Q :: "'a mat" and w :: "'a list"
  defines "K \<equiv> nat (nkt s)" and "Bt \<equiv> nat (nbt s)" and "nb \<equiv> nat (nbases s)"
  defines "pK \<equiv> fst (unit_responses (spatialKernelFunction s) K x y)"
  defines "pB \<equiv> (if fitForBackground s
                  then fst (unit_responses (backgroundFunction s) Bt x y) else [])"
  defines "m0 \<equiv> (if constantFirstTerm s then 1 else (0::nat))"
  defines "dm \<equiv> (if constantFirstTerm s then nkt s - 1 else 0)"
  defines "mb \<equiv> nat (nt s - nbt s)"
  defines "start \<equiv> (\<lambda>m. nat (int m * nkt s - dm))"
  defines "n \<equiv> nat (nt s)"
  defines "s' \<equiv> SpatialKernelSolution_addConstraint x y Q w s"
  defines "Ms \<equiv> fill_lower n (mMat s)"
  assumes sized: "SpatialKernelSolution_sized s"
  shows "(\<forall>m1 m2 i j. m0 \<le> m1 \<and> m1 \<le> m2 \<and> m2 < nb \<and> i < K \<and> j < K \<longrightarrow>
            coeff (mMat s') (start m1 + i) (start m2 + j)
              = coeff (mMat s) (start m1 + i) (start m2 + j)
                + (if m1 = m2 \<and> j < i then 0 else coeff Q m1 m2 * (pK ! i * pK ! j)))
       \<and> (fitForBackground s \<longrightarrow>
            (\<forall>i j. i < Bt \<and> j < Bt \<longrightarrow>
               coeff (mMat s') (mb + i) (mb + j)
                 = coeff (mMat s) (mb + i) (mb + j)
                   + (if j < i then 0 else coeff Q nb nb * (pB ! i * pB ! j))))
       \<and> (fitForBackground s \<longrightarrow>
            (\<forall>m1 i j. m0 \<le> m1 \<and> m1 < nb \<and> i < K \<and> j < Bt \<longrightarrow>
               coeff (mMat s') (start m1 + i) (mb + j)
                 = coeff (mMat s) (start m1 + i) (mb + j)
                   + coeff Q m1 nb * (pK ! i * pB ! j)))
       \<and> (\<forall>m1 i. m0 \<le> m1 \<and> m1 < nb \<and> i < K \<longrightarrow>
            bVec s' ! (start m1 + i) = bVec s ! (start m1 + i) + w ! m1 * pK ! i)
       \<and> (fitForBackground s \<longrightarrow>
            (\<forall>i<Bt. bVec s' ! (mb + i) = bVec s ! (mb + i) + w ! nb * pB ! i))
       \<and> (\<forall>A E isnan. SpatialKernelSolution_solve A E isnan s
            = (case KernelSolution_solve E Ms (bVec s) (s\<lparr>mMat := Ms\<rparr>) of
                 (Inl e, s2) \<Rightarrow>
                   (Inl (rethrow_add e ''Unable to solve spatial kernel matrix''), s2)
               | (Inr u, s2) \<Rightarrow> SpatialKernelSolution_setKernel A E isnan s2))
       \<and> rows Ms = n \<and> cols Ms = n
       \<and> (\<forall>i<n. \<forall>j<n. coeff Ms i j = coeff Ms j i)
       \<and> (\<forall>i<n. \<forall>j<n. i \<le> j \<longrightarrow> coeff Ms i j = coeff (mMat s) i j)"
proof -
  have nk: "0 \<le> nkt s" and nbg: "0 \<le> nbt s"
    and first: "(if constantFirstTerm s then 1 else 0) \<le> nbases s"
    and total: "nt s = (if constantFirstTerm s then (nbases s - 1) * nkt s + 1 + nbt s
                        else nbases s * nkt s + nbt s)"
    and dims: "rows (mMat s) = n" "cols (mMat s) = n" and len: "length (bVec s) = n"
    using sized by (simp_all add: SpatialKernelSolution_sized_def n_def)
  have nb: "int nb = nbases s" and m0_nb: "m0 \<le> nb"
    using first by (auto simp add: nb_def m0_def split: if_splits)
  have layA: "start m + K \<le> start m'" if "m0 \<le> m" "m < m'" for m m'
    using start_layout(1)[OF nk, of "constantFirstTerm s" m m'] that
    by (simp add: start_def K_def m0_def dm_def)
  have layC: "1 \<le> start m" if "constantFirstTerm s" "1 \<le> m" for m
    using start_layout(2)[OF nk, of "constantFirstTerm s" m] that
    by (simp add: start_def dm_def)
  have part: "nt s - nbt s = int nb * nkt s - dm"
    using total by (simp add: nb dm_def algebra_simps)
  have mb: "mb = start nb"
    by (simp add: mb_def start_def part)
  have one_mb: "constantFirstTerm s \<Longrightarrow> 1 \<le> mb"
    using layC[of nb] m0_nb by (simp add: mb m0_def)
  have below: "start m + K \<le> mb" if "m0 \<le> m" "m < nb" for m
    using layA[of m nb] that by (simp add: mb)
  have n: "n = mb + Bt"
  proof -
    have "0 \<le> nt s - nbt s"
    proof (cases "constantFirstTerm s")
      case True
      then have "0 \<le> (nbases s - 1) * nkt s" using first nk by simp
      then show ?thesis using True total by simp
    next
      case False
      then have "0 \<le> nbases s * nkt s" using first nk by simp
      then show ?thesis using False total by simp
    qed
    then show ?thesis using nbg by (simp add: n_def mb_def Bt_def nat_add_distrib[symmetric])
  qed
  have lenK: "length pK = K" by (simp add: pK_def)
  have lenB: "fitForBackground s \<Longrightarrow> length pB = Bt" by (simp add: pB_def)
  define D where "D = (\<lambda>m1 i j.
      block_delta (start m1) (start m1) K K
        (triangularView_Upper (scale_right (outer pK pK) (coeff Q m1 m1))) i j
      + sum_list (map (\<lambda>m2. block_delta (start m1) (start m2) K K
                               (scalar_mul (coeff Q m1 m2) (outer pK pK)) i j) [m1 + 1..<nb])
      + (if fitForBackground s
         then block_delta (start m1) mb K Bt (scalar_mul (coeff Q m1 nb) (outer pK pB)) i j
         else 0))"
  define Dcf where "Dcf = (\<lambda>i j.
      if constantFirstTerm s then
        (if i = 0 \<and> j = 0 then coeff Q 0 0 else 0)
        + sum_list (map (\<lambda>m2. block_delta 0 (start m2) 1 K
                                 (scalar_mul (coeff Q 0 m2) (row_vec pK)) i j) [1..<nb])
        + (if fitForBackground s
           then block_delta 0 mb 1 Bt (scalar_mul (coeff Q 0 nb) (row_vec pB)) i j
           else 0)
      else 0)"
  define Dbg where "Dbg = (\<lambda>i j.
      if fitForBackground s
      then block_delta mb mb Bt Bt
             (triangularView_Upper (scale_right (outer pB pB) (coeff Q nb nb))) i j
      else 0)"
  define d where "d = (\<lambda>m1 k. if start m1 \<le> k \<and> k < start m1 + K
                         then map (\<lambda>p. w ! m1 * p) pK ! (k - start m1) else 0)"
  have "rows (mMat s') = n \<and> cols (mMat s') = n
      \<and> (\<forall>i<n. \<forall>j<n. coeff (mMat s') i j
            = coeff (mMat s) i j + Dcf i j + sum_list (map (\<lambda>m1. D m1 i j) [m0..<nb])
              + Dbg i j)"
    using dims
    unfolding D_def Dcf_def Dbg_def s'_def n_def start_def mb_def dm_def m0_def pB_def pK_def
      nb_def Bt_def K_def
    by (rule addConstraint_matrix_delta)
  then have delta: "\<forall>i<n. \<forall>j<n. coeff (mMat s') i j
        = coeff (mMat s) i j + Dcf i j + sum_list (map (\<lambda>m1. D m1 i j) [m0..<nb]) + Dbg i j"
    by simp
  have "length (bVec s') = n
      \<and> (\<forall>k<n. bVec s' ! k
            = bVec s ! k + (if constantFirstTerm s \<and> k = 0 then w ! 0 else 0)
              + sum_list (map (\<lambda>m1. d m1 k) [m0..<nb])
              + (if fitForBackground s \<and> mb \<le> k \<and> k < mb + Bt
                 then map (\<lambda>p. w ! nb * p) pB ! (k - mb) else 0))"
    using len
    unfolding d_def s'_def n_def start_def mb_def dm_def m0_def pB_def pK_def nb_def Bt_def K_def
    by (rule addConstraint_vector_delta)
  then have vdelta: "\<forall>k<n. bVec s' ! k
        = bVec s ! k + (if constantFirstTerm s \<and> k = 0 then w ! 0 else 0)
          + sum_list (map (\<lambda>m1. d m1 k) [m0..<nb])
          + (if fitForBackground s \<and> mb \<le> k \<and> k < mb + Bt
             then map (\<lambda>p. w ! nb * p) pB ! (k - mb) else 0)"
    by simp
  have other_block: "\<not> (start m \<le> start m1 + i \<and> start m1 + i < start m + K)"
    if "m0 \<le> m" "m0 \<le> m1" "m \<noteq> m1" "i < K" for m m1 i
  proof (cases "m < m1")
    case True
    then show ?thesis using layA[of m m1] that by simp
  next
    case False
    then have "m1 < m" using that by simp
    then show ?thesis using layA[of m1 m] that by simp
  qed
  have Dcf_zero: "Dcf r c = 0" if "constantFirstTerm s \<Longrightarrow> 1 \<le> r" for r c
  proof (cases "constantFirstTerm s")
    case False
    then show ?thesis by (simp add: Dcf_def)
  next
    case True
    then have "r \<noteq> 0" using that by simp
    then show ?thesis using True by (simp add: Dcf_def block_delta_def)
  qed
  have D_other: "D m r c = 0" if "\<not> (start m \<le> r \<and> r < start m + K)" for m r c
    using that by (auto simp add: D_def block_delta_def)
  have row: "coeff (mMat s') (start m1 + i) c
        = coeff (mMat s) (start m1 + i) c + D m1 (start m1 + i) c"
    if "m0 \<le> m1" "m1 < nb" "i < K" "c < n" for m1 i c
  proof -
    have r: "start m1 + i < n" using below[of m1] that by (simp add: n)
    have "constantFirstTerm s \<Longrightarrow> 1 \<le> start m1 + i"
      using layC[of m1] that by (simp add: m0_def)
    then have cf: "Dcf (start m1 + i) c = 0" by (rule Dcf_zero)
    have bg: "Dbg (start m1 + i) c = 0"
      using below[of m1] that by (simp add: Dbg_def block_delta_def)
    have "sum_list (map (\<lambda>m. D m (start m1 + i) c) [m0..<nb]) = D m1 (start m1 + i) c"
    proof (rule sum_list_single)
      show "distinct [m0..<nb]" by simp
      show "m1 \<in> set [m0..<nb]" using that by simp
      fix m assume "m \<in> set [m0..<nb]" "m \<noteq> m1"
      then show "D m (start m1 + i) c = 0"
        using other_block[of m m1 i] that by (intro D_other) simp
    qed
    then show ?thesis using delta r that cf bg by simp
  qed
  have offdiag: "D m1 (start m1 + i) (start m2 + j) = coeff Q m1 m2 * (pK ! i * pK ! j)"
    if "m0 \<le> m1" "m1 < m2" "m2 < nb" "i < K" "j < K" for m1 m2 i j
  proof -
    have first_term: "block_delta (start m1) (start m1) K K
        (triangularView_Upper (scale_right (outer pK pK) (coeff Q m1 m1)))
        (start m1 + i) (start m2 + j) = 0"
      using layA[of m1 m2] that by (intro block_delta_outside) simp
    have "sum_list (map (\<lambda>m. block_delta (start m1) (start m) K K
                               (scalar_mul (coeff Q m1 m) (outer pK pK))
                               (start m1 + i) (start m2 + j)) [m1 + 1..<nb])
          = block_delta (start m1) (start m2) K K (scalar_mul (coeff Q m1 m2) (outer pK pK))
              (start m1 + i) (start m2 + j)"
    proof (rule sum_list_single)
      show "distinct [m1 + 1..<nb]" by simp
      show "m2 \<in> set [m1 + 1..<nb]" using that by simp
      fix m assume "m \<in> set [m1 + 1..<nb]" "m \<noteq> m2"
      then show "block_delta (start m1) (start m) K K (scalar_mul (coeff Q m1 m) (outer pK pK))
                   (start m1 + i) (start m2 + j) = 0"
        using other_block[of m m2 j] that by (intro block_delta_outside) simp
    qed
    then have second_term: "sum_list (map (\<lambda>m. block_delta (start m1) (start m) K K
                               (scalar_mul (coeff Q m1 m) (outer pK pK))
                               (start m1 + i) (start m2 + j)) [m1 + 1..<nb])
          = coeff Q m1 m2 * (pK ! i * pK ! j)"
      using that by (simp add: block_delta_inside coeff_scaled_outer lenK)
    have third_term: "block_delta (start m1) mb K Bt (scalar_mul (coeff Q m1 nb) (outer pK pB))
        (start m1 + i) (start m2 + j) = 0"
      using below[of m2] that by (intro block_delta_outside) simp
    show ?thesis unfolding D_def first_term second_term third_term by simp
  qed
  have later_blocks: "sum_list (map (\<lambda>m. block_delta (start m1) (start m) K K
                               (scalar_mul (coeff Q m1 m) (outer pK pK)) r c) [m1 + 1..<nb]) = 0"
    if "m0 \<le> m1" "\<And>m. m1 < m \<Longrightarrow> m < nb \<Longrightarrow> \<not> (start m \<le> c \<and> c < start m + K)" for m1 r c
  proof (rule sum_list_none)
    fix m assume "m \<in> set [m1 + 1..<nb]"
    then show "block_delta (start m1) (start m) K K (scalar_mul (coeff Q m1 m) (outer pK pK)) r c
                 = 0"
      using that(2)[of m] by (intro block_delta_outside) simp
  qed
  have diag: "D m1 (start m1 + i) (start m1 + j)
        = (if i \<le> j then coeff Q m1 m1 * (pK ! i * pK ! j) else 0)"
    if "m0 \<le> m1" "m1 < nb" "i < K" "j < K" for m1 i j
  proof -
    have first_term: "block_delta (start m1) (start m1) K K
        (triangularView_Upper (scale_right (outer pK pK) (coeff Q m1 m1)))
        (start m1 + i) (start m1 + j)
          = (if i \<le> j then coeff Q m1 m1 * (pK ! i * pK ! j) else 0)"
      using that by (simp add: block_delta_inside coeff_upper_outer lenK)
    have second_term: "sum_list (map (\<lambda>m. block_delta (start m1) (start m) K K
                               (scalar_mul (coeff Q m1 m) (outer pK pK))
                               (start m1 + i) (start m1 + j)) [m1 + 1..<nb]) = 0"
    proof (rule later_blocks)
      show "m0 \<le> m1" by (rule that)
      fix m assume "m1 < m" "m < nb"
      then show "\<not> (start m \<le> start m1 + j \<and> start m1 + j < start m + K)"
        using layA[of m1 m] that by simp
    qed
    have third_term: "block_delta (start m1) mb K Bt (scalar_mul (coeff Q m1 nb) (outer pK pB))
        (start m1 + i) (start m1 + j) = 0"
      using below[of m1] that by (intro block_delta_outside) simp
    show ?thesis unfolding D_def first_term second_term third_term by simp
  qed
  have cross: "D m1 (start m1 + i) (mb + j) = coeff Q m1 nb * (pK ! i * pB ! j)"
    if "fitForBackground s" "m0 \<le> m1" "m1 < nb" "i < K" "j < Bt" for m1 i j
  proof -
    have first_term: "block_delta (start m1) (start m1) K K
        (triangularView_Upper (scale_right (outer pK pK) (coeff Q m1 m1)))
        (start m1 + i) (mb + j) = 0"
      using below[of m1] that by (intro block_delta_outside) simp
    have second_term: "sum_list (map (\<lambda>m. block_delta (start m1) (start m) K K
                               (scalar_mul (coeff Q m1 m) (outer pK pK))
                               (start m1 + i) (mb + j)) [m1 + 1..<nb]) = 0"
    proof (rule later_blocks)
      show "m0 \<le> m1" by (rule that)
      fix m assume "m1 < m" "m < nb"
      then show "\<not> (start m \<le> mb + j \<and> mb + j < start m + K)"
        using below[of m] that by simp
    qed
    have third_term: "block_delta (start m1) mb K Bt (scalar_mul (coeff Q m1 nb) (outer pK pB))
        (start m1 + i) (mb + j) = coeff Q m1 nb * (pK ! i * pB ! j)"
      using that by (simp add: block_delta_inside coeff_scaled_outer lenK lenB)
    show ?thesis unfolding D_def first_term second_term third_term using that by simp
  qed
  have background: "coeff (mMat s') (mb + i) (mb + j)
        = coeff (mMat s) (mb + i) (mb + j)
          + (if j < i then 0 else coeff Q nb nb * (pB ! i * pB ! j))"
    if "fitForBackground s" "i < Bt" "j < Bt" for i j
  proof -
    have "constantFirstTerm s \<Longrightarrow> 1 \<le> mb + i" using one_mb by simp
    then have cf: "Dcf (mb + i) (mb + j) = 0" by (rule Dcf_zero)
    have kernel: "sum_list (map (\<lambda>m. D m (mb + i) (mb + j)) [m0..<nb]) = 0"
    proof (rule sum_list_none)
      fix m assume "m \<in> set [m0..<nb]"
      then show "D m (mb + i) (mb + j) = 0"
        using below[of m] by (intro D_other) simp
    qed
    have bg: "Dbg (mb + i) (mb + j) = (if i \<le> j then coeff Q nb nb * (pB ! i * pB ! j) else 0)"
      using that by (simp add: Dbg_def block_delta_inside coeff_upper_outer lenB)
    show ?thesis using delta that cf kernel bg by (simp add: n)
  qed
  have vector: "bVec s' ! (start m1 + i) = bVec s ! (start m1 + i) + w ! m1 * pK ! i"
    if "m0 \<le> m1" "m1 < nb" "i < K" for m1 i
  proof -
    have r: "start m1 + i < n" using below[of m1] that by (simp add: n)
    have cf: "\<not> (constantFirstTerm s \<and> start m1 + i = 0)"
      using layC[of m1] that by (auto simp add: m0_def)
    have bg: "\<not> (fitForBackground s \<and> mb \<le> start m1 + i \<and> start m1 + i < mb + Bt)"
      using below[of m1] that by simp
    have "sum_list (map (\<lambda>m. d m (start m1 + i)) [m0..<nb]) = d m1 (start m1 + i)"
    proof (rule sum_list_single)
      show "distinct [m0..<nb]" by simp
      show "m1 \<in> set [m0..<nb]" using that by simp
      fix m assume "m \<in> set [m0..<nb]" "m \<noteq> m1"
      then show "d m (start m1 + i) = 0"
        using other_block[of m m1 i] that by (auto simp add: d_def)
    qed
    then have kernel: "sum_list (map (\<lambda>m. d m (start m1 + i)) [m0..<nb]) = w ! m1 * pK ! i"
      using that by (simp add: d_def lenK)
    have "bVec s' ! (start m1 + i)
        = bVec s ! (start m1 + i)
          + (if constantFirstTerm s \<and> start m1 + i = 0 then w ! 0 else 0)
          + sum_list (map (\<lambda>m. d m (start m1 + i)) [m0..<nb])
          + (if fitForBackground s \<and> mb \<le> start m1 + i \<and> start m1 + i < mb + Bt
             then map (\<lambda>p. w ! nb * p) pB ! (start m1 + i - mb) else 0)"
      using vdelta r by blast
    then show ?thesis unfolding kernel if_not_P[OF cf] if_not_P[OF bg] by simp
  qed
  have vector_bg: "bVec s' ! (mb + i) = bVec s ! (mb + i) + w ! nb * pB ! i"
    if "fitForBackground s" "i < Bt" for i
  proof -
    have cf: "\<not> (constantFirstTerm s \<and> mb + i = 0)" using one_mb by auto
    have "sum_list (map (\<lambda>m. d m (mb + i)) [m0..<nb]) = 0"
    proof (rule sum_list_none)
      fix m assume "m \<in> set [m0..<nb]"
      then show "d m (mb + i) = 0" using below[of m] by (simp add: d_def)
    qed
    then have kernel: "sum_list (map (\<lambda>m. d m (mb + i)) [m0..<nb]) = 0" .
    have "mb + i < n" using that by (simp add: n)
    then have "bVec s' ! (mb + i)
        = bVec s ! (mb + i)
          + (if constantFirstTerm s \<and> mb + i = 0 then w ! 0 else 0)
          + sum_list (map (\<lambda>m. d m (mb + i)) [m0..<nb])
          + (if fitForBackground s \<and> mb \<le> mb + i \<and> mb + i < mb + Bt
             then map (\<lambda>p. w ! nb * p) pB ! (mb + i - mb) else 0)"
      using vdelta by blast
    then show ?thesis unfolding kernel if_not_P[OF cf] using that by (simp add: lenB)
  qed
  have kernel_blocks: "coeff (mMat s') (start m1 + i) (start m2 + j)
        = coeff (mMat s) (start m1 + i) (start m2 + j)
          + (if m1 = m2 \<and> j < i then 0 else coeff Q m1 m2 * (pK ! i * pK ! j))"
    if "m0 \<le> m1" "m1 \<le> m2" "m2 < nb" "i < K" "j < K" for m1 m2 i j
  proof -
    have c: "start m2 + j < n" using below[of m2] that by (simp add: n)
    show ?thesis
    proof (cases "m1 = m2")
      case True
      then show ?thesis using row[of m1 i "start m2 + j"] diag[of m1 i j] that c by auto
    next
      case False
      then show ?thesis
        using row[of m1 i "start m2 + j"] offdiag[of m1 m2 i j] that c by simp
    qed
  qed
  have cross_blocks: "coeff (mMat s') (start m1 + i) (mb + j)
        = coeff (mMat s) (start m1 + i) (mb + j) + coeff Q m1 nb * (pK ! i * pB ! j)"
    if "fitForBackground s" "m0 \<le> m1" "m1 < nb" "i < K" "j < Bt" for m1 i j
    using row[of m1 i "mb + j"] cross[of m1 i j] that by (simp add: n)
  have filled: "rows Ms = n \<and> cols Ms = n
      \<and> (\<forall>r<n. \<forall>c<n. coeff Ms r c = (if c < r then coeff (mMat s) c r else coeff (mMat s) r c))"
    unfolding Ms_def using dims by (rule fill_lower_coeff)
  have solve: "SpatialKernelSolution_solve A E isnan s
      = (case KernelSolution_solve E Ms (bVec s) (s\<lparr>mMat := Ms\<rparr>) of
           (Inl e, s2) \<Rightarrow> (Inl (rethrow_add e ''Unable to solve spatial kernel matrix''), s2)
         | (Inr u, s2) \<Rightarrow> SpatialKernelSolution_setKernel A E isnan s2)" for A E isnan
    by (simp add: SpatialKernelSolution_solve_def Let_def Ms_def n_def)
  have mirrored: "\<forall>i<n. \<forall>j<n. coeff Ms i j = coeff Ms j i"
    using filled by auto
  have upper: "\<forall>i<n. \<forall>j<n. i \<le> j \<longrightarrow> coeff Ms i j = coeff (mMat s) i j"
    using filled by auto
  have P1: "\<forall>m1 m2 i j. m0 \<le> m1 \<and> m1 \<le> m2 \<and> m2 < nb \<and> i < K \<and> j < K \<longrightarrow>
            coeff (mMat s') (start m1 + i) (start m2 + j)
              = coeff (mMat s) (start m1 + i) (start m2 + j)
                + (if m1 = m2 \<and> j < i then 0 else coeff Q m1 m2 * (pK ! i * pK ! j))"
    using kernel_blocks by blast
  have P2: "fitForBackground s \<longrightarrow>
            (\<forall>i j. i < Bt \<and> j < Bt \<longrightarrow>
               coeff (mMat s') (mb + i) (mb + j)
                 = coeff (mMat s) (mb + i) (mb + j)
                   + (if j < i then 0 else coeff Q nb nb * (pB ! i * pB ! j)))"
    using background by blast
  have P3: "fitForBackground s \<longrightarrow>
            (\<forall>m1 i j. m0 \<le> m1 \<and> m1 < nb \<and> i < K \<and> j < Bt \<longrightarrow>
               coeff (mMat s') (start m1 + i) (mb + j)
                 = coeff (mMat s) (start m1 + i) (mb + j)
                   + coeff Q m1 nb * (pK ! i * pB ! j))"
    using cross_blocks by blast
  have P4: "\<forall>m1 i. m0 \<le> m1 \<and> m1 < nb \<and> i < K \<longrightarrow>
            bVec s' ! (start m1 + i) = bVec s ! (start m1 + i) + w ! m1 * pK ! i"
    using vector by blast
  have P5: "fitForBackground s \<longrightarrow>
            (\<forall>i<Bt. bVec s' ! (mb + i) = bVec s ! (mb + i) + w ! nb * pB ! i)"
    using vector_bg by blast
  have P6: "\<forall>A E isnan. SpatialKernelSolution_solve A E isnan s
            = (case KernelSolution_solve E Ms (bVec s) (s\<lparr>mMat := Ms\<rparr>) of
                 (Inl e, s2) \<Rightarrow>
                   (Inl (rethrow_add e ''Unable to solve spatial kernel matrix''), s2)
               | (Inr u, s2) \<Rightarrow> SpatialKernelSolution_setKernel A E isnan s2)"
    using solve by (intro allI)
  have P7: "rows Ms = n" and P8: "cols Ms = n" using filled by simp_all
  show ?thesis
    by (intro conjI) (rule P1 P2 P3 P4 P5 P6 P7 P8 mirrored upper)+
qed
lemma upt_2_from_0: "[0..<2] = [0, 1]"
  by (simp add: upt_rec)

lemma accumulating_spatial_fields:
  "nkt accumulating_spatial = 2" "nbt accumulating_spatial = 2"
  "nbases accumulating_spatial = 2" "nt accumulating_spatial = 6"
  "constantFirstTerm accumulating_spatial = False"
  "fitForBackground accumulating_spatial = True"
  "spatialKernelFunction accumulating_spatial = linear_function"
  "backgroundFunction accumulating_spatial = tilted_function"
  "mMat accumulating_spatial = mk 6 6 (\<lambda>i j. of_nat (6 * i + j))"
  "bVec accumulating_spatial = [1, 2, 3, 4, 5, 6]"
  by (simp_all add: accumulating_spatial_def SpatialKernelSolution_init_def Let_def
        linear_function_def tilted_function_def real_policy_def)

lemma accumulating_spatial_sized: "SpatialKernelSolution_sized accumulating_spatial"
  by (simp add: SpatialKernelSolution_sized_def accumulating_spatial_fields)

lemma linear_responses: "fst (unit_responses linear_function 2 x y) = [1, x]"
  by (simp add: unit_responses_def linear_function_def upt_2_from_0 Let_def)

lemma tilted_responses: "fst (unit_responses tilted_function 2 x y) = [1, y]"
  by (simp add: unit_responses_def tilted_function_def upt_2_from_0 Let_def)

lemma stamp_Q_coeffs:
  "coeff stamp_Q 0 (Suc 0) = 5" "coeff stamp_Q (Suc 0) (Suc 0) = 11" "coeff stamp_Q 2 2 = 17"
  "coeff stamp_Q 0 2 = 7"
  by (simp_all add: coeff_def stamp_Q_def)

theorem addConstraint_accumulates_witness:
  "SpatialKernelSolution_sized accumulating_spatial
   \<and> coeff (mMat (SpatialKernelSolution_addConstraint 3 2 stamp_Q stamp_w accumulating_spatial)) 1 3
       = 9 + 5 * (3 * 3)
   \<and> coeff (mMat (SpatialKernelSolution_addConstraint 3 2 stamp_Q stamp_w accumulating_spatial)) 2 3
       = 15 + 11 * (1 * 3)
   \<and> coeff (mMat (SpatialKernelSolution_addConstraint 3 2 stamp_Q stamp_w accumulating_spatial)) 3 2
       = 20
   \<and> coeff (mMat (SpatialKernelSolution_addConstraint 3 2 stamp_Q stamp_w accumulating_spatial)) 4 5
       = 29 + 17 * (1 * 2)
   \<and> coeff (mMat (SpatialKernelSolution_addConstraint 3 2 stamp_Q stamp_w accumulating_spatial)) 5 4
       = 34
   \<and> coeff (mMat (SpatialKernelSolution_addConstraint 3 2 stamp_Q stamp_w accumulating_spatial)) 1 5
       = 11 + 7 * (3 * 2)
   \<and> bVec (SpatialKernelSolution_addConstraint 3 2 stamp_Q stamp_w accumulating_spatial) ! 3
       = 4 + 23 * 3
   \<and> bVec (SpatialKernelSolution_addConstraint 3 2 stamp_Q stamp_w accumulating_spatial) ! 5
       = 6 + 29 * 2
   \<and> coeff (fill_lower 6 (mMat accumulating_spatial)) 3 1 = 9
   \<and> coeff (fill_lower 6 (mMat accumulating_spatial)) 1 3 = 9"
proof -
  note acc = addConstraint_accumulates[OF accumulating_spatial_sized,
      where x = 3 and y = 2 and Q = stamp_Q and w = stamp_w]
  note vals = accumulating_spatial_fields linear_responses tilted_responses coeff_mk
    stamp_Q_coeffs stamp_w_def
  let ?s' = "SpatialKernelSolution_addConstraint 3 2 stamp_Q stamp_w accumulating_spatial"
  have e1: "coeff (mMat ?s') 1 3 = 9 + 5 * (3 * 3)"
    using acc[THEN conjunct1, THEN spec[of _ "0::nat"], THEN spec[of _ "1::nat"],
              THEN spec[of _ "1::nat"], THEN spec[of _ "1::nat"]]
    by (simp add: vals)
  have e2: "coeff (mMat ?s') 2 3 = 15 + 11 * (1 * 3)"
    using acc[THEN conjunct1, THEN spec[of _ "1::nat"], THEN spec[of _ "1::nat"],
              THEN spec[of _ "0::nat"], THEN spec[of _ "1::nat"]]
    by (simp add: vals)
  have e3: "coeff (mMat ?s') 3 2 = 20"
    using acc[THEN conjunct1, THEN spec[of _ "1::nat"], THEN spec[of _ "1::nat"],
              THEN spec[of _ "1::nat"], THEN spec[of _ "0::nat"]]
    by (simp add: vals)
  have e4: "coeff (mMat ?s') 4 5 = 29 + 17 * (1 * 2)"
    using acc[THEN conjunct2, THEN conjunct1, THEN mp, THEN spec[of _ "0::nat"],
              THEN spec[of _ "1::nat"]]
    by (simp add: vals)
  have e4': "coeff (mMat ?s') 5 4 = 34"
    using acc[THEN conjunct2, THEN conjunct1, THEN mp, THEN spec[of _ "1::nat"],
              THEN spec[of _ "0::nat"]]
    by (simp add: vals)
  have e5: "coeff (mMat ?s') 1 5 = 11 + 7 * (3 * 2)"
    using acc[THEN conjunct2, THEN conjunct2, THEN conjunct1, THEN mp,
              THEN spec[of _ "0::nat"], THEN spec[of _ "1::nat"], THEN spec[of _ "1::nat"]]
    by (simp add: vals)
  have e6: "bVec ?s' ! 3 = 4 + 23 * 3"
    using acc[THEN conjunct2, THEN conjunct2, THEN conjunct2, THEN conjunct1,
              THEN spec[of _ "1::nat"], THEN spec[of _ "1::nat"]]
    by (simp add: vals)
  have e7: "bVec ?s' ! 5 = 6 + 29 * 2"
    using acc[THEN conjunct2, THEN conjunct2, THEN conjunct2, THEN conjunct2, THEN conjunct1,
              THEN mp, THEN spec[of _ "1::nat"]]
    by (simp add: vals)
  note filled = acc[THEN conjunct2, THEN conjunct2, THEN conjunct2, THEN conjunct2,
      THEN conjunct2, THEN conjunct2, THEN conjunct2, THEN conjunct2]
  have e9: "coeff (fill_lower 6 (mMat accumulating_spatial)) 1 3 = 9"
    using filled[THEN conjunct2, THEN spec[of _ "1::nat"], THEN mp, THEN spec[of _ "3::nat"]]
    by (simp add: vals)
  have e8: "coeff (fill_lower 6 (mMat accumulating_spatial)) 3 1 = 9"
    using filled[THEN conjunct1, THEN spec[of _ "3::nat"], THEN mp, THEN spec[of _ "1::nat"]] e9
    by (simp add: vals)
  show ?thesis
    using accumulating_spatial_sized e1 e2 e3 e4 e4' e5 e6 e7 e8 e9 by (intro conjI)
qed

text \<open>
  The lower triangle of the background block is not accumulated: with two background
  terms the coefficient (5, 4) of the matrix keeps its value 34 through addConstraint,
  where the whole of Q(nBases, nBases) pB pB^T would have made it 34 + 17 (2 1) = 68.
\<close>

theorem addConstraint_background_lower_counterexample:
  "coeff (mMat (SpatialKernelSolution_addConstraint 3 2 stamp_Q stamp_w accumulating_spatial)) 5 4
     = 34
   \<and> coeff (mMat accumulating_spatial) 5 4
       + coeff stamp_Q (nat (nbases accumulating_spatial)) (nat (nbases accumulating_spatial))
         * (fst (unit_responses (backgroundFunction accumulating_spatial)
                   (nat (nbt accumulating_spatial)) 3 2) ! 1
            * fst (unit_responses (backgroundFunction accumulating_spatial)
                     (nat (nbt accumulating_spatial)) 3 2) ! 0)
     = 68"
proof -
  note vals = accumulating_spatial_fields linear_responses tilted_responses coeff_mk
    stamp_Q_coeffs stamp_w_def
  have dims: "rows (mMat accumulating_spatial) = nat (nt accumulating_spatial)"
    "cols (mMat accumulating_spatial) = nat (nt accumulating_spatial)"
    by (simp_all add: accumulating_spatial_fields)
  note delta = addConstraint_matrix_delta[OF dims,
      where x = 3 and y = 2 and Q = stamp_Q and w = stamp_w,
      THEN conjunct2, THEN conjunct2, THEN spec[of _ "5::nat"], THEN mp,
      THEN spec[of _ "4::nat"], THEN mp]
  have lower: "coeff (triangularView_Upper (scale_right (outer [1, 2] [1, 2]) (17::real)))
                 (Suc 0) 0 = 0"
    using coeff_upper_outer[of "Suc 0" "[1, 2::real]" 0 "[1, 2::real]" 17] by simp
  have "coeff (mMat (SpatialKernelSolution_addConstraint 3 2 stamp_Q stamp_w
                       accumulating_spatial)) 5 4 = 34"
    using delta lower by (simp add: vals block_delta_def upt_2_from_0 upt_rec)
  then show ?thesis by (simp add: vals)
qed

end
